(* ===== verification/Prelude.thy ===== *)
theory Prelude
  imports Complex_Main "HOL-Library.List_Lexorder" "HOL-Library.Char_ord"
    "HOL-Library.Product_Lexorder" "HOL-Library.Multiset"
begin

text \<open>
  Shared vocabulary of the GitFolio model.
  \<^item> The outcome of one request to the GitHub API (PyGithub raises
    \<open>GithubException\<close> on failure) is a value of \<open>'a fetch\<close>: \<open>Inl\<close> of an
    \<open>api_error\<close> or \<open>Inr\<close> of the payload.  The analyzer swallows almost every such
    failure with a bare \<open>except:\<close> and substitutes a default (\<open>fetch_or\<close>).
  \<^item> Python's truthiness on optional strings (\<open>x or d\<close>, \<open>if x:\<close>) is
    \<open>str_or\<close> and \<open>str_truthy\<close>.
  \<^item> \<open>collections.Counter\<close> is an association list in insertion order (a Python
    dict keeps insertion order, and \<open>most_common\<close> breaks ties by it).
  \<^item> Python's \<open>round(x, n)\<close> is round-half-to-even at \<open>n\<close> decimals, on the exact
    real value of the float (\<open>py_round\<close>).
  \<^item> Decimal rendering of naturals, zero-padded (\<open>dec_digits\<close>, as \<open>%04d\<close>)
    and plain (\<open>nat_str\<close>, as \<open>str(n)\<close>).
\<close>

named_theorems model_simps "evaluation rules of the model's helpers"

section \<open>API outcomes\<close>

datatype api_error = Permission_Denied | Not_Found | Rate_Limited | Server_Error
  | Malformed_Response

type_synonym 'a fetch = "api_error + 'a"

definition fetch_or :: "'a \<Rightarrow> 'a fetch \<Rightarrow> 'a" where
  "fetch_or d r = (case r of Inl _ \<Rightarrow> d | Inr x \<Rightarrow> x)"

section \<open>Python truthiness on optional strings\<close>

definition str_truthy :: "string option \<Rightarrow> bool" where
  "str_truthy x = (case x of None \<Rightarrow> False | Some s \<Rightarrow> s \<noteq> [])"

definition str_or :: "string option \<Rightarrow> string \<Rightarrow> string" where
  "str_or x d = (case x of None \<Rightarrow> d | Some s \<Rightarrow> if s = [] then d else s)"

section \<open>Counters as association lists\<close>

type_synonym 'k counter = "('k \<times> nat) list"

text \<open>\<open>c[k] += n\<close>: an existing key keeps its position, a new key goes last.\<close>

fun counter_add :: "'k \<Rightarrow> nat \<Rightarrow> 'k counter \<Rightarrow> 'k counter" where
  "counter_add k n [] = [(k, n)]"
| "counter_add k n ((k', m) # c) =
     (if k = k' then (k', m + n) # c else (k', m) # counter_add k n c)"

definition counter_get :: "'k counter \<Rightarrow> 'k \<Rightarrow> nat" where
  "counter_get c k = (case map_of c k of None \<Rightarrow> 0 | Some n \<Rightarrow> n)"

definition counter_total :: "'k counter \<Rightarrow> nat" where
  "counter_total c = sum_list (map snd c)"

text \<open>
  \<open>Counter.most_common(n)\<close> is \<open>heapq.nlargest(n, items, key=count)\<close>, which is
  documented as \<open>sorted(items, key=count, reverse=True)[:n]\<close>: a stable sort,
  descending by count, ties in insertion order.
\<close>

definition most_common :: "nat \<Rightarrow> 'k counter \<Rightarrow> ('k \<times> nat) list" where
  "most_common n c = take n (sort_key (\<lambda>kv. - int (snd kv)) c)"

section \<open>Python's sorting and selection\<close>

text \<open>\<open>sorted(xs, key=f, reverse=True)\<close>.  CPython sorts with \<open>reverse=True\<close> by
  reversing the list, sorting it stably and reversing the result, so that items with
  equal keys keep their original order.\<close>

definition py_sorted_desc :: "('a \<Rightarrow> 'k::linorder) \<Rightarrow> 'a list \<Rightarrow> 'a list" where
  "py_sorted_desc f xs = rev (sort_key f (rev xs))"

text \<open>\<open>sorted(xs, key=f, reverse=True)[:n]\<close>.\<close>

definition top_by :: "('a \<Rightarrow> 'k::linorder) \<Rightarrow> nat \<Rightarrow> 'a list \<Rightarrow> 'a list" where
  "top_by f n xs = take n (py_sorted_desc f xs)"

text \<open>\<open>max(xs, key=f)\<close> as CPython's loop computes it: the running maximum is
  replaced only by a strictly greater item, so the first maximal item wins.
  \<open>Counter.most_common(1)\<close> is \<open>heapq.nlargest(1, ...)\<close>, which calls this
  \<open>max\<close>.\<close>

fun max_by_loop :: "('a \<Rightarrow> 'k::linorder) \<Rightarrow> 'a \<Rightarrow> 'a list \<Rightarrow> 'a" where
  "max_by_loop f m [] = m"
| "max_by_loop f m (x # xs) = max_by_loop f (if f m < f x then x else m) xs"

text \<open>\<open>sep.join(xs)\<close>.\<close>

fun py_join :: "string \<Rightarrow> string list \<Rightarrow> string" where
  "py_join sep [] = []"
| "py_join sep [x] = x"
| "py_join sep (x # y # xs) = x @ sep @ py_join sep (y # xs)"

section \<open>Python rounding\<close>

definition round_half_even :: "real \<Rightarrow> int" where
  "round_half_even x =
     (let f = \<lfloor>x\<rfloor>; d = x - of_int f in
      if d < 1/2 then f else if 1/2 < d then f + 1 else if even f then f else f + 1)"

definition py_round :: "real \<Rightarrow> nat \<Rightarrow> real" where
  "py_round x n = of_int (round_half_even (x * 10 ^ n)) / 10 ^ n"

section \<open>Decimal rendering\<close>

definition digit_char :: "nat \<Rightarrow> char" where
  "digit_char d = char_of (48 + d)"

text \<open>\<open>dec_digits w n\<close>: the last \<open>w\<close> decimal digits of \<open>n\<close>, zero-padded (\<open>%0wd\<close>).\<close>

fun dec_digits :: "nat \<Rightarrow> nat \<Rightarrow> string" where
  "dec_digits 0 n = []"
| "dec_digits (Suc w) n = digit_char (n div 10 ^ w mod 10) # dec_digits w n"

text \<open>\<open>str(n)\<close> for a natural number: no padding.\<close>

fun nat_str :: "nat \<Rightarrow> string" where
  "nat_str n = (if n < 10 then [digit_char n] else nat_str (n div 10) @ [digit_char (n mod 10)])"

declare nat_str.simps [simp del]

text \<open>Reading a digit string back (\<open>int(s)\<close> on a string of decimal digits).\<close>

definition digits_val :: "string \<Rightarrow> nat" where
  "digits_val s = foldl (\<lambda>acc c. acc * 10 + (of_char c - 48)) 0 s"

section \<open>Lemmas: outcomes and truthiness\<close>

lemma fetch_or_Inl [simp, model_simps]: "fetch_or d (Inl e) = d"
  and fetch_or_Inr [simp, model_simps]: "fetch_or d (Inr x) = x"
  by (simp_all add: fetch_or_def)

lemma str_or_simps [simp, model_simps]:
  "str_or None d = d" "str_or (Some s) d = (if s = [] then d else s)"
  "str_truthy None = False" "str_truthy (Some s) = (s \<noteq> [])"
  by (simp_all add: str_or_def str_truthy_def)

section \<open>Lemmas: counters and sorting\<close>

lemma keys_counter_add: "fst ` set (counter_add k n c) = insert k (fst ` set c)"
  by (induction k n c rule: counter_add.induct) auto

lemma distinct_counter_add [intro]:
  "distinct (map fst c) \<Longrightarrow> distinct (map fst (counter_add k n c))"
  by (induction k n c rule: counter_add.induct) (auto simp: keys_counter_add)

lemma counter_get_Nil [simp]: "counter_get [] k = 0"
  by (simp add: counter_get_def)

lemma counter_get_add [simp]:
  "counter_get (counter_add k n c) k' = counter_get c k' + (if k' = k then n else 0)"
  by (induction k n c rule: counter_add.induct) (auto simp: counter_get_def split: option.splits)

lemma counter_total_add [simp]: "counter_total (counter_add k n c) = counter_total c + n"
  by (induction k n c rule: counter_add.induct) (simp_all add: counter_total_def)

lemma counter_total_Nil [simp]: "counter_total [] = 0"
  by (simp add: counter_total_def)

lemma counter_total_member: "(k, m) \<in> set c \<Longrightarrow> m \<le> counter_total c"
  unfolding counter_total_def by (induction c) auto

lemma length_most_common: "length (most_common n c) = min n (length c)"
  by (simp add: most_common_def)

lemma set_most_common: "set (most_common n c) \<subseteq> set c"
  by (auto simp: most_common_def dest: in_set_takeD)

lemma sorted_take_map: "sorted (map f xs) \<Longrightarrow> sorted (map f (take n xs))"
  by (simp add: sorted_wrt_take take_map [symmetric])

lemma most_common_sorted:
  "sorted (map (\<lambda>kv. - int (snd kv)) (most_common n c))"
  unfolding most_common_def by (rule sorted_take_map) (rule sorted_sort_key)

lemma length_filter_take_le [simp]: "length (filter P (take n xs)) \<le> n"
  by (metis length_filter_le length_take min.bounded_iff order_trans nle_le)

lemma most_common_dominates:
  assumes "x \<in> set (most_common n c)" "y \<in> set c" "y \<notin> set (most_common n c)"
  shows "snd y \<le> snd x"
proof -
  let ?f = "\<lambda>kv. - int (snd kv)"
  let ?s = "sort_key ?f c"
  have "sorted (map ?f (take n ?s) @ map ?f (drop n ?s))"
    by (metis append_take_drop_id map_append sorted_sort_key)
  then have le: "\<forall>a \<in> set (take n ?s). \<forall>b \<in> set (drop n ?s). ?f a \<le> ?f b"
    unfolding sorted_append by auto
  have "y \<in> set (take n ?s) \<union> set (drop n ?s)"
    using assms(2) by (metis append_take_drop_id set_append set_sort)
  with assms(3) have "y \<in> set (drop n ?s)" by (auto simp: most_common_def)
  with le assms(1) have "?f x \<le> ?f y" by (simp add: most_common_def)
  then show ?thesis by simp
qed

lemma mset_py_sorted_desc [simp]: "mset (py_sorted_desc f xs) = mset xs"
  by (simp add: py_sorted_desc_def)

lemma set_py_sorted_desc [simp]: "set (py_sorted_desc f xs) = set xs"
  by (simp add: py_sorted_desc_def)

lemma length_py_sorted_desc [simp]: "length (py_sorted_desc f xs) = length xs"
  by (simp add: py_sorted_desc_def)

lemma py_sorted_desc_sorted: "sorted_wrt (\<lambda>a b. f b \<le> f a) (py_sorted_desc f xs)"
proof -
  have "sorted_wrt (\<lambda>a b. f a \<le> f b) (sort_key f (rev xs))"
    using sorted_sort_key [of f "rev xs"] by (simp add: sorted_wrt_map)
  then show ?thesis by (simp add: py_sorted_desc_def sorted_wrt_rev)
qed

lemma py_sorted_desc_stable:
  "filter (\<lambda>y. f y = k) (py_sorted_desc f xs) = filter (\<lambda>y. f y = k) xs"
  by (simp add: py_sorted_desc_def rev_filter [symmetric] sort_key_stable)

lemma length_top_by: "length (top_by f n xs) = min n (length xs)"
  by (simp add: top_by_def)

lemma mset_top_by: "mset (top_by f n xs) \<subseteq># mset xs"
  by (metis append_take_drop_id mset_append mset_py_sorted_desc mset_subset_eq_add_left top_by_def)

lemma set_top_by: "set (top_by f n xs) \<subseteq> set xs"
  using set_mset_mono [OF mset_top_by] by simp

lemma top_by_sorted: "sorted_wrt (\<lambda>a b. f b \<le> f a) (top_by f n xs)"
  unfolding top_by_def by (rule sorted_wrt_take) (rule py_sorted_desc_sorted)

lemma top_by_dominates:
  assumes "x \<in> set (top_by f n xs)" "y \<in># mset xs - mset (top_by f n xs)"
  shows "f y \<le> f x"
proof -
  let ?s = "py_sorted_desc f xs"
  have "sorted_wrt (\<lambda>a b. f b \<le> f a) (take n ?s @ drop n ?s)"
    using py_sorted_desc_sorted [of f xs] by simp
  then have le: "\<forall>a \<in> set (take n ?s). \<forall>b \<in> set (drop n ?s). f b \<le> f a"
    unfolding sorted_wrt_append by blast
  have "mset xs - mset (take n ?s) = mset (drop n ?s)"
    by (metis add_diff_cancel_left' append_take_drop_id mset_append mset_py_sorted_desc)
  with assms(2) have "y \<in> set (drop n ?s)" by (simp add: top_by_def)
  with le assms(1) show ?thesis by (simp add: top_by_def)
qed

lemma filter_take_prefix:
  "filter P (take n ys) = take (length (filter P (take n ys))) (filter P ys)"
proof (induction ys arbitrary: n)
  case (Cons y ys)
  then show ?case by (cases n) simp_all
qed simp

lemma top_by_stable:
  "filter (\<lambda>y. f y = k) (top_by f n xs) =
   take (length (filter (\<lambda>y. f y = k) (top_by f n xs))) (filter (\<lambda>y. f y = k) xs)"
  using filter_take_prefix [of "\<lambda>y. f y = k" n "py_sorted_desc f xs"]
  by (simp add: top_by_def py_sorted_desc_stable)

lemma py_sorted_desc_nat:
  fixes f :: "'a \<Rightarrow> nat"
  shows "py_sorted_desc f xs = sort_key (\<lambda>x. - int (f x)) xs"
proof (rule properties_for_sort_key [symmetric])
  show "mset (py_sorted_desc f xs) = mset xs" by simp
  show "sorted (map (\<lambda>x. - int (f x)) (py_sorted_desc f xs))"
    using py_sorted_desc_sorted [of f xs] by (simp add: sorted_wrt_map)
  fix k
  have eq: "(\<lambda>x. - int (f k) = - int (f x)) = (\<lambda>y. f y = f k)" by auto
  show "filter (\<lambda>x. - int (f k) = - int (f x)) (py_sorted_desc f xs) =
        filter (\<lambda>x. - int (f k) = - int (f x)) xs"
    unfolding eq by (rule py_sorted_desc_stable)
qed

lemma most_common_top_by: "most_common n c = top_by snd n c"
  by (simp add: most_common_def top_by_def py_sorted_desc_nat)

lemma hd_py_sorted_desc:
  assumes "ys \<noteq> []"
  shows "hd (py_sorted_desc f ys) = hd (filter (\<lambda>y. f y = Max (f ` set ys)) ys)"
proof -
  let ?s = "py_sorted_desc f ys"
  have "length ?s \<noteq> 0" using assms by simp
  then obtain h t where s: "?s = h # t" by (cases ?s) auto
  have "h \<in> set ys" using s set_py_sorted_desc [of f ys] by (metis list.set_intros(1))
  moreover have "\<forall>y \<in> set ys. f y \<le> f h"
    using py_sorted_desc_sorted [of f ys] s set_py_sorted_desc [of f ys] by auto
  ultimately have M: "Max (f ` set ys) = f h" by (intro Max_eqI) auto
  have "filter (\<lambda>y. f y = f h) ys = h # filter (\<lambda>y. f y = f h) t"
    using s py_sorted_desc_stable [of f "f h" ys] by simp
  then show ?thesis using s by (simp add: M)
qed

lemma max_by_loop_first_max:
  "max_by_loop f m xs = hd (filter (\<lambda>y. f y = Max (f ` set (m # xs))) (m # xs))"
proof (induction xs arbitrary: m)
  case Nil
  then show ?case by simp
next
  case (Cons x xs)
  let ?M = "Max (f ` set (x # xs))"
  have fin: "f x \<le> ?M" by simp
  show ?case
  proof (cases "f m < f x")
    case True
    then have "f m \<le> ?M" using fin by (meson less_imp_le order_trans)
    then have "Max (f ` set (m # x # xs)) = ?M" by (simp add: max_def)
    with True Cons.IH [of x] fin show ?thesis by auto
  next
    case False
    let ?N = "Max (f ` set (m # xs))"
    have "f m \<le> ?N" by simp
    then have "f x \<le> ?N" using False by (meson not_less order_trans)
    then have N: "Max (f ` set (m # x # xs)) = ?N"
      by (simp add: insert_commute [of "f m" "f x"] max_def)
    have step: "max_by_loop f m (x # xs) = hd (filter (\<lambda>y. f y = ?N) (m # xs))"
      using False Cons.IH [of m] by simp
    show ?thesis
    proof (cases "f m = ?N")
      case True
      have "hd (filter (\<lambda>y. f y = ?N) (m # xs)) = hd (filter (\<lambda>y. f y = ?N) (m # x # xs))"
        by (simp only: filter.simps if_P [OF True] list.sel(1))
      with step show ?thesis unfolding N by simp
    next
      case ne: False
      have "f m < ?N" using ne \<open>f m \<le> ?N\<close> order_less_le by blast
      then have fx: "f x \<noteq> ?N" using False by (metis not_less order_le_less_trans less_irrefl)
      have "hd (filter (\<lambda>y. f y = ?N) (m # xs)) = hd (filter (\<lambda>y. f y = ?N) (m # x # xs))"
        by (simp only: filter.simps if_not_P [OF ne] if_not_P [OF fx])
      with step show ?thesis unfolding N by simp
    qed
  qed
qed

lemma most_common_one:
  "c \<noteq> [] \<Longrightarrow> most_common 1 c = [max_by_loop snd (hd c) (tl c)]"
proof -
  assume "c \<noteq> []"
  then obtain h t where c: "c = h # t" by (cases c) auto
  have "length (py_sorted_desc snd c) \<noteq> 0" using c by simp
  then have "take 1 (py_sorted_desc snd c) = [hd (py_sorted_desc snd c)]"
    by (cases "py_sorted_desc snd c") auto
  then show ?thesis
    using c hd_py_sorted_desc [of c snd] max_by_loop_first_max [of snd h t]
    by (simp add: most_common_top_by top_by_def)
qed

section \<open>Lemmas: rounding\<close>

lemma round_half_even_bounds:
  "x - 1/2 \<le> of_int (round_half_even x) \<and> of_int (round_half_even x) \<le> x + 1/2"
  using of_int_floor_le [of x] real_of_int_floor_add_one_gt [of x]
  unfolding round_half_even_def Let_def
  apply (auto split: if_splits)
  apply linarith+
  done

lemma round_half_even_le_int:
  assumes "x \<le> of_int k" shows "round_half_even x \<le> k"
proof (cases "\<lfloor>x\<rfloor> < k")
  case True
  then show ?thesis by (auto simp: round_half_even_def Let_def)
next
  case False
  have "\<lfloor>x\<rfloor> \<le> k" using assms by (metis floor_mono floor_of_int)
  with False have "\<lfloor>x\<rfloor> = k" by simp
  with assms have "x = of_int k" using of_int_floor_le [of x] by simp
  then show ?thesis by (simp add: round_half_even_def)
qed

lemma int_le_round_half_even:
  assumes "of_int k \<le> x" shows "k \<le> round_half_even x"
proof -
  have "k \<le> \<lfloor>x\<rfloor>" using assms by (simp add: le_floor_iff)
  then show ?thesis
    unfolding round_half_even_def Let_def by (auto split: if_splits)
qed

lemma py_round_nonneg [intro]: "0 \<le> x \<Longrightarrow> 0 \<le> py_round x n"
proof -
  assume "0 \<le> x"
  then have "0 \<le> x * 10 ^ n" by simp
  then have "0 \<le> round_half_even (x * 10 ^ n)"
    using int_le_round_half_even [of 0] by simp
  then show ?thesis by (simp add: py_round_def)
qed

lemma py_round_le_int [intro]: "x \<le> of_int k \<Longrightarrow> py_round x n \<le> of_int k"
proof -
  assume "x \<le> of_int k"
  then have "x * 10 ^ n \<le> of_int (k * 10 ^ n)" by simp
  then have "round_half_even (x * 10 ^ n) \<le> k * 10 ^ n"
    by (rule round_half_even_le_int)
  then have "of_int (round_half_even (x * 10 ^ n)) \<le> (of_int k * 10 ^ n :: real)"
    by (metis of_int_le_iff of_int_mult of_int_numeral of_int_power)
  then show ?thesis by (simp add: py_round_def divide_le_eq)
qed

lemma py_round_error: "\<bar>py_round x n - x\<bar> \<le> 1 / (2 * 10 ^ n)"
proof -
  let ?r = "of_int (round_half_even (x * 10 ^ n)) :: real"
  have h: "\<bar>?r - x * 10 ^ n\<bar> \<le> 1/2"
    using round_half_even_bounds [of "x * 10 ^ n"] by linarith
  have "py_round x n - x = (?r - x * 10 ^ n) / 10 ^ n"
    by (simp add: py_round_def field_simps)
  then have "\<bar>py_round x n - x\<bar> = \<bar>?r - x * 10 ^ n\<bar> / 10 ^ n"
    by simp
  also have "\<dots> \<le> (1/2) / 10 ^ n"
    by (rule divide_right_mono [OF h]) simp
  finally show ?thesis by simp
qed

section \<open>Lemmas: decimal rendering\<close>

lemma of_char_digit_char [simp]: "a < 10 \<Longrightarrow> of_char (digit_char a) = 48 + a"
  by (simp add: digit_char_def)

lemma digit_char_less_iff:
  "a < 10 \<Longrightarrow> b < 10 \<Longrightarrow> digit_char a < digit_char b \<longleftrightarrow> a < b"
  by (simp add: less_char_def)

lemma digit_char_inj:
  "a < 10 \<Longrightarrow> b < 10 \<Longrightarrow> digit_char a = digit_char b \<longleftrightarrow> a = b"
  by (metis of_char_digit_char add_left_cancel)

lemma dec_digits_numeral:
  "dec_digits (numeral k) n = digit_char (n div 10 ^ pred_numeral k mod 10) # dec_digits (pred_numeral k) n"
proof -
  have "numeral k = Suc (pred_numeral k)" by (rule numeral_eq_Suc)
  then show ?thesis by (simp only: dec_digits.simps(2))
qed

lemma digit_char_simps:
  "digit_char 0 = CHR ''0''" "digit_char 1 = CHR ''1''" "digit_char (Suc 0) = CHR ''1''"
  "digit_char 2 = CHR ''2''"
  "digit_char 3 = CHR ''3''" "digit_char 4 = CHR ''4''" "digit_char 5 = CHR ''5''"
  "digit_char 6 = CHR ''6''" "digit_char 7 = CHR ''7''" "digit_char 8 = CHR ''8''"
  "digit_char 9 = CHR ''9''"
  by (simp_all add: digit_char_def char_of_def bit_0)

lemma length_dec_digits [simp]: "length (dec_digits w n) = w"
  by (induction w) simp_all

lemma mod_pow10_Suc: "n mod 10 ^ Suc w = (n div 10 ^ w mod 10) * 10 ^ w + n mod (10 ^ w :: nat)"
  unfolding power_Suc2 mod_mult2_eq by (simp add: mult.commute)

lemma digit_split_less:
  fixes a b r r' B :: nat
  assumes "r < B" "r' < B"
  shows "a * B + r < b * B + r' \<longleftrightarrow> a < b \<or> a = b \<and> r < r'"
proof
  assume h: "a * B + r < b * B + r'"
  show "a < b \<or> a = b \<and> r < r'"
  proof (cases "a < b")
    case False
    then have "b * B \<le> a * B" by simp
    with h assms have "a * B < b * B + B" by linarith
    then have "a * B < (b + 1) * B" by (simp add: algebra_simps)
    then have "a < b + 1" by (simp only: mult_less_cancel2)
    then have "a \<le> b" by simp
    with False h show ?thesis by auto
  qed simp
next
  assume "a < b \<or> a = b \<and> r < r'"
  then show "a * B + r < b * B + r'"
  proof
    assume "a < b"
    then have "(a + 1) * B \<le> b * B" by (intro mult_le_mono1) simp
    with assms show ?thesis by (simp add: algebra_simps)
  qed simp
qed

lemma dec_digits_less_iff:
  "dec_digits w n < dec_digits w m \<longleftrightarrow> n mod 10 ^ w < m mod 10 ^ w"
proof (induction w)
  case 0
  then show ?case by simp
next
  case (Suc w)
  have "n mod 10 ^ Suc w < m mod 10 ^ Suc w \<longleftrightarrow>
    n div 10 ^ w mod 10 < m div 10 ^ w mod 10 \<or>
    n div 10 ^ w mod 10 = m div 10 ^ w mod 10 \<and> n mod 10 ^ w < m mod 10 ^ w"
    unfolding mod_pow10_Suc by (rule digit_split_less) simp_all
  with Suc.IH show ?case by (simp add: digit_char_less_iff digit_char_inj)
qed

lemma dec_digits_eq_iff:
  "dec_digits w n = dec_digits w m \<longleftrightarrow> n mod 10 ^ w = m mod 10 ^ w"
proof -
  have "dec_digits w n \<noteq> dec_digits w m \<longleftrightarrow> n mod 10 ^ w \<noteq> m mod 10 ^ w"
    by (simp only: linorder_neq_iff dec_digits_less_iff)
  then show ?thesis by blast
qed

lemma digits_val_dec_digits: "digits_val (dec_digits w n) = n mod 10 ^ w"
proof -
  have "foldl (\<lambda>acc c. acc * 10 + (of_char c - 48)) a (dec_digits w n) =
        a * 10 ^ w + n mod 10 ^ w" for a
  proof (induction w arbitrary: a)
    case 0
    then show ?case by simp
  next
    case (Suc w)
    have "a * 10 ^ Suc w + n mod 10 ^ Suc w =
          (a * 10 + n div 10 ^ w mod 10) * 10 ^ w + n mod 10 ^ w"
      by (simp only: mod_pow10_Suc) (simp add: algebra_simps)
    with Suc.IH show ?case by simp
  qed
  from this [of 0] show ?thesis by (simp add: digits_val_def)
qed

lemma append_less_same_length:
  fixes xs ys us vs :: "'a::linorder list"
  assumes "length xs = length ys"
  shows "xs @ us < ys @ vs \<longleftrightarrow> xs < ys \<or> xs = ys \<and> us < vs"
  using assms
proof (induction xs arbitrary: ys)
  case Nil
  then show ?case by simp
next
  case (Cons x xs)
  then obtain y ys' where "ys = y # ys'" "length xs = length ys'"
    by (cases ys) auto
  with Cons.IH show ?case by auto
qed

lemma append_le_same_length:
  fixes xs ys us vs :: "'a::linorder list"
  assumes "length xs = length ys"
  shows "xs @ us \<le> ys @ vs \<longleftrightarrow> xs < ys \<or> xs = ys \<and> us \<le> vs"
  using append_less_same_length [OF assms, of us vs] assms
  by (auto simp: order_le_less)

end
