(* ===== verification/PyDatetime.thy ===== *)
theory PyDatetime
  imports Prelude "HOL-Library.Monad_Syntax"
begin

text \<open>
  Python's \<open>datetime\<close> as the analyzer uses it.  PyGithub returns every timestamp as
  an aware UTC \<open>datetime\<close>; two such values compare field by field (\<open>dt_key\<close>),
  subtract by proleptic-Gregorian ordinals (CPython's \<open>_ymd2ord\<close>, here
  \<open>dt_toordinal\<close>, with \<open>timedelta.days\<close> the floor of the difference in days), and
  render through \<open>strftime\<close> and \<open>isoformat\<close>.  The month key
  \<open>strftime("%Y-%m")\<close> is the zero-padded \<open>YYYY-MM\<close> string (\<open>%Y\<close> is padded to
  four digits by CPython since 3.13; GitHub dates are after 2007, where every
  version agrees).  The main results: the month key is monotone in the date and
  determines the year and month, and it can be read back.
\<close>

record py_datetime =
  dt_year :: nat
  dt_month :: nat
  dt_day :: nat
  dt_hour :: nat
  dt_minute :: nat
  dt_second :: nat
  dt_microsecond :: nat

definition dt_key :: "py_datetime \<Rightarrow> nat \<times> nat \<times> nat \<times> nat \<times> nat \<times> nat \<times> nat" where
  "dt_key d = (dt_year d, dt_month d, dt_day d, dt_hour d, dt_minute d, dt_second d,
               dt_microsecond d)"

definition is_leap :: "nat \<Rightarrow> bool" where
  "is_leap y \<longleftrightarrow> y mod 4 = 0 \<and> (y mod 100 \<noteq> 0 \<or> y mod 400 = 0)"

definition days_in_month :: "nat \<Rightarrow> nat \<Rightarrow> nat" where
  "days_in_month y m =
     (if m = 2 \<and> is_leap y then 29 else [0, 31, 28, 31, 30, 31, 30, 31, 31, 30, 31, 30, 31] ! m)"

definition days_before_year :: "nat \<Rightarrow> nat" where
  "days_before_year y = (let y' = y - 1 in y' * 365 + y' div 4 - y' div 100 + y' div 400)"

definition days_before_month :: "nat \<Rightarrow> nat \<Rightarrow> nat" where
  "days_before_month y m =
     [0, 0, 31, 59, 90, 120, 151, 181, 212, 243, 273, 304, 334] ! m
     + (if 2 < m \<and> is_leap y then 1 else 0)"

definition dt_valid :: "py_datetime \<Rightarrow> bool" where
  "dt_valid d \<longleftrightarrow> 1 \<le> dt_year d \<and> dt_year d \<le> 9999 \<and> 1 \<le> dt_month d \<and> dt_month d \<le> 12
     \<and> 1 \<le> dt_day d \<and> dt_day d \<le> days_in_month (dt_year d) (dt_month d)
     \<and> dt_hour d < 24 \<and> dt_minute d < 60 \<and> dt_second d < 60 \<and> dt_microsecond d < 1000000"

definition dt_toordinal :: "py_datetime \<Rightarrow> nat" where
  "dt_toordinal d = days_before_year (dt_year d) + days_before_month (dt_year d) (dt_month d)
     + dt_day d"

text \<open>Microseconds since 0001-01-01T00:00 (the scale on which \<open>a - b\<close> is computed).\<close>

definition dt_total_us :: "py_datetime \<Rightarrow> int" where
  "dt_total_us d =
     ((int (dt_toordinal d) * 86400 + int (dt_hour d) * 3600 + int (dt_minute d) * 60
       + int (dt_second d)) * 1000000 + int (dt_microsecond d))"

text \<open>\<open>(a - b).days\<close>: \<open>timedelta\<close> normalises so that the seconds part is
  non-negative, i.e. the day count is the floor.\<close>

definition td_days :: "py_datetime \<Rightarrow> py_datetime \<Rightarrow> int" where
  "td_days a b = (dt_total_us a - dt_total_us b) div (86400 * 1000000)"

definition dt_weekday :: "py_datetime \<Rightarrow> nat" where
  "dt_weekday d = (dt_toordinal d + 6) mod 7"

definition day_names :: "string list" where
  "day_names = [''Monday'', ''Tuesday'', ''Wednesday'', ''Thursday'', ''Friday'',
                ''Saturday'', ''Sunday'']"

text \<open>\<open>strftime("%A")\<close> in the C locale.\<close>

definition weekday_name :: "py_datetime \<Rightarrow> string" where
  "weekday_name d = day_names ! dt_weekday d"

text \<open>\<open>strftime("%Y-%m")\<close>.\<close>

definition month_key :: "py_datetime \<Rightarrow> string" where
  "month_key d = dec_digits 4 (dt_year d) @ ''-'' @ dec_digits 2 (dt_month d)"

text \<open>\<open>isoformat()\<close> of an aware UTC datetime.\<close>

definition dt_isoformat :: "py_datetime \<Rightarrow> string" where
  "dt_isoformat d =
     dec_digits 4 (dt_year d) @ ''-'' @ dec_digits 2 (dt_month d) @ ''-'' @ dec_digits 2 (dt_day d)
     @ ''T'' @ dec_digits 2 (dt_hour d) @ '':'' @ dec_digits 2 (dt_minute d) @ '':''
     @ dec_digits 2 (dt_second d)
     @ (if dt_microsecond d = 0 then [] else ''.'' @ dec_digits 6 (dt_microsecond d))
     @ ''+00:00''"

text \<open>\<open>datetime.min.replace(tzinfo=timezone.utc)\<close>.\<close>

definition dt_min :: py_datetime where
  "dt_min = \<lparr>dt_year = 1, dt_month = 1, dt_day = 1, dt_hour = 0, dt_minute = 0, dt_second = 0,
             dt_microsecond = 0\<rparr>"

definition parse_month_key :: "string \<Rightarrow> nat \<times> nat" where
  "parse_month_key s = (digits_val (take 4 s), digits_val (drop 5 s))"

text \<open>\<open>datetime(y, m, d, tzinfo=timezone.utc)\<close>, for building test inputs.\<close>

definition ymd :: "nat \<Rightarrow> nat \<Rightarrow> nat \<Rightarrow> py_datetime" where
  "ymd y m d = \<lparr>dt_year = y, dt_month = m, dt_day = d, dt_hour = 0, dt_minute = 0, dt_second = 0,
                dt_microsecond = 0\<rparr>"

text \<open>\<open>datetime.fromisoformat(s)\<close> on the strings \<open>isoformat()\<close> produces for an
  aware UTC datetime: \<open>YYYY-MM-DDTHH:MM:SS[.ffffff]+00:00\<close>, fields of fixed width,
  the date checked as \<open>datetime\<close> checks it.  A malformed string is \<open>None\<close>
  (Python raises \<open>ValueError\<close>).  Python also accepts other ISO forms (other
  offsets, fewer fields); the model leaves those out and reads them as malformed.\<close>

definition iso_digits :: "string \<Rightarrow> bool" where
  "iso_digits s \<longleftrightarrow> list_all (\<lambda>c. CHR ''0'' \<le> c \<and> c \<le> CHR ''9'') s"

definition iso_field :: "string \<Rightarrow> nat \<Rightarrow> nat \<Rightarrow> nat option" where
  "iso_field s i w =
     (let t = take w (drop i s) in if length t = w \<and> iso_digits t then Some (digits_val t) else None)"

definition iso_seps :: "string \<Rightarrow> bool" where
  "iso_seps s \<longleftrightarrow> s ! 4 = CHR ''-'' \<and> s ! 7 = CHR ''-'' \<and> s ! 10 = CHR ''T'' \<and>
     s ! 13 = CHR '':'' \<and> s ! 16 = CHR '':''"

definition iso_parse :: "string \<Rightarrow> py_datetime option" where
  "iso_parse s =
     (if (length s = 25 \<and> iso_seps s \<and> drop 19 s = ''+00:00'') \<or>
         (length s = 32 \<and> iso_seps s \<and> s ! 19 = CHR ''.'' \<and> drop 26 s = ''+00:00'')
      then do {
        y \<leftarrow> iso_field s 0 4; mo \<leftarrow> iso_field s 5 2; d \<leftarrow> iso_field s 8 2;
        h \<leftarrow> iso_field s 11 2; mi \<leftarrow> iso_field s 14 2; se \<leftarrow> iso_field s 17 2;
        us \<leftarrow> (if length s = 32 then iso_field s 20 6 else Some 0);
        let t = \<lparr>dt_year = y, dt_month = mo, dt_day = d, dt_hour = h, dt_minute = mi,
                 dt_second = se, dt_microsecond = us\<rparr>;
        if dt_valid t then Some t else None
      }
      else None)"

section \<open>Properties\<close>

lemma weekday_name_in_day_names: "weekday_name d \<in> set day_names"
  unfolding weekday_name_def dt_weekday_def by (rule nth_mem) (simp add: day_names_def)

lemma dt_min_least: "dt_valid d \<Longrightarrow> dt_key dt_min \<le> dt_key d"
  by (auto simp: dt_min_def dt_key_def dt_valid_def less_eq_prod_def)

lemma month_key_year_month_eq:
  assumes "dt_valid a" "dt_valid b"
  shows "month_key a = month_key b \<longleftrightarrow> dt_year a = dt_year b \<and> dt_month a = dt_month b"
proof -
  have "dt_year a mod 10 ^ 4 = dt_year a" "dt_year b mod 10 ^ 4 = dt_year b"
       "dt_month a mod 10 ^ 2 = dt_month a" "dt_month b mod 10 ^ 2 = dt_month b"
    using assms by (simp_all add: dt_valid_def)
  moreover have "month_key a = month_key b \<longleftrightarrow>
      dec_digits 4 (dt_year a) = dec_digits 4 (dt_year b)
      \<and> dec_digits 2 (dt_month a) = dec_digits 2 (dt_month b)"
    unfolding month_key_def by (simp add: append_eq_append_conv)
  ultimately show ?thesis
    by (simp add: dec_digits_eq_iff)
qed

lemma month_key_less_iff:
  assumes "dt_valid a" "dt_valid b"
  shows "month_key a < month_key b \<longleftrightarrow> (dt_year a, dt_month a) < (dt_year b, dt_month b)"
proof -
  have y: "dt_year a mod 10 ^ 4 = dt_year a" "dt_year b mod 10 ^ 4 = dt_year b"
   and m: "dt_month a mod 10 ^ 2 = dt_month a" "dt_month b mod 10 ^ 2 = dt_month b"
    using assms by (simp_all add: dt_valid_def)
  have "month_key a < month_key b \<longleftrightarrow>
        dec_digits 4 (dt_year a) < dec_digits 4 (dt_year b)
        \<or> dec_digits 4 (dt_year a) = dec_digits 4 (dt_year b)
          \<and> dec_digits 2 (dt_month a) < dec_digits 2 (dt_month b)"
    unfolding month_key_def by (simp add: append_less_same_length)
  also have "\<dots> \<longleftrightarrow> (dt_year a, dt_month a) < (dt_year b, dt_month b)"
    using y m by (simp add: dec_digits_less_iff dec_digits_eq_iff) auto
  finally show ?thesis .
qed

lemma month_key_mono:
  assumes "dt_valid a" "dt_valid b" "dt_key a \<le> dt_key b"
  shows "month_key a \<le> month_key b"
proof -
  have "(dt_year a, dt_month a) \<le> (dt_year b, dt_month b)"
    using assms(3) by (auto simp: dt_key_def less_eq_prod_def)
  then show ?thesis
    using month_key_less_iff [OF assms(1,2)] month_key_year_month_eq [OF assms(1,2)]
    by (auto simp: order_le_less)
qed

lemma parse_month_key_roundtrip:
  "dt_valid d \<Longrightarrow> parse_month_key (month_key d) = (dt_year d, dt_month d)"
  by (simp add: parse_month_key_def month_key_def digits_val_dec_digits dt_valid_def)

lemma days_in_month_le_31:
  assumes "m \<le> 12" shows "days_in_month y m \<le> 31"
proof -
  have "[0, 31, 28, 31, 30, 31, 30, 31, 31, 30, 31, 30, 31] ! m
        \<in> set [0::nat, 31, 28, 31, 30, 31, 30, 31, 31, 30, 31, 30, 31]"
    using assms by (intro nth_mem) simp
  then show ?thesis unfolding days_in_month_def by auto
qed

lemma iso_digits_dec_digits: "iso_digits (dec_digits w n)"
proof -
  have "CHR ''0'' \<le> digit_char k \<and> digit_char k \<le> CHR ''9''" if "k < 10" for k
    using that by (simp add: less_eq_char_def)
  then show ?thesis by (induction w) (simp_all add: iso_digits_def list_all_iff)
qed

lemma iso_field_dec_digits:
  assumes "length xs = i" "n < 10 ^ w"
  shows "iso_field (xs @ dec_digits w n @ ys) i w = Some n"
  using assms by (simp add: iso_field_def iso_digits_dec_digits digits_val_dec_digits)

lemma iso_parse_isoformat:
  assumes "dt_valid d"
  shows "iso_parse (dt_isoformat d) = Some d"
proof -
  have b: "dt_year d < 10 ^ 4" "dt_month d < 10 ^ 2" "dt_day d < 10 ^ 2" "dt_hour d < 10 ^ 2"
          "dt_minute d < 10 ^ 2" "dt_second d < 10 ^ 2" "dt_microsecond d < 10 ^ 6"
    using assms days_in_month_le_31 [of "dt_month d" "dt_year d"] by (auto simp: dt_valid_def)
  show ?thesis
  proof (cases "dt_microsecond d = 0")
    case True
    have e: "\<lparr>dt_year = dt_year d, dt_month = dt_month d, dt_day = dt_day d, dt_hour = dt_hour d,
              dt_minute = dt_minute d, dt_second = dt_second d, dt_microsecond = 0\<rparr> = d"
      using True by (cases d) simp
    from True show ?thesis using assms b
      by (simp add: iso_parse_def dt_isoformat_def iso_seps_def iso_field_def nth_append
                    iso_digits_dec_digits digits_val_dec_digits Let_def e)
  next
    case False
    have e: "\<lparr>dt_year = dt_year d, dt_month = dt_month d, dt_day = dt_day d, dt_hour = dt_hour d,
              dt_minute = dt_minute d, dt_second = dt_second d, dt_microsecond = dt_microsecond d\<rparr> = d"
      by (cases d) simp
    from False show ?thesis using assms b
      by (simp add: iso_parse_def dt_isoformat_def iso_seps_def iso_field_def nth_append
                    iso_digits_dec_digits digits_val_dec_digits Let_def e)
  qed
qed

end
