(* ===== verification/GitHubSource.thy ===== *)
theory GitHubSource
  imports PyDatetime
begin

text \<open>
  The raw record source: the PyGithub objects the analyzer reads
  (\<open>github.NamedUser\<close>, \<open>Repository\<close>, \<open>PullRequest\<close>, \<open>Issue\<close>, \<open>Commit\<close>,
  \<open>PullRequestReview\<close>).  Attributes the analyzer reads are fields.  Every method
  call that issues a request (\<open>get_languages\<close>, \<open>get_commits\<close>,
  \<open>get_collaborators\<close>, ...) is a field of type \<open>'a fetch\<close>: its outcome for this
  analysis, either an \<open>api_error\<close> (the call raises) or the full list it returns.
  The source is a frozen snapshot: a request issued twice in one analysis (the
  collaborator list is read by two components, the pull-request list twice by the
  scoring loop) has one outcome.  \<open>r_commits_by_owner\<close> is
  \<open>repo.get_commits(author=user).totalCount\<close> for the analyzed user.
\<close>

record gh_user =
  u_login :: string
  u_name :: "string option"
  u_bio :: "string option"
  u_avatar_url :: string
  u_blog :: "string option"
  u_location :: "string option"
  u_email :: "string option"
  u_twitter_username :: "string option"
  u_company :: "string option"
  u_hireable :: "bool option"
  u_created_at :: "py_datetime option"
  u_updated_at :: "py_datetime option"
  u_public_repos :: nat
  u_public_gists :: nat
  u_followers :: nat
  u_following :: nat

text \<open>A collaborator (\<open>NamedUser\<close>); a contributor extends it with its commit count.\<close>

record gh_person =
  p_login :: string
  p_name :: "string option"
  p_avatar_url :: string

record gh_contributor = gh_person +
  c_contributions :: nat

record gh_review =
  rv_user_login :: string

record gh_pull =
  pr_user_login :: string
  pr_get_reviews :: "gh_review list fetch"

text \<open>\<open>Issue.pull_request\<close> is set exactly for issues that are pull requests.\<close>

record gh_issue =
  is_pull_request :: bool

text \<open>\<open>commit.commit.author\<close> may be \<open>None\<close> (reading \<open>.date\<close> then raises), and
  its \<open>date\<close> may be \<open>None\<close>.\<close>

record gh_commit =
  cm_author_date :: "py_datetime option option"

record gh_repo =
  r_name :: string
  r_full_name :: string
  r_owner_login :: string
  r_fork :: bool
  r_description :: "string option"
  r_html_url :: string
  r_homepage :: "string option"
  r_language :: "string option"
  r_stargazers_count :: nat
  r_forks_count :: nat
  r_watchers_count :: nat
  r_open_issues_count :: nat
  r_created_at :: "py_datetime option"
  r_updated_at :: "py_datetime option"
  r_get_topics :: "string list fetch"
  r_get_languages :: "(string \<times> nat) list fetch"
  r_commits_by_owner :: "nat fetch"
  r_get_commits :: "gh_commit list fetch"
  r_get_collaborators :: "gh_person list fetch"
  r_get_contributors :: "gh_contributor list fetch"
  r_get_pulls_all :: "gh_pull list fetch"
  r_get_issues_all :: "gh_issue list fetch"

text \<open>The owned, non-fork test that gates several components
  (\<open>not repo.fork and repo.owner.login == user.login\<close>).\<close>

definition owned_nonfork :: "string \<Rightarrow> gh_repo \<Rightarrow> bool" where
  "owned_nonfork login r \<longleftrightarrow> \<not> r_fork r \<and> r_owner_login r = login"

text \<open>A repository with every field empty, for building test inputs.\<close>

definition blank_repo :: gh_repo where
  "blank_repo = \<lparr>r_name = [], r_full_name = [], r_owner_login = [], r_fork = False,
     r_description = None, r_html_url = [], r_homepage = None, r_language = None,
     r_stargazers_count = 0, r_forks_count = 0, r_watchers_count = 0, r_open_issues_count = 0,
     r_created_at = None, r_updated_at = None, r_get_topics = Inr [], r_get_languages = Inr [],
     r_commits_by_owner = Inr 0, r_get_commits = Inr [], r_get_collaborators = Inr [],
     r_get_contributors = Inr [], r_get_pulls_all = Inr [], r_get_issues_all = Inr []\<rparr>"

definition blank_user :: gh_user where
  "blank_user = \<lparr>u_login = [], u_name = None, u_bio = None, u_avatar_url = [], u_blog = None,
     u_location = None, u_email = None, u_twitter_username = None, u_company = None,
     u_hireable = None, u_created_at = None, u_updated_at = None, u_public_repos = 0,
     u_public_gists = 0, u_followers = 0, u_following = 0\<rparr>"

end
