(* ===== verification/Stats.thy ===== *)
theory Stats
  imports GitHubSource
begin

text \<open>
  The statistics aggregator (\<open>_calculate_stats\<close>, \<open>_estimate_total_commits\<close>):
  sums of star, fork and watcher counts over all repositories, user counters copied,
  and a commit estimate over the first 20 repositories in which a failing request
  counts as zero.
\<close>

record stats =
  st_total_repos :: nat
  st_total_gists :: nat
  st_total_stars :: nat
  st_total_forks :: nat
  st_total_watchers :: nat
  st_total_commits :: nat
  st_followers :: nat
  st_following :: nat

definition commits_limit :: nat where
  "commits_limit = 20"

fun estimate_loop :: "gh_repo list \<Rightarrow> nat \<Rightarrow> nat" where
  "estimate_loop [] tot = tot"
| "estimate_loop (r # rs) tot =
     (case r_commits_by_owner r of
        Inl _ \<Rightarrow> estimate_loop rs tot
      | Inr n \<Rightarrow> estimate_loop rs (tot + n))"

definition estimate_total_commits :: "gh_repo list \<Rightarrow> nat" where
  "estimate_total_commits repos = estimate_loop (take commits_limit repos) 0"

definition calculate_stats :: "gh_user \<Rightarrow> gh_repo list \<Rightarrow> stats" where
  "calculate_stats u repos =
     \<lparr>st_total_repos = u_public_repos u,
      st_total_gists = u_public_gists u,
      st_total_stars = sum_list (map r_stargazers_count repos),
      st_total_forks = sum_list (map r_forks_count repos),
      st_total_watchers = sum_list (map r_watchers_count repos),
      st_total_commits = estimate_total_commits repos,
      st_followers = u_followers u,
      st_following = u_following u\<rparr>"

section \<open>Properties\<close>

lemma estimate_loop_sum:
  "estimate_loop rs tot = tot + sum_list (map (\<lambda>r. fetch_or 0 (r_commits_by_owner r)) rs)"
  by (induction rs arbitrary: tot) (auto split: sum.splits)

lemma estimate_total_commits_sum:
  "estimate_total_commits repos =
     sum_list (map (\<lambda>r. fetch_or 0 (r_commits_by_owner r)) (take commits_limit repos))"
  by (simp add: estimate_total_commits_def estimate_loop_sum)

text \<open>C40 (spec 4.1): the commit estimate looks at the first 20 repositories only (what
  follows them never changes it), and a failing commit-count request of one
  repository counts as zero without affecting the others.\<close>

theorem commit_estimate_capped_and_isolated:
  "(20 \<le> length repos \<longrightarrow> estimate_total_commits (repos @ later) = estimate_total_commits repos) \<and>
   estimate_total_commits (xs @ r\<lparr>r_commits_by_owner := Inl e\<rparr> # ys) =
   estimate_total_commits (xs @ r\<lparr>r_commits_by_owner := Inr 0\<rparr> # ys)"
proof -
  have "take commits_limit (xs @ r\<lparr>r_commits_by_owner := c\<rparr> # ys) =
        take commits_limit xs @ take (commits_limit - length xs) (r\<lparr>r_commits_by_owner := c\<rparr> # ys)" for c
    by simp
  then have "estimate_total_commits (xs @ r\<lparr>r_commits_by_owner := Inl e\<rparr> # ys) =
             estimate_total_commits (xs @ r\<lparr>r_commits_by_owner := Inr 0\<rparr> # ys)"
    by (cases "commits_limit - length xs") (simp_all add: estimate_total_commits_sum)
  moreover have "20 \<le> length repos \<Longrightarrow> estimate_total_commits (repos @ later) = estimate_total_commits repos"
    by (simp add: estimate_total_commits_sum commits_limit_def)
  ultimately show ?thesis by blast
qed

theorem commit_estimate_capped_and_isolated_witness:
  "estimate_total_commits (replicate 20 blank_repo @ [blank_repo\<lparr>r_commits_by_owner := Inr 7\<rparr>]) = 0"
proof -
  have "estimate_total_commits (replicate 20 blank_repo @ [blank_repo\<lparr>r_commits_by_owner := Inr 7\<rparr>]) =
        estimate_total_commits (replicate 20 blank_repo)"
    using commit_estimate_capped_and_isolated [of "replicate 20 blank_repo"] by simp
  also have "\<dots> = 0" by (simp add: estimate_total_commits_sum commits_limit_def blank_repo_def)
  finally show ?thesis .
qed

end
