(* ===== verification/Scoring.thy ===== *)
theory Scoring
  imports GitHubSource
begin

text \<open>
  The collaboration scoring model (\<open>_calculate_collaboration_score\<close>).  The loop over
  the first 30 repositories is a left fold of \<open>score_repo\<close> over an accumulator
  record holding the loop's local variables; each guarded block of the loop body is
  one step function, and each \<open>try/except: pass\<close> is a case on a fetch outcome that
  leaves the accumulator as it was.  Seven sub-scores are computed from the final
  accumulator, combined with the weights 0.18, 0.13, 0.18, 0.18, 0.13, 0.10, 0.10,
  rounded with Python's \<open>round(x, 1)\<close>, and classified into five levels.
  Numbers are exact reals: the model does not reproduce binary floating point.
\<close>

record score_acc =
  sa_total_prs :: nat
  sa_total_issues :: nat
  sa_forked_repos :: nat
  sa_contributed_repos :: nat
  sa_pr_review_participation :: nat
  sa_collaborative_projects :: nat
  sa_repos_forked_by_others :: nat
  sa_collaborators :: "string set"
  sa_contributors :: "string set"

definition score_acc0 :: score_acc where
  "score_acc0 = \<lparr>sa_total_prs = 0, sa_total_issues = 0, sa_forked_repos = 0,
     sa_contributed_repos = 0, sa_pr_review_participation = 0, sa_collaborative_projects = 0,
     sa_repos_forked_by_others = 0, sa_collaborators = {}, sa_contributors = {}\<rparr>"

definition scoring_limit :: nat where
  "scoring_limit = 30"

section \<open>The loop body\<close>

text \<open>\<open>if repo.fork: forked_repos += 1; contributed_repos += 1\<close> and
  \<open>if not repo.fork and repo.forks_count > 0: repos_forked_by_others += ...\<close>\<close>

definition score_fork_step :: "score_acc \<Rightarrow> gh_repo \<Rightarrow> score_acc" where
  "score_fork_step a r =
     (let a1 = (if r_fork r then a\<lparr>sa_forked_repos := Suc (sa_forked_repos a),
                                    sa_contributed_repos := Suc (sa_contributed_repos a)\<rparr>
                else a)
      in if \<not> r_fork r \<and> 0 < r_forks_count r
         then a1\<lparr>sa_repos_forked_by_others := sa_repos_forked_by_others a1 + r_forks_count r\<rparr>
         else a1)"

text \<open>Unique collaborators and contributors of owned non-fork repositories; each
  request sits in its own \<open>try\<close>.\<close>

definition score_network_step :: "string \<Rightarrow> score_acc \<Rightarrow> gh_repo \<Rightarrow> score_acc" where
  "score_network_step login a r =
     (if owned_nonfork login r then
        let a1 = (case r_get_collaborators r of
                    Inl _ \<Rightarrow> a
                  | Inr cs \<Rightarrow> a\<lparr>sa_collaborators := sa_collaborators a
                       \<union> set (filter (\<lambda>l. l \<noteq> login) (map p_login cs))\<rparr>)
        in case r_get_contributors r of
             Inl _ \<Rightarrow> a1
           | Inr cs \<Rightarrow> a1\<lparr>sa_contributors := sa_contributors a1
                \<union> set (filter (\<lambda>l. l \<noteq> login) (map p_login cs))\<rparr>
      else a)"

text \<open>Team projects: an owned non-fork repository whose first 20 pull requests
  (all states) include one authored by someone else.\<close>

definition score_team_step :: "string \<Rightarrow> score_acc \<Rightarrow> gh_repo \<Rightarrow> score_acc" where
  "score_team_step login a r =
     (if owned_nonfork login r then
        case r_get_pulls_all r of
          Inl _ \<Rightarrow> a
        | Inr ps \<Rightarrow>
            if filter (\<lambda>p. pr_user_login p \<noteq> login) (take 20 ps) \<noteq> []
            then a\<lparr>sa_collaborative_projects := Suc (sa_collaborative_projects a)\<rparr>
            else a
      else a)"

text \<open>\<open>for pr in pulls[:5]\<close>: a pull request counts when its first five reviews are
  not empty; a failing review request is skipped.\<close>

fun review_loop :: "gh_pull list \<Rightarrow> nat \<Rightarrow> nat" where
  "review_loop [] n = n"
| "review_loop (pr # prs) n =
     (case pr_get_reviews pr of
        Inl _ \<Rightarrow> review_loop prs n
      | Inr rvs \<Rightarrow> review_loop prs (if take 5 rvs \<noteq> [] then Suc n else n))"

text \<open>Issues and pull requests share one \<open>try\<close>: a failing issue request skips the
  pull requests as well; a failing pull request request keeps the issues counted.\<close>

definition score_activity_step :: "score_acc \<Rightarrow> gh_repo \<Rightarrow> score_acc" where
  "score_activity_step a r =
     (case r_get_issues_all r of
        Inl _ \<Rightarrow> a
      | Inr iss \<Rightarrow>
          let a1 = a\<lparr>sa_total_issues := sa_total_issues a
                       + length (filter (\<lambda>i. \<not> is_pull_request i) (take 10 iss))\<rparr>
          in case r_get_pulls_all r of
               Inl _ \<Rightarrow> a1
             | Inr ps \<Rightarrow>
                 let ps10 = take 10 ps
                 in a1\<lparr>sa_total_prs := sa_total_prs a1 + length ps10,
                       sa_pr_review_participation :=
                         review_loop (take 5 ps10) (sa_pr_review_participation a1)\<rparr>)"

definition score_repo :: "string \<Rightarrow> score_acc \<Rightarrow> gh_repo \<Rightarrow> score_acc" where
  "score_repo login a r =
     score_activity_step
       (score_team_step login (score_network_step login (score_fork_step a r) r) r) r"

definition score_loop :: "string \<Rightarrow> gh_repo list \<Rightarrow> score_acc" where
  "score_loop login rs = foldl (score_repo login) score_acc0 rs"

section \<open>Sub-scores, overall score and level\<close>

record collab_metrics =
  m_fork_activity :: real
  m_issue_engagement :: real
  m_pull_request_activity :: real
  m_code_review_participation :: real
  m_team_projects :: real
  m_community_impact :: real
  m_network_size :: real

definition ratio :: "nat \<Rightarrow> nat \<Rightarrow> real" where
  "ratio x d = real x / real (max 1 d)"

definition sub_scores :: "score_acc \<Rightarrow> nat \<Rightarrow> nat \<Rightarrow> collab_metrics" where
  "sub_scores a n nonfork =
     \<lparr>m_fork_activity = min 100 (ratio (sa_forked_repos a) n * 200),
      m_issue_engagement = min 100 (ratio (sa_total_issues a) n * 20),
      m_pull_request_activity = min 100 (ratio (sa_total_prs a) n * 15),
      m_code_review_participation =
        (if 0 < sa_total_prs a
         then min 100 (ratio (sa_pr_review_participation a) (sa_total_prs a) * 100) else 0),
      m_team_projects = min 100 (ratio (sa_collaborative_projects a) nonfork * 100),
      m_community_impact = min 100 (ratio (sa_repos_forked_by_others a) n * 10),
      m_network_size = min 100
        (ratio (card (sa_collaborators a) + card (sa_contributors a)) nonfork * 20)\<rparr>"

definition overall_of :: "collab_metrics \<Rightarrow> real" where
  "overall_of m =
     m_fork_activity m * 0.18 + m_issue_engagement m * 0.13 + m_pull_request_activity m * 0.18
     + m_code_review_participation m * 0.18 + m_team_projects m * 0.13
     + m_community_impact m * 0.10 + m_network_size m * 0.10"

datatype collab_level = Exceptional | Strong | Moderate | Emerging | Independent_Dev

definition classify_level :: "real \<Rightarrow> collab_level" where
  "classify_level s =
     (if 75 \<le> s then Exceptional else if 60 \<le> s then Strong else if 40 \<le> s then Moderate
      else if 20 \<le> s then Emerging else Independent_Dev)"

fun level_name :: "collab_level \<Rightarrow> string" where
  "level_name Exceptional = ''Exceptional Collaborator''"
| "level_name Strong = ''Strong Collaborator''"
| "level_name Moderate = ''Moderate Collaborator''"
| "level_name Emerging = ''Emerging Collaborator''"
| "level_name Independent_Dev = ''Independent Developer''"

fun level_description :: "collab_level \<Rightarrow> string" where
  "level_description Exceptional =
     ''Highly active in team projects, code reviews, and community contributions''"
| "level_description Strong =
     ''Regular contributor to collaborative projects with good team engagement''"
| "level_description Moderate =
     ''Participates in team projects with some collaborative activity''"
| "level_description Emerging = ''Beginning to engage in collaborative development''"
| "level_description Independent_Dev =
     ''Primarily works on solo projects, potential for more collaboration''"

record collab_stats =
  cst_forked_repos :: nat
  cst_total_issues :: nat
  cst_total_pull_requests :: nat
  cst_pr_reviews :: nat
  cst_collaborative_projects :: nat
  cst_repos_forked_by_others :: nat
  cst_unique_collaborators :: nat
  cst_unique_contributors :: nat
  cst_total_unique_people :: nat

record collab_score =
  cs_overall_score :: real
  cs_level :: string
  cs_description :: string
  cs_metrics :: collab_metrics
  cs_stats :: collab_stats
  cs_team_fit :: string

definition round_metrics :: "collab_metrics \<Rightarrow> collab_metrics" where
  "round_metrics m =
     \<lparr>m_fork_activity = py_round (m_fork_activity m) 1,
      m_issue_engagement = py_round (m_issue_engagement m) 1,
      m_pull_request_activity = py_round (m_pull_request_activity m) 1,
      m_code_review_participation = py_round (m_code_review_participation m) 1,
      m_team_projects = py_round (m_team_projects m) 1,
      m_community_impact = py_round (m_community_impact m) 1,
      m_network_size = py_round (m_network_size m) 1\<rparr>"

definition calculate_collaboration_score :: "gh_user \<Rightarrow> gh_repo list \<Rightarrow> collab_score" where
  "calculate_collaboration_score u repos =
     (let analyzed = take scoring_limit repos;
          a = score_loop (u_login u) analyzed;
          n = length analyzed;
          nonfork = length (filter (\<lambda>r. \<not> r_fork r) analyzed);
          m = sub_scores a n nonfork;
          overall = overall_of m;
          lvl = classify_level overall
      in \<lparr>cs_overall_score = py_round overall 1,
          cs_level = level_name lvl,
          cs_description = level_description lvl,
          cs_metrics = round_metrics m,
          cs_stats = \<lparr>cst_forked_repos = sa_forked_repos a,
                      cst_total_issues = sa_total_issues a,
                      cst_total_pull_requests = sa_total_prs a,
                      cst_pr_reviews = sa_pr_review_participation a,
                      cst_collaborative_projects = sa_collaborative_projects a,
                      cst_repos_forked_by_others = sa_repos_forked_by_others a,
                      cst_unique_collaborators = card (sa_collaborators a),
                      cst_unique_contributors = card (sa_contributors a),
                      cst_total_unique_people =
                        card (sa_collaborators a) + card (sa_contributors a)\<rparr>,
          cs_team_fit = (if 50 \<le> overall then ''Collaborative'' else ''Independent'')\<rparr>)"

definition metrics_in_range :: "collab_metrics \<Rightarrow> bool" where
  "metrics_in_range m \<longleftrightarrow>
     0 \<le> m_fork_activity m \<and> m_fork_activity m \<le> 100
     \<and> 0 \<le> m_issue_engagement m \<and> m_issue_engagement m \<le> 100
     \<and> 0 \<le> m_pull_request_activity m \<and> m_pull_request_activity m \<le> 100
     \<and> 0 \<le> m_code_review_participation m \<and> m_code_review_participation m \<le> 100
     \<and> 0 \<le> m_team_projects m \<and> m_team_projects m \<le> 100
     \<and> 0 \<le> m_community_impact m \<and> m_community_impact m \<le> 100
     \<and> 0 \<le> m_network_size m \<and> m_network_size m \<le> 100"

section \<open>The loop: what each step adds\<close>

lemmas score_step_defs = score_repo_def score_fork_step_def score_network_step_def
  score_team_step_def score_activity_step_def Let_def

lemma review_loop_bounds: "n \<le> review_loop ps n \<and> review_loop ps n \<le> n + length ps"
proof (induction ps arbitrary: n)
  case Nil
  then show ?case by simp
next
  case (Cons p ps)
  show ?case
    using Cons.IH [of n] Cons.IH [of "Suc n"] by (auto split: sum.splits)
qed

lemma forked_score_repo [simp]:
  "sa_forked_repos (score_repo l a r) = sa_forked_repos a + (if r_fork r then 1 else 0)"
  "sa_contributed_repos (score_repo l a r) = sa_contributed_repos a + (if r_fork r then 1 else 0)"
  "sa_repos_forked_by_others (score_repo l a r) =
     sa_repos_forked_by_others a + (if r_fork r then 0 else r_forks_count r)"
  by (auto simp: score_step_defs split: sum.splits)

lemma collab_projects_score_repo:
  "sa_collaborative_projects (score_repo l a r)
     \<le> sa_collaborative_projects a + (if owned_nonfork l r then 1 else 0)"
  by (auto simp: score_step_defs split: sum.splits)

lemma prs_issues_score_repo:
  "sa_total_prs (score_repo l a r) \<le> sa_total_prs a + 10"
  "sa_total_issues (score_repo l a r) \<le> sa_total_issues a + 10"
  by (auto simp: score_step_defs split: sum.splits)

lemma score_steps_frame [simp]:
  "sa_total_prs (score_fork_step a r) = sa_total_prs a"
  "sa_pr_review_participation (score_fork_step a r) = sa_pr_review_participation a"
  "sa_total_prs (score_network_step l a r) = sa_total_prs a"
  "sa_pr_review_participation (score_network_step l a r) = sa_pr_review_participation a"
  "sa_total_prs (score_team_step l a r) = sa_total_prs a"
  "sa_pr_review_participation (score_team_step l a r) = sa_pr_review_participation a"
  by (auto simp: score_fork_step_def score_network_step_def score_team_step_def Let_def
      split: sum.splits)

lemma reviews_le_prs_activity:
  assumes "sa_pr_review_participation a \<le> sa_total_prs a"
  shows "sa_pr_review_participation (score_activity_step a r)
           \<le> sa_total_prs (score_activity_step a r)"
proof (cases "r_get_issues_all r")
  case (Inr iss)
  show ?thesis
  proof (cases "r_get_pulls_all r")
    case (Inr ps)
    have "review_loop (take 5 (take 10 ps)) (sa_pr_review_participation a)
            \<le> sa_pr_review_participation a + length (take 10 ps)"
    proof -
      have "length (take 5 (take 10 ps)) \<le> length (take 10 ps)" by simp
      then show ?thesis
        using review_loop_bounds [of _ "take 5 (take 10 ps)"] by (meson add_left_mono order_trans)
    qed
    with assms \<open>r_get_issues_all r = Inr iss\<close> Inr show ?thesis
      by (simp add: score_activity_step_def Let_def)
  qed (use assms \<open>r_get_issues_all r = Inr iss\<close> in \<open>simp add: score_activity_step_def\<close>)
qed (use assms in \<open>simp add: score_activity_step_def\<close>)

lemma reviews_le_prs_score_repo:
  "sa_pr_review_participation a \<le> sa_total_prs a \<Longrightarrow>
   sa_pr_review_participation (score_repo l a r) \<le> sa_total_prs (score_repo l a r)"
  unfolding score_repo_def by (rule reviews_le_prs_activity) simp

lemma score_foldl_counts:
  "sa_forked_repos (foldl (score_repo l) a rs) = sa_forked_repos a + length (filter r_fork rs)"
  "sa_contributed_repos (foldl (score_repo l) a rs) =
     sa_contributed_repos a + length (filter r_fork rs)"
  by (induction rs arbitrary: a) simp_all

lemma score_foldl_collab_projects:
  "sa_collaborative_projects (foldl (score_repo l) a rs)
     \<le> sa_collaborative_projects a + length (filter (owned_nonfork l) rs)"
proof (induction rs arbitrary: a)
  case Nil
  then show ?case by simp
next
  case (Cons r rs)
  from Cons.IH [of "score_repo l a r"] collab_projects_score_repo [of l a r]
  show ?case by (cases "owned_nonfork l r") simp_all
qed

lemma score_foldl_reviews:
  "sa_pr_review_participation a \<le> sa_total_prs a \<Longrightarrow>
   sa_pr_review_participation (foldl (score_repo l) a rs) \<le> sa_total_prs (foldl (score_repo l) a rs)"
  by (induction rs arbitrary: a) (simp_all add: reviews_le_prs_score_repo)

lemma owned_nonfork_le_nonfork:
  "length (filter (owned_nonfork l) rs) \<le> length (filter (\<lambda>r. \<not> r_fork r) rs)"
  by (induction rs) (auto simp: owned_nonfork_def)

section \<open>Bounds of the scores\<close>

lemma ratio_nonneg [simp]: "0 \<le> ratio x d"
  by (simp add: ratio_def)

lemma ratio_le_1: "x \<le> d \<Longrightarrow> ratio x d \<le> 1"
  by (simp add: ratio_def divide_le_eq_1 le_max_iff_disj)

lemma min_100_in_range [simp]: "0 \<le> x \<Longrightarrow> 0 \<le> min (100::real) x"
  by simp

lemma sub_scores_in_range: "metrics_in_range (sub_scores a n k)"
  by (simp add: metrics_in_range_def sub_scores_def)

lemma overall_of_in_range:
  assumes "metrics_in_range m" shows "0 \<le> overall_of m \<and> overall_of m \<le> 100"
proof -
  have b: "0 \<le> m_fork_activity m" "m_fork_activity m \<le> 100"
    "0 \<le> m_issue_engagement m" "m_issue_engagement m \<le> 100"
    "0 \<le> m_pull_request_activity m" "m_pull_request_activity m \<le> 100"
    "0 \<le> m_code_review_participation m" "m_code_review_participation m \<le> 100"
    "0 \<le> m_team_projects m" "m_team_projects m \<le> 100"
    "0 \<le> m_community_impact m" "m_community_impact m \<le> 100"
    "0 \<le> m_network_size m" "m_network_size m \<le> 100"
    using assms by (simp_all add: metrics_in_range_def)
  have "0 \<le> overall_of m" unfolding overall_of_def using b by simp
  moreover have "overall_of m \<le> 100" unfolding overall_of_def using b by simp
  ultimately show ?thesis by simp
qed

lemma py_round_le_100: "x \<le> 100 \<Longrightarrow> py_round x n \<le> 100"
  using py_round_le_int [of x 100 n] by simp

lemma round_metrics_in_range:
  "metrics_in_range m \<Longrightarrow> metrics_in_range (round_metrics m)"
  unfolding metrics_in_range_def round_metrics_def by (simp add: py_round_nonneg py_round_le_100)

lemma weighted_error_bound:
  fixes d1 d2 d3 d4 d5 d6 d7 :: real
  assumes "\<bar>d1\<bar> \<le> e" "\<bar>d2\<bar> \<le> e" "\<bar>d3\<bar> \<le> e" "\<bar>d4\<bar> \<le> e" "\<bar>d5\<bar> \<le> e"
    "\<bar>d6\<bar> \<le> e" "\<bar>d7\<bar> \<le> e"
  shows "\<bar>d1 * 0.18 + d2 * 0.13 + d3 * 0.18 + d4 * 0.18 + d5 * 0.13 + d6 * 0.10 + d7 * 0.10\<bar> \<le> e"
  using assms by (simp add: abs_le_iff power2_eq_square)

lemma overall_of_round_metrics:
  "\<bar>overall_of (round_metrics m) - overall_of m\<bar> \<le> 1 / 20"
proof -
  have h: "\<bar>py_round x 1 - x\<bar> \<le> 1 / 20" for x
    using py_round_error [of x 1] by simp
  have "overall_of (round_metrics m) - overall_of m =
      (py_round (m_fork_activity m) 1 - m_fork_activity m) * 0.18
    + (py_round (m_issue_engagement m) 1 - m_issue_engagement m) * 0.13
    + (py_round (m_pull_request_activity m) 1 - m_pull_request_activity m) * 0.18
    + (py_round (m_code_review_participation m) 1 - m_code_review_participation m) * 0.18
    + (py_round (m_team_projects m) 1 - m_team_projects m) * 0.13
    + (py_round (m_community_impact m) 1 - m_community_impact m) * 0.10
    + (py_round (m_network_size m) 1 - m_network_size m) * 0.10"
    by (simp add: overall_of_def round_metrics_def field_simps)
  then show ?thesis
    by (simp only:) (rule weighted_error_bound [OF h h h h h h h])
qed

lemma score_steps_collaborators [simp]:
  "sa_collaborators (score_fork_step a r) = sa_collaborators a"
  "sa_collaborators (score_team_step l a r) = sa_collaborators a"
  "sa_collaborators (score_activity_step a r) = sa_collaborators a"
  by (auto simp: score_fork_step_def score_team_step_def score_activity_step_def Let_def
      split: sum.splits)

lemma fetch_or_Nil_cases:
  "fetch_or [] x = [] \<Longrightarrow> (\<exists>e. x = Inl e) \<or> x = Inr []"
  by (cases x) auto

lemma score_repo_idle:
  assumes "\<not> r_fork r" "r_forks_count r = 0"
    "fetch_or [] (r_get_issues_all r) = []" "fetch_or [] (r_get_pulls_all r) = []"
    "fetch_or [] (r_get_collaborators r) = []" "fetch_or [] (r_get_contributors r) = []"
  shows "score_repo l a r = a"
proof -
  have f: "score_fork_step b r = b" for b
    using assms(1,2) by (simp add: score_fork_step_def)
  have n: "score_network_step l b r = b" for b
    using fetch_or_Nil_cases [OF assms(5)] fetch_or_Nil_cases [OF assms(6)]
    by (auto simp: score_network_step_def)
  have t: "score_team_step l b r = b" for b
    using fetch_or_Nil_cases [OF assms(4)] by (auto simp: score_team_step_def)
  have c: "score_activity_step b r = b" for b
    using fetch_or_Nil_cases [OF assms(3)] fetch_or_Nil_cases [OF assms(4)]
    by (auto simp: score_activity_step_def)
  show ?thesis by (simp add: score_repo_def f n t c)
qed

lemma score_foldl_idle:
  "\<forall>r \<in> set rs. \<not> r_fork r \<and> r_forks_count r = 0
      \<and> fetch_or [] (r_get_issues_all r) = [] \<and> fetch_or [] (r_get_pulls_all r) = []
      \<and> fetch_or [] (r_get_collaborators r) = [] \<and> fetch_or [] (r_get_contributors r) = []
   \<Longrightarrow> foldl (score_repo l) a rs = a"
  by (induction rs arbitrary: a) (simp_all add: score_repo_idle)

lemma py_round_zero [simp]: "py_round 0 n = 0"
  by (simp add: py_round_def round_half_even_def)

section \<open>Properties of the scoring model\<close>

text \<open>C1: every reported sub-score and the reported overall score lie in [0, 100],
  for every user and every list of repositories.\<close>

theorem collaboration_score_in_range:
  "metrics_in_range (cs_metrics (calculate_collaboration_score u repos))
   \<and> 0 \<le> cs_overall_score (calculate_collaboration_score u repos)
   \<and> cs_overall_score (calculate_collaboration_score u repos) \<le> 100"
proof -
  let ?m = "sub_scores (score_loop (u_login u) (take scoring_limit repos))
              (length (take scoring_limit repos))
              (length (filter (\<lambda>r. \<not> r_fork r) (take scoring_limit repos)))"
  have "0 \<le> overall_of ?m \<and> overall_of ?m \<le> 100"
    by (rule overall_of_in_range [OF sub_scores_in_range])
  then show ?thesis
    by (simp add: calculate_collaboration_score_def Let_def round_metrics_in_range
        sub_scores_in_range py_round_nonneg py_round_le_100)
qed

text \<open>C2: the code-review ratio never needs its clamp: over the scoring loop the number
  of reviewed pull requests never exceeds the number of pull requests sampled, because
  the review loop only visits \<open>pulls[:5]\<close> of the pulls it has just counted.\<close>

theorem reviewed_prs_le_sampled_prs:
  "sa_pr_review_participation (score_loop l rs) \<le> sa_total_prs (score_loop l rs)"
  unfolding score_loop_def by (rule score_foldl_reviews) (simp add: score_acc0_def)

text \<open>The team-projects ratio never exceeds 100 before its clamp: a repository
  counts as collaborative only when it is owned and not a fork, so the count is bounded
  by the number of non-fork repositories the code divides by.\<close>

theorem team_ratio_le_100:
  "ratio (sa_collaborative_projects (score_loop l rs)) (length (filter (\<lambda>r. \<not> r_fork r) rs))
     * 100 \<le> 100"
proof -
  have "sa_collaborative_projects (score_loop l rs) \<le> length (filter (owned_nonfork l) rs)"
    using score_foldl_collab_projects [of l score_acc0 rs]
    by (simp add: score_loop_def score_acc0_def)
  also have "\<dots> \<le> length (filter (\<lambda>r. \<not> r_fork r) rs)"
    by (rule owned_nonfork_le_nonfork)
  finally show ?thesis by (simp add: ratio_le_1)
qed

text \<open>C4: a failing collaborator request on one repository changes nothing in the
  scoring loop but the set of unique collaborators: fork counts, issue and pull request
  counts, reviews, team projects and the contributors of that repository are as if the
  request had succeeded.\<close>

theorem collaborator_failure_isolated:
  "score_repo l a (r\<lparr>r_get_collaborators := Inl e\<rparr>) =
     (score_repo l a r)\<lparr>sa_collaborators := sa_collaborators a\<rparr>"
proof -
  let ?r' = "r\<lparr>r_get_collaborators := Inl e\<rparr>"
  have f: "score_fork_step a ?r' = score_fork_step a r"
    by (simp add: score_fork_step_def)
  have n: "score_network_step l b ?r' =
             (score_network_step l b r)\<lparr>sa_collaborators := sa_collaborators b\<rparr>" for b
    by (auto simp: score_network_step_def owned_nonfork_def split: sum.splits)
  have t: "score_team_step l (b\<lparr>sa_collaborators := C\<rparr>) ?r' =
             (score_team_step l b r)\<lparr>sa_collaborators := C\<rparr>" for b C
    by (auto simp: score_team_step_def owned_nonfork_def split: sum.splits)
  have c: "score_activity_step (b\<lparr>sa_collaborators := C\<rparr>) ?r' =
             (score_activity_step b r)\<lparr>sa_collaborators := C\<rparr>" for b C
    by (auto simp: score_activity_step_def Let_def split: sum.splits)
  show ?thesis by (simp add: score_repo_def f n t c)
qed

text \<open>C5: the reported overall score agrees with the documented weighted formula
  recomputed from the reported (rounded) sub-scores to within 0.1.\<close>

theorem overall_matches_reported_metrics:
  "\<bar>cs_overall_score (calculate_collaboration_score u repos)
     - overall_of (cs_metrics (calculate_collaboration_score u repos))\<bar> \<le> 1 / 10"
proof -
  obtain m where m: "cs_metrics (calculate_collaboration_score u repos) = round_metrics m"
    and o: "cs_overall_score (calculate_collaboration_score u repos) = py_round (overall_of m) 1"
    by (simp add: calculate_collaboration_score_def Let_def)
  have "\<bar>py_round (overall_of m) 1 - overall_of m\<bar> \<le> 1 / 20"
    using py_round_error [of "overall_of m" 1] by simp
  with overall_of_round_metrics [of m] show ?thesis
    unfolding m o by linarith
qed

text \<open>C6 (spec example): when no analysed repository is a fork, none has been forked,
  and every issue, pull request, collaborator and contributor request returns nothing
  (or fails), the overall score is 0.0, the level is "Independent Developer" and the
  team fit is "Independent".\<close>

theorem quiet_profile_scores_zero:
  assumes "\<forall>r \<in> set repos. \<not> r_fork r \<and> r_forks_count r = 0
      \<and> fetch_or [] (r_get_issues_all r) = [] \<and> fetch_or [] (r_get_pulls_all r) = []
      \<and> fetch_or [] (r_get_collaborators r) = [] \<and> fetch_or [] (r_get_contributors r) = []"
  shows "cs_overall_score (calculate_collaboration_score u repos) = 0
    \<and> cs_level (calculate_collaboration_score u repos) = ''Independent Developer''
    \<and> cs_team_fit (calculate_collaboration_score u repos) = ''Independent''"
proof -
  have "\<forall>r \<in> set (take scoring_limit repos). \<not> r_fork r \<and> r_forks_count r = 0
      \<and> fetch_or [] (r_get_issues_all r) = [] \<and> fetch_or [] (r_get_pulls_all r) = []
      \<and> fetch_or [] (r_get_collaborators r) = [] \<and> fetch_or [] (r_get_contributors r) = []"
    using assms by (auto dest: in_set_takeD)
  then have "score_loop (u_login u) (take scoring_limit repos) = score_acc0"
    unfolding score_loop_def by (rule score_foldl_idle)
  then show ?thesis
    by (simp add: calculate_collaboration_score_def Let_def sub_scores_def overall_of_def
        score_acc0_def ratio_def classify_level_def)
qed

theorem quiet_profile_scores_zero_witness:
  "cs_overall_score (calculate_collaboration_score blank_user [blank_repo, blank_repo, blank_repo]) = 0
   \<and> cs_level (calculate_collaboration_score blank_user [blank_repo, blank_repo, blank_repo])
       = ''Independent Developer''
   \<and> cs_team_fit (calculate_collaboration_score blank_user [blank_repo, blank_repo, blank_repo])
       = ''Independent''"
  by (rule quiet_profile_scores_zero) (simp add: blank_repo_def)

text \<open>The level and the team fit are decided on the unrounded overall score, while
  the reported score is rounded: a profile reported with overall score 75.0 can be
  classified "Strong Collaborator", below the documented threshold of 75 for
  "Exceptional Collaborator".  Here one forked repository with three unreviewed pull
  requests and one owned repository, forked 19 times, with five collaborators and ten
  pull requests from another user, the first five reviewed, score 74.97.\<close>

theorem rounded_75_classified_strong:
  "let plain = \<lparr>pr_user_login = ''x'', pr_get_reviews = Inr []\<rparr>;
       reviewed = \<lparr>pr_user_login = ''x'', pr_get_reviews = Inr [\<lparr>rv_user_login = ''y''\<rparr>]\<rparr>;
       a = blank_repo\<lparr>r_owner_login := ''z'', r_fork := True,
             r_get_pulls_all := Inr (replicate 3 plain)\<rparr>;
       b = blank_repo\<lparr>r_owner_login := ''u'', r_forks_count := 19,
             r_get_pulls_all := Inr (replicate 5 reviewed @ replicate 5 plain),
             r_get_collaborators := Inr (map (\<lambda>l. \<lparr>p_login = l, p_name = None, p_avatar_url = []\<rparr>)
                [''a'', ''b'', ''c'', ''d'', ''e''])\<rparr>;
       s = calculate_collaboration_score (blank_user\<lparr>u_login := ''u''\<rparr>) [a, b]
   in cs_overall_score s = 75 \<and> cs_level s = ''Strong Collaborator''"
  by code_simp

end
