(* ===== verification/Levels.thy ===== *)
theory Levels
  imports Scoring
begin

text \<open>
  The collaboration levels of \<open>_calculate_collaboration_score\<close> form a scale:
  the thresholds 75, 60, 40 and 20 of the level chain rank them from
  \<open>Independent Developer\<close> up to \<open>Exceptional Collaborator\<close>.  The scale is
  an instance of \<open>linorder\<close>, so that the library's order reasoning applies to
  levels; the results are that the level is monotone in the score and that the
  separate team-fit label (threshold 50) never contradicts the level.
\<close>

fun level_rank :: "collab_level \<Rightarrow> nat" where
  "level_rank Independent_Dev = 0"
| "level_rank Emerging = 1"
| "level_rank Moderate = 2"
| "level_rank Strong = 3"
| "level_rank Exceptional = 4"

instantiation collab_level :: linorder
begin

definition less_eq_collab_level :: "collab_level \<Rightarrow> collab_level \<Rightarrow> bool" where
  "less_eq_collab_level x y \<longleftrightarrow> level_rank x \<le> level_rank y"

definition less_collab_level :: "collab_level \<Rightarrow> collab_level \<Rightarrow> bool" where
  "less_collab_level x y \<longleftrightarrow> level_rank x < level_rank y"

instance
proof (standard, goal_cases less refl trans antisym total)
  case (antisym x y)
  then show ?case
    by (cases x; cases y) (simp_all add: less_eq_collab_level_def)
qed (auto simp: less_eq_collab_level_def less_collab_level_def)

end

section \<open>The level scale\<close>

lemma level_name_inj: "level_name l = level_name l' \<longleftrightarrow> l = l'"
  by (cases l; cases l') simp_all

lemma classify_level_mono: "s \<le> t \<Longrightarrow> classify_level s \<le> classify_level t"
  by (auto simp: classify_level_def less_eq_collab_level_def)

lemma calculate_collaboration_score_level_fit:
  "cs_level (calculate_collaboration_score u repos) = level_name (classify_level sc)
   \<and> cs_overall_score (calculate_collaboration_score u repos) = py_round sc 1
   \<and> cs_team_fit (calculate_collaboration_score u repos) =
       (if 50 \<le> sc then ''Collaborative'' else ''Independent'')"
  if "sc = overall_of (sub_scores (score_loop (u_login u) (take scoring_limit repos))
                        (length (take scoring_limit repos))
                        (length (filter (\<lambda>r. \<not> r_fork r) (take scoring_limit repos))))"
  using that by (simp add: calculate_collaboration_score_def Let_def)

text \<open>A score rounded to one decimal and a threshold that is a whole number lie on
  the same side of it, except when the rounding lands on the threshold from below.\<close>

lemma round_tenth_threshold:
  fixes x :: real and k j :: int
  assumes "\<bar>of_int k / 10 - x\<bar> \<le> 1 / 20"
  shows "((of_int k / 10 :: real) < of_int j \<longleftrightarrow> x < of_int j)
         \<or> ((of_int k / 10 :: real) = of_int j \<and> x < of_int j)"
proof -
  have lo: "of_int k / 10 - x \<le> 1 / 20" and hi: "- (of_int k / 10 - x) \<le> 1 / 20"
    using abs_le_D1 [OF assms] abs_le_D2 [OF assms] by simp_all
  consider "k < 10 * j" | "k = 10 * j" | "10 * j < k" by linarith
  then show ?thesis
  proof cases
    case 1
    then have "real_of_int k \<le> 10 * real_of_int j - 1" by linarith
    then show ?thesis using lo hi by auto
  next
    case 2
    then show ?thesis using lo hi by auto
  next
    case 3
    then have "10 * real_of_int j + 1 \<le> real_of_int k" by linarith
    then show ?thesis using lo hi by auto
  qed
qed

lemma py_round_tenth: "\<exists>k. py_round x 1 = of_int k / 10 \<and> \<bar>of_int k / 10 - x\<bar> \<le> 1 / 20"
  using py_round_error [of x 1] by (simp add: py_round_def)

text \<open>C11: the level and the team-fit label agree: a profile labelled
  \<open>Collaborative\<close> is at least a Moderate Collaborator, and a Strong or
  Exceptional Collaborator is always labelled \<open>Collaborative\<close>; and the level is
  monotone in the overall score.\<close>

theorem level_team_fit_consistent:
  assumes "cs_level (calculate_collaboration_score u repos) = level_name l"
  shows "(cs_team_fit (calculate_collaboration_score u repos) = ''Collaborative'' \<longrightarrow> Moderate \<le> l)
         \<and> (Strong \<le> l \<longrightarrow> cs_team_fit (calculate_collaboration_score u repos) = ''Collaborative'')
         \<and> (\<forall>s t. s \<le> t \<longrightarrow> classify_level s \<le> classify_level t)"
proof -
  obtain sc where lf: "cs_level (calculate_collaboration_score u repos) = level_name (classify_level sc)"
    "cs_overall_score (calculate_collaboration_score u repos) = py_round sc 1"
    "cs_team_fit (calculate_collaboration_score u repos) = (if 50 \<le> sc then ''Collaborative'' else ''Independent'')"
    using calculate_collaboration_score_level_fit by blast
  have l: "l = classify_level sc" using assms lf(1) by (simp add: level_name_inj)
  show ?thesis
    using lf(3) classify_level_mono
    by (auto simp: l classify_level_def less_eq_collab_level_def)
qed

theorem level_team_fit_consistent_witness:
  "cs_level (calculate_collaboration_score blank_user []) = level_name Independent_Dev
   \<and> \<not> Moderate \<le> Independent_Dev
   \<and> cs_team_fit (calculate_collaboration_score blank_user []) \<noteq> ''Collaborative''"
proof -
  have lvl: "cs_level (calculate_collaboration_score blank_user []) = level_name Independent_Dev"
    by (simp add: calculate_collaboration_score_def Let_def score_loop_def score_acc0_def sub_scores_def ratio_def
                  overall_of_def classify_level_def)
  have "\<not> Moderate \<le> Independent_Dev" by (simp add: less_eq_collab_level_def)
  with lvl level_team_fit_consistent [OF lvl] show ?thesis by auto
qed

text \<open>C7: the level is decided on the unrounded overall score, the reported score is
  the rounded one; the two disagree exactly at the boundaries: whenever the reported
  level is not the level of the reported score, that score is one of the thresholds
  20, 40, 60, 75, reached by rounding up from below, and the reported level is the one
  just below it.  So a profile reported at 75.0 can be a Strong Collaborator, and no
  other discrepancy occurs.\<close>

theorem level_disagreement_at_thresholds:
  assumes "cs_level (calculate_collaboration_score u repos) \<noteq>
           level_name (classify_level (cs_overall_score (calculate_collaboration_score u repos)))"
  shows "cs_overall_score (calculate_collaboration_score u repos) \<in> {20, 40, 60, 75}
         \<and> cs_level (calculate_collaboration_score u repos) =
             level_name (classify_level (cs_overall_score (calculate_collaboration_score u repos) - 1 / 10))"
proof -
  obtain sc where lf: "cs_level (calculate_collaboration_score u repos) = level_name (classify_level sc)"
    "cs_overall_score (calculate_collaboration_score u repos) = py_round sc 1"
    using calculate_collaboration_score_level_fit by blast
  obtain k where k: "py_round sc 1 = of_int k / 10" "\<bar>of_int k / 10 - sc\<bar> \<le> 1 / 20"
    using py_round_tenth by blast
  have t: "(of_int k / 10 < (of_int j :: real) \<longleftrightarrow> sc < of_int j) \<or>
           (of_int k / 10 = (of_int j :: real) \<and> sc < of_int j)" for j
    using round_tenth_threshold [OF k(2)] by blast
  note t20 = t [of 20] and t40 = t [of 40] and t60 = t [of 60] and t75 = t [of 75]
  have "classify_level sc \<noteq> classify_level (of_int k / 10)"
    using assms unfolding lf k(1) by (simp add: level_name_inj)
  then show ?thesis
    using t20 t40 t60 t75 k(2) unfolding lf k(1)
    by (auto simp: classify_level_def abs_le_iff split: if_splits)
qed

theorem level_disagreement_at_thresholds_witness:
  "let plain = \<lparr>pr_user_login = ''x'', pr_get_reviews = Inr []\<rparr>;
       reviewed = \<lparr>pr_user_login = ''x'', pr_get_reviews = Inr [\<lparr>rv_user_login = ''y''\<rparr>]\<rparr>;
       a = blank_repo\<lparr>r_owner_login := ''z'', r_fork := True,
             r_get_pulls_all := Inr (replicate 3 plain)\<rparr>;
       b = blank_repo\<lparr>r_owner_login := ''u'', r_forks_count := 19,
             r_get_pulls_all := Inr (replicate 5 reviewed @ replicate 5 plain),
             r_get_collaborators := Inr (map (\<lambda>l. \<lparr>p_login = l, p_name = None, p_avatar_url = []\<rparr>)
                [''a'', ''b'', ''c'', ''d'', ''e''])\<rparr>;
       s = calculate_collaboration_score (blank_user\<lparr>u_login := ''u''\<rparr>) [a, b]
   in cs_level s \<noteq> level_name (classify_level (cs_overall_score s))
      \<and> cs_overall_score s = 75 \<and> cs_level s = level_name (classify_level (cs_overall_score s - 1 / 10))"
proof -
  let ?plain = "\<lparr>pr_user_login = ''x'', pr_get_reviews = Inr []\<rparr>"
  let ?reviewed = "\<lparr>pr_user_login = ''x'', pr_get_reviews = Inr [\<lparr>rv_user_login = ''y''\<rparr>]\<rparr>"
  let ?a = "blank_repo\<lparr>r_owner_login := ''z'', r_fork := True,
              r_get_pulls_all := Inr (replicate 3 ?plain)\<rparr>"
  let ?b = "blank_repo\<lparr>r_owner_login := ''u'', r_forks_count := 19,
              r_get_pulls_all := Inr (replicate 5 ?reviewed @ replicate 5 ?plain),
              r_get_collaborators := Inr (map (\<lambda>l. \<lparr>p_login = l, p_name = None, p_avatar_url = []\<rparr>)
                 [''a'', ''b'', ''c'', ''d'', ''e''])\<rparr>"
  let ?s = "calculate_collaboration_score (blank_user\<lparr>u_login := ''u''\<rparr>) [?a, ?b]"
  have e: "cs_overall_score ?s = 75 \<and> cs_level ?s = ''Strong Collaborator''"
    using rounded_75_classified_strong unfolding Let_def .
  then have h: "cs_level ?s \<noteq> level_name (classify_level (cs_overall_score ?s))"
    by (simp add: classify_level_def)
  from level_disagreement_at_thresholds [OF h] e h show ?thesis
    unfolding Let_def by simp
qed

end
