(* ===== verification/Collaborators.thy ===== *)
theory Collaborators
  imports GitHubSource "HOL-Library.AList"
begin

text \<open>
  The collaborator/contributor deduplication engine (\<open>_get_collaborators\<close>,
  github_analyzer.py 314-439).  The dictionary \<open>all_people\<close> is an association
  list in insertion order (\<open>registry\<close>), updated with \<open>AList.update\<close>, which keeps
  a key's position and appends a new key, as a Python dict does.  The loop over the
  first 15 owned non-fork repositories is a fold of \<open>collect_repo\<close>, whose two inner
  loops are folds of \<open>upsert_collaborator\<close> and \<open>upsert_contributor\<close>.  A failing
  request leaves that repository's list empty.

  The abstract view: each repository yields a list of sightings (collaborators first,
  then contributors); the registry is the fold of one upsert over all sightings.
  Its keys are the logins sighted, each once; a person's repository count is the number
  of sightings; and a person's role is the role of the first sighting, whichever it
  was (so a contributor later seen as a collaborator stays a contributor).
\<close>

datatype person_type = Collaborator | Contributor

fun person_type_str :: "person_type \<Rightarrow> string" where
  "person_type_str Collaborator = ''collaborator''"
| "person_type_str Contributor = ''contributor''"

record person_entry =
  pe_username :: string
  pe_name :: string
  pe_avatar_url :: string
  pe_repo_count :: nat
  pe_type :: person_type
  pe_total_contributions :: "nat option"

type_synonym registry = "(string \<times> person_entry) list"

text \<open>The per-repository dictionaries built by the two list comprehensions.\<close>

record collab_view =
  cv_username :: string
  cv_name :: string
  cv_avatar_url :: string

record contrib_view = collab_view +
  cv_contributions :: nat

record repo_people =
  rp_repo_name :: string
  rp_repo_url :: string
  rp_collaborators :: "collab_view list"
  rp_contributors :: "contrib_view list"
  rp_total_people :: nat

record collaborators_data =
  cd_total_unique_people :: nat
  cd_total_unique_collaborators :: nat
  cd_total_unique_contributors :: nat
  cd_collaborators_by_repo :: "repo_people list"
  cd_top_people :: "person_entry list"

definition collab_view_of :: "gh_person \<Rightarrow> collab_view" where
  "collab_view_of c = \<lparr>cv_username = p_login c, cv_name = str_or (p_name c) (p_login c),
     cv_avatar_url = p_avatar_url c\<rparr>"

definition contrib_view_of :: "gh_contributor \<Rightarrow> contrib_view" where
  "contrib_view_of c = \<lparr>cv_username = p_login c, cv_name = str_or (p_name c) (p_login c),
     cv_avatar_url = p_avatar_url c, cv_contributions = c_contributions c\<rparr>"

section \<open>Upserts into the registry\<close>

definition upsert_collaborator :: "registry \<Rightarrow> collab_view \<Rightarrow> registry" where
  "upsert_collaborator reg v =
     (let u = cv_username v;
          e = (case map_of reg u of
                 None \<Rightarrow> \<lparr>pe_username = u, pe_name = cv_name v, pe_avatar_url = cv_avatar_url v,
                          pe_repo_count = 0, pe_type = Collaborator, pe_total_contributions = None\<rparr>
               | Some e \<Rightarrow> e)
      in AList.update u (e\<lparr>pe_repo_count := Suc (pe_repo_count e)\<rparr>) reg)"

definition upsert_contributor :: "registry \<Rightarrow> contrib_view \<Rightarrow> registry" where
  "upsert_contributor reg v =
     (let u = cv_username v;
          e = (case map_of reg u of
                 None \<Rightarrow> \<lparr>pe_username = u, pe_name = cv_name v, pe_avatar_url = cv_avatar_url v,
                          pe_repo_count = 0, pe_type = Contributor, pe_total_contributions = Some 0\<rparr>
               | Some e \<Rightarrow> e)
      in AList.update u
           (e\<lparr>pe_repo_count := Suc (pe_repo_count e),
              pe_total_contributions := Some (case pe_total_contributions e of
                                                None \<Rightarrow> cv_contributions v
                                              | Some t \<Rightarrow> t + cv_contributions v)\<rparr>) reg)"

section \<open>One repository\<close>

definition repo_collaborators :: "string \<Rightarrow> gh_repo \<Rightarrow> collab_view list" where
  "repo_collaborators login r =
     (case r_get_collaborators r of
        Inl _ \<Rightarrow> []
      | Inr cs \<Rightarrow> map collab_view_of (filter (\<lambda>c. p_login c \<noteq> login) cs))"

definition repo_contributors :: "string \<Rightarrow> collab_view list \<Rightarrow> gh_repo \<Rightarrow> contrib_view list" where
  "repo_contributors login rcs r =
     (case r_get_contributors r of
        Inl _ \<Rightarrow> []
      | Inr cs \<Rightarrow> map contrib_view_of
          (filter (\<lambda>c. p_login c \<noteq> login \<and> p_login c \<notin> set (map cv_username rcs)) cs))"

definition collect_repo ::
  "string \<Rightarrow> registry \<times> repo_people list \<Rightarrow> gh_repo \<Rightarrow> registry \<times> repo_people list" where
  "collect_repo login st r =
     (let (reg, by_repo) = st;
          rcs = repo_collaborators login r;
          reg1 = foldl upsert_collaborator reg rcs;
          rns = repo_contributors login rcs r;
          reg2 = foldl upsert_contributor reg1 rns
      in (reg2, if rcs \<noteq> [] \<or> rns \<noteq> []
                then by_repo @ [\<lparr>rp_repo_name = r_name r, rp_repo_url = r_html_url r,
                                 rp_collaborators = rcs, rp_contributors = rns,
                                 rp_total_people = length rcs + length rns\<rparr>]
                else by_repo))"

section \<open>The whole scan\<close>

definition collab_scan_limit :: nat where
  "collab_scan_limit = 15"

definition top_people_limit :: nat where
  "top_people_limit = 15"

definition owned_scanned :: "string \<Rightarrow> gh_repo list \<Rightarrow> gh_repo list" where
  "owned_scanned login repos = take collab_scan_limit (filter (owned_nonfork login) repos)"

definition collab_scan :: "string \<Rightarrow> gh_repo list \<Rightarrow> registry \<times> repo_people list" where
  "collab_scan login repos = foldl (collect_repo login) ([], []) (owned_scanned login repos)"

definition get_collaborators :: "gh_user \<Rightarrow> gh_repo list \<Rightarrow> collaborators_data" where
  "get_collaborators u repos =
     (let (reg, by_repo) = collab_scan (u_login u) repos;
          people = map snd reg
      in \<lparr>cd_total_unique_people = length reg,
          cd_total_unique_collaborators = length (filter (\<lambda>p. pe_type p = Collaborator) people),
          cd_total_unique_contributors = length (filter (\<lambda>p. pe_type p = Contributor) people),
          cd_collaborators_by_repo = by_repo,
          cd_top_people = (if reg \<noteq> []
                           then take top_people_limit (sort_key (\<lambda>p. - int (pe_repo_count p)) people)
                           else [])\<rparr>)"

section \<open>Abstract view: sightings\<close>

datatype sighting = Saw_Collab collab_view | Saw_Contrib contrib_view

fun sight_login :: "sighting \<Rightarrow> string" where
  "sight_login (Saw_Collab v) = cv_username v"
| "sight_login (Saw_Contrib v) = cv_username v"

fun sight_type :: "sighting \<Rightarrow> person_type" where
  "sight_type (Saw_Collab v) = Collaborator"
| "sight_type (Saw_Contrib v) = Contributor"

fun upsert_sighting :: "registry \<Rightarrow> sighting \<Rightarrow> registry" where
  "upsert_sighting reg (Saw_Collab v) = upsert_collaborator reg v"
| "upsert_sighting reg (Saw_Contrib v) = upsert_contributor reg v"

definition repo_sightings :: "string \<Rightarrow> gh_repo \<Rightarrow> sighting list" where
  "repo_sightings login r =
     (let rcs = repo_collaborators login r
      in map Saw_Collab rcs @ map Saw_Contrib (repo_contributors login rcs r))"

definition all_sightings :: "string \<Rightarrow> gh_repo list \<Rightarrow> sighting list" where
  "all_sightings login rs = concat (map (repo_sightings login) rs)"

definition reg_count :: "registry \<Rightarrow> string \<Rightarrow> nat" where
  "reg_count reg x = (case map_of reg x of None \<Rightarrow> 0 | Some e \<Rightarrow> pe_repo_count e)"

definition reg_type :: "registry \<Rightarrow> string \<Rightarrow> person_type option" where
  "reg_type reg x = map_option pe_type (map_of reg x)"

definition first_type :: "string \<Rightarrow> sighting list \<Rightarrow> person_type option" where
  "first_type x evs = map_option sight_type (find (\<lambda>s. sight_login s = x) evs)"

text \<open>A person's \<open>total_contributions\<close> in the registry (absent for a person only
  ever seen as a collaborator), and the contribution counts a sighting carries for a
  login.\<close>

definition reg_contrib :: "registry \<Rightarrow> string \<Rightarrow> nat option" where
  "reg_contrib reg x = (case map_of reg x of None \<Rightarrow> None | Some e \<Rightarrow> pe_total_contributions e)"

fun sight_contrib :: "string \<Rightarrow> sighting \<Rightarrow> nat list" where
  "sight_contrib x (Saw_Collab v) = []"
| "sight_contrib x (Saw_Contrib v) = (if cv_username v = x then [cv_contributions v] else [])"

definition contrib_total :: "nat option \<Rightarrow> nat list \<Rightarrow> nat option" where
  "contrib_total t cs =
     (if cs = [] then t else Some (case t of None \<Rightarrow> sum_list cs | Some n \<Rightarrow> n + sum_list cs))"

section \<open>One upsert\<close>

lemma reg_Nil [simp]: "reg_type [] x = None" "reg_count [] x = 0"
  by (simp_all add: reg_type_def reg_count_def)

lemma map_of_upsert_sighting:
  "x \<noteq> sight_login s \<Longrightarrow> map_of (upsert_sighting reg s) x = map_of reg x"
  by (cases s) (simp_all add: upsert_collaborator_def upsert_contributor_def Let_def update_conv')

lemma keys_upsert_sighting:
  "fst ` set (upsert_sighting reg s) = insert (sight_login s) (fst ` set reg)"
  by (cases s) (simp_all add: upsert_collaborator_def upsert_contributor_def Let_def dom_update)

lemma distinct_upsert_sighting:
  "distinct (map fst reg) \<Longrightarrow> distinct (map fst (upsert_sighting reg s))"
  by (cases s) (simp_all add: upsert_collaborator_def upsert_contributor_def Let_def distinct_update)

lemma reg_count_upsert_sighting:
  "reg_count (upsert_sighting reg s) x = reg_count reg x + (if x = sight_login s then 1 else 0)"
  by (cases s) (auto simp: reg_count_def upsert_collaborator_def upsert_contributor_def Let_def
      update_conv' split: option.splits)

lemma reg_type_upsert_sighting:
  "reg_type (upsert_sighting reg s) x =
     (if x = sight_login s \<and> reg_type reg x = None then Some (sight_type s) else reg_type reg x)"
  by (cases s) (auto simp: reg_type_def upsert_collaborator_def upsert_contributor_def Let_def
      update_conv' split: option.splits)

section \<open>The fold over sightings\<close>

lemma reg_count_foldl:
  "reg_count (foldl upsert_sighting reg evs) x =
     reg_count reg x + length (filter (\<lambda>s. sight_login s = x) evs)"
  by (induction evs arbitrary: reg) (auto simp: reg_count_upsert_sighting)

lemma reg_type_foldl:
  "reg_type (foldl upsert_sighting reg evs) x =
     (case reg_type reg x of None \<Rightarrow> first_type x evs | Some t \<Rightarrow> Some t)"
  by (induction evs arbitrary: reg)
     (auto simp: reg_type_upsert_sighting first_type_def split: option.splits)

lemma reg_contrib_upsert_sighting:
  "reg_contrib (upsert_sighting reg s) x =
     (if x = sight_login s then contrib_total (reg_contrib reg x) (sight_contrib x s) else reg_contrib reg x)"
  by (cases s) (auto simp: reg_contrib_def contrib_total_def upsert_collaborator_def
      upsert_contributor_def Let_def update_conv' split: option.splits)

lemma contrib_total_append: "contrib_total (contrib_total t a) b = contrib_total t (a @ b)"
  by (auto simp: contrib_total_def split: option.splits)

lemma sight_contrib_other: "x \<noteq> sight_login s \<Longrightarrow> sight_contrib x s = []"
  by (cases s) simp_all

lemma reg_contrib_foldl:
  "reg_contrib (foldl upsert_sighting reg evs) x =
     contrib_total (reg_contrib reg x) (concat (map (sight_contrib x) evs))"
proof (induction evs arbitrary: reg)
  case Nil
  then show ?case by (simp add: contrib_total_def)
next
  case (Cons s evs)
  have "reg_contrib (upsert_sighting reg s) x = contrib_total (reg_contrib reg x) (sight_contrib x s)"
    by (cases "x = sight_login s")
       (simp_all add: reg_contrib_upsert_sighting sight_contrib_other contrib_total_def)
  with Cons.IH [of "upsert_sighting reg s"] show ?case by (simp add: contrib_total_append)
qed

lemma keys_foldl:
  "fst ` set (foldl upsert_sighting reg evs) = fst ` set reg \<union> sight_login ` set evs"
  by (induction evs arbitrary: reg) (auto simp: keys_upsert_sighting)

lemma distinct_foldl:
  "distinct (map fst reg) \<Longrightarrow> distinct (map fst (foldl upsert_sighting reg evs))"
  by (induction evs arbitrary: reg) (simp_all add: distinct_upsert_sighting)

section \<open>The code's loops are the fold over sightings\<close>

lemma foldl_upsert_collab:
  "foldl upsert_sighting reg (map Saw_Collab vs) = foldl upsert_collaborator reg vs"
  by (induction vs arbitrary: reg) simp_all

lemma foldl_upsert_contrib:
  "foldl upsert_sighting reg (map Saw_Contrib vs) = foldl upsert_contributor reg vs"
  by (induction vs arbitrary: reg) simp_all

lemma collect_repo_registry:
  "fst (collect_repo login (reg, by_repo) r) = foldl upsert_sighting reg (repo_sightings login r)"
  by (simp add: collect_repo_def repo_sightings_def Let_def foldl_upsert_collab foldl_upsert_contrib)

lemma collect_foldl_registry:
  "fst (foldl (collect_repo login) st rs) = foldl upsert_sighting (fst st) (all_sightings login rs)"
proof (induction rs arbitrary: st)
  case Nil
  then show ?case by (simp add: all_sightings_def)
next
  case (Cons r rs)
  obtain reg by_repo where st: "st = (reg, by_repo)" by fastforce
  have "fst (collect_repo login st r) = foldl upsert_sighting reg (repo_sightings login r)"
    by (simp add: st collect_repo_registry)
  with Cons.IH [of "collect_repo login st r"] show ?case
    by (simp add: st all_sightings_def)
qed

lemma collab_scan_registry:
  "fst (collab_scan login repos) =
     foldl upsert_sighting [] (all_sightings login (owned_scanned login repos))"
  unfolding collab_scan_def by (simp add: collect_foldl_registry)

lemma distinct_collab_scan: "distinct (map fst (fst (collab_scan login repos)))"
  unfolding collab_scan_registry by (rule distinct_foldl) simp

lemma sum_counts_update_Some:
  "distinct (map fst reg) \<Longrightarrow> map_of reg k = Some e \<Longrightarrow> pe_repo_count v = Suc (pe_repo_count e)
   \<Longrightarrow> sum_list (map (pe_repo_count \<circ> snd) (AList.update k v reg)) =
       Suc (sum_list (map (pe_repo_count \<circ> snd) reg))"
  by (induction reg) (auto split: if_splits)

lemma sum_counts_update_None:
  "map_of reg k = None \<Longrightarrow>
   sum_list (map (pe_repo_count \<circ> snd) (AList.update k v reg)) =
     sum_list (map (pe_repo_count \<circ> snd) reg) + pe_repo_count v"
  by (induction reg) (auto split: if_splits)

lemma sum_counts_upsert_sighting:
  "distinct (map fst reg) \<Longrightarrow>
   sum_list (map (pe_repo_count \<circ> snd) (upsert_sighting reg s)) =
     Suc (sum_list (map (pe_repo_count \<circ> snd) reg))"
  by (cases s; cases "map_of reg (sight_login s)")
     (simp_all add: upsert_collaborator_def upsert_contributor_def Let_def
       sum_counts_update_Some sum_counts_update_None)

lemma sum_counts_foldl:
  "distinct (map fst reg) \<Longrightarrow>
   sum_list (map (pe_repo_count \<circ> snd) (foldl upsert_sighting reg evs)) =
     sum_list (map (pe_repo_count \<circ> snd) reg) + length evs"
  by (induction evs arbitrary: reg) (simp_all add: sum_counts_upsert_sighting distinct_upsert_sighting)

lemma by_repo_total_foldl:
  "sum_list (map rp_total_people (snd (foldl (collect_repo login) st rs))) =
     sum_list (map rp_total_people (snd st)) + length (all_sightings login rs)"
proof (induction rs arbitrary: st)
  case Nil
  then show ?case by (simp add: all_sightings_def)
next
  case (Cons r rs)
  obtain reg by_repo where st: "st = (reg, by_repo)" by fastforce
  have "sum_list (map rp_total_people (snd (collect_repo login st r))) =
          sum_list (map rp_total_people by_repo) + length (repo_sightings login r)"
    by (simp add: st collect_repo_def repo_sightings_def Let_def)
  with Cons.IH [of "collect_repo login st r"] show ?case
    by (simp add: st all_sightings_def)
qed

lemma get_collaborators_fields:
  "cd_total_unique_people (get_collaborators u repos) = length (fst (collab_scan (u_login u) repos))"
  "cd_total_unique_collaborators (get_collaborators u repos) =
     length (filter (\<lambda>p. pe_type p = Collaborator) (map snd (fst (collab_scan (u_login u) repos))))"
  "cd_total_unique_contributors (get_collaborators u repos) =
     length (filter (\<lambda>p. pe_type p = Contributor) (map snd (fst (collab_scan (u_login u) repos))))"
  "cd_collaborators_by_repo (get_collaborators u repos) = snd (collab_scan (u_login u) repos)"
  "cd_top_people (get_collaborators u repos) =
     (if fst (collab_scan (u_login u) repos) \<noteq> []
      then take top_people_limit (sort_key (\<lambda>p. - int (pe_repo_count p))
                                   (map snd (fst (collab_scan (u_login u) repos))))
      else [])"
  by (simp_all only: get_collaborators_def case_prod_unfold Let_def collaborators_data.simps)

section \<open>Properties of the deduplication engine\<close>

text \<open>C8: the registry holds each person once: the number of unique people reported is
  the number of distinct logins sighted in the scanned repositories.\<close>

theorem unique_people_is_distinct_logins:
  "cd_total_unique_people (get_collaborators u repos) =
     card (sight_login ` set (all_sightings (u_login u) (owned_scanned (u_login u) repos)))"
proof -
  let ?reg = "fst (collab_scan (u_login u) repos)"
  have "length ?reg = card (set (map fst ?reg))"
    using distinct_card [OF distinct_collab_scan] by simp
  also have "set (map fst ?reg) =
      sight_login ` set (all_sightings (u_login u) (owned_scanned (u_login u) repos))"
    by (simp add: collab_scan_registry keys_foldl)
  finally show ?thesis
    by (simp only: get_collaborators_fields)
qed

text \<open>C9: a person's role in the registry is the role of their first sighting, in the
  order the repositories are scanned (collaborators of a repository before its
  contributors); a later sighting never changes it.\<close>

theorem registry_role_is_first_sighting:
  "reg_type (fst (collab_scan login repos)) x =
     first_type x (all_sightings login (owned_scanned login repos))"
  by (simp add: collab_scan_registry reg_type_foldl)

text \<open>C10: a person's repository count is the number of times they are sighted.\<close>

theorem registry_count_is_sightings:
  "reg_count (fst (collab_scan login repos)) x =
     length (filter (\<lambda>s. sight_login s = x) (all_sightings login (owned_scanned login repos)))"
  by (simp add: collab_scan_registry reg_count_foldl)

text \<open>The unique people split into collaborators and contributors.\<close>

theorem unique_people_split:
  "cd_total_unique_people (get_collaborators u repos) =
     cd_total_unique_collaborators (get_collaborators u repos)
     + cd_total_unique_contributors (get_collaborators u repos)"
proof -
  have h: "length (filter (\<lambda>p. pe_type p = Collaborator) ps)
        + length (filter (\<lambda>p. pe_type p = Contributor) ps) = length ps" for ps
  proof -
    have "filter (\<lambda>p. pe_type p = Contributor) ps = filter (\<lambda>p. \<not> pe_type p = Collaborator) ps"
      by (rule filter_cong) (auto intro: person_type.exhaust)
    then show ?thesis by (simp add: sum_length_filter_compl)
  qed
  show ?thesis
    using h [of "map snd (fst (collab_scan (u_login u) repos))"]
    by (simp add: get_collaborators_fields)
qed

text \<open>C12: the repository counts of the registry add up to the people listed per
  repository: every person of a per-repository entry is counted once in the registry.\<close>

theorem registry_counts_match_by_repo:
  "sum_list (map (pe_repo_count \<circ> snd) (fst (collab_scan login repos))) =
     sum_list (map rp_total_people (snd (collab_scan login repos)))"
  using sum_counts_foldl [of "[]" "all_sightings login (owned_scanned login repos)"]
    by_repo_total_foldl [of login "([], [])" "owned_scanned login repos"]
  by (simp add: collab_scan_registry) (simp add: collab_scan_def)

text \<open>C13: a person's \<open>total_contributions\<close> is the sum of the contribution
  counts over all the repositories where the person is sighted as a contributor
  (their first-write role notwithstanding), and is absent exactly for a person never
  sighted as a contributor: the counter adds up across repositories and is never
  overwritten.\<close>

theorem registry_contributions_are_sightings:
  "reg_contrib (fst (collab_scan login repos)) x =
     (let cs = concat (map (sight_contrib x) (all_sightings login (owned_scanned login repos)))
      in if cs = [] then None else Some (sum_list cs))"
proof -
  have "reg_contrib [] x = None" by (simp add: reg_contrib_def)
  then show ?thesis
    by (simp add: collab_scan_registry reg_contrib_foldl contrib_total_def Let_def)
qed

text \<open>C14 (spec example): when a repository's collaborator request fails and its
  contributor request succeeds, all of its contributors other than the owner are
  sighted (none is filtered out as a collaborator of that repository).\<close>

theorem collaborator_failure_keeps_contributors:
  assumes "r_get_collaborators r = Inl e" "r_get_contributors r = Inr cs"
  shows "repo_sightings login r =
           map (Saw_Contrib \<circ> contrib_view_of) (filter (\<lambda>c. p_login c \<noteq> login) cs)"
  using assms by (simp add: repo_sightings_def repo_collaborators_def repo_contributors_def)

theorem collaborator_failure_keeps_contributors_witness:
  "repo_sightings ''u'' (blank_repo\<lparr>r_get_collaborators := Inl Permission_Denied,
      r_get_contributors := Inr [\<lparr>p_login = ''a'', p_name = None, p_avatar_url = [], c_contributions = 1\<rparr>,
                                 \<lparr>p_login = ''b'', p_name = None, p_avatar_url = [], c_contributions = 2\<rparr>]\<rparr>)
   = map (Saw_Contrib \<circ> contrib_view_of)
       [\<lparr>p_login = ''a'', p_name = None, p_avatar_url = [], c_contributions = 1\<rparr>,
        \<lparr>p_login = ''b'', p_name = None, p_avatar_url = [], c_contributions = 2\<rparr>]"
  using collaborator_failure_keeps_contributors
    [of "blank_repo\<lparr>r_get_collaborators := Inl Permission_Denied,
      r_get_contributors := Inr [\<lparr>p_login = ''a'', p_name = None, p_avatar_url = [], c_contributions = 1\<rparr>,
                                 \<lparr>p_login = ''b'', p_name = None, p_avatar_url = [], c_contributions = 2\<rparr>]\<rparr>"
        Permission_Denied
        "[\<lparr>p_login = ''a'', p_name = None, p_avatar_url = [], c_contributions = 1\<rparr>,
          \<lparr>p_login = ''b'', p_name = None, p_avatar_url = [], c_contributions = 2\<rparr>]" "''u''"]
  by simp

text \<open>C15: the top people are the people with the most repositories: at most 15
  of them (all, when there are fewer), in descending order of repository count; every
  person left out has no more repositories than any listed one; and people with equal
  counts keep the registry's order (first sighting first), as the stable
  \<open>sorted(..., reverse=True)[:15]\<close> gives.\<close>

theorem top_people_ranked:
  "let people = map snd (fst (collab_scan (u_login u) repos));
       top = cd_top_people (get_collaborators u repos)
   in length top = min 15 (length people)
      \<and> sorted_wrt (\<lambda>a b. pe_repo_count b \<le> pe_repo_count a) top
      \<and> (\<forall>p \<in> set top. \<forall>q. q \<in># mset people - mset top \<longrightarrow> pe_repo_count q \<le> pe_repo_count p)
      \<and> (\<forall>k. filter (\<lambda>p. pe_repo_count p = k) top =
              take (length (filter (\<lambda>p. pe_repo_count p = k) top))
                   (filter (\<lambda>p. pe_repo_count p = k) people))"
proof -
  let ?people = "map snd (fst (collab_scan (u_login u) repos))"
  have top: "cd_top_people (get_collaborators u repos) = top_by pe_repo_count 15 ?people"
    by (simp add: get_collaborators_fields top_people_limit_def top_by_def py_sorted_desc_nat)
  show ?thesis
    unfolding Let_def top
    using top_by_dominates [of _ pe_repo_count 15 ?people] top_by_sorted [of pe_repo_count 15 ?people]
          length_top_by [of pe_repo_count 15 ?people] top_by_stable [of pe_repo_count _ 15 ?people]
    by blast
qed

theorem top_people_ranked_witness:
  "let people = map snd (fst (collab_scan (u_login blank_user) [blank_repo\<lparr>r_get_collaborators :=
          Inr [\<lparr>p_login = ''a'', p_name = None, p_avatar_url = []\<rparr>]\<rparr>]));
       top = cd_top_people (get_collaborators blank_user [blank_repo\<lparr>r_get_collaborators :=
          Inr [\<lparr>p_login = ''a'', p_name = None, p_avatar_url = []\<rparr>]\<rparr>])
   in top \<noteq> [] \<and> length top = min 15 (length people)
      \<and> (\<forall>p \<in> set top. \<forall>q. q \<in># mset people - mset top \<longrightarrow> pe_repo_count q \<le> pe_repo_count p)"
proof -
  let ?r = "[blank_repo\<lparr>r_get_collaborators := Inr [\<lparr>p_login = ''a'', p_name = None, p_avatar_url = []\<rparr>]\<rparr>]"
  have ne: "cd_top_people (get_collaborators blank_user ?r) \<noteq> []"
    by code_simp
  have "let people = map snd (fst (collab_scan (u_login blank_user) ?r));
            top = cd_top_people (get_collaborators blank_user ?r)
        in length top = min 15 (length people)
           \<and> sorted_wrt (\<lambda>a b. pe_repo_count b \<le> pe_repo_count a) top
           \<and> (\<forall>p \<in> set top. \<forall>q. q \<in># mset people - mset top \<longrightarrow> pe_repo_count q \<le> pe_repo_count p)
           \<and> (\<forall>k. filter (\<lambda>p. pe_repo_count p = k) top =
                  take (length (filter (\<lambda>p. pe_repo_count p = k) top))
                       (filter (\<lambda>p. pe_repo_count p = k) people))"
    by (rule top_people_ranked)
  with ne show ?thesis unfolding Let_def by blast
qed

end
