(* ===== verification/Languages.thy ===== *)
theory Languages
  imports GitHubSource
begin

text \<open>
  The language distribution calculator (\<open>_get_top_languages\<close>,
  github_analyzer.py 120-147).  \<open>language_bytes\<close> is a \<open>Counter\<close> (an
  insertion-ordered association list, \<open>counter_add\<close>).  Each repository with a
  truthy primary language credits its byte breakdown, or 1000 bytes to its primary
  language when the breakdown request fails.  The top five by bytes (ties in first-seen
  order) are emitted with their share of the single grand total, rounded to two
  decimals.
\<close>

record lang_stat =
  ls_name :: string
  ls_bytes :: nat
  ls_percentage :: real

definition fallback_bytes :: nat where
  "fallback_bytes = 1000"

definition top_languages_n :: nat where
  "top_languages_n = 5"

text \<open>What one repository adds to the counter.\<close>

definition language_credits :: "gh_repo \<Rightarrow> (string \<times> nat) list" where
  "language_credits r =
     (case r_language r of
        None \<Rightarrow> []
      | Some l \<Rightarrow> if l = [] then []
                  else (case r_get_languages r of
                          Inl _ \<Rightarrow> [(l, fallback_bytes)]
                        | Inr ls \<Rightarrow> ls))"

definition add_credits :: "string counter \<Rightarrow> (string \<times> nat) list \<Rightarrow> string counter" where
  "add_credits c ls = foldl (\<lambda>c' lb. counter_add (fst lb) (snd lb) c') c ls"

definition count_languages :: "gh_repo list \<Rightarrow> string counter" where
  "count_languages repos = foldl (\<lambda>c r. add_credits c (language_credits r)) [] repos"

definition lang_percentage :: "nat \<Rightarrow> nat \<Rightarrow> real" where
  "lang_percentage b tot = (if 0 < tot then real b / real tot * 100 else 0)"

definition get_top_languages :: "gh_repo list \<Rightarrow> lang_stat list" where
  "get_top_languages repos =
     (let c = count_languages repos;
          tot = counter_total c
      in map (\<lambda>lb. \<lparr>ls_name = fst lb, ls_bytes = snd lb,
                     ls_percentage = py_round (lang_percentage (snd lb) tot) 2\<rparr>)
           (most_common top_languages_n c))"

text \<open>The abstract contract: the bytes credited to a language across all repositories.\<close>

definition credited_bytes :: "gh_repo list \<Rightarrow> string \<Rightarrow> nat" where
  "credited_bytes repos l =
     sum_list (map (\<lambda>r. sum_list (map snd (filter (\<lambda>lb. fst lb = l) (language_credits r)))) repos)"

section \<open>Lemmas\<close>

lemma counter_get_add_credits:
  "counter_get (add_credits c ls) l = counter_get c l + sum_list (map snd (filter (\<lambda>lb. fst lb = l) ls))"
  unfolding add_credits_def by (induction ls arbitrary: c) auto

lemma counter_get_count_languages_foldl:
  "counter_get (foldl (\<lambda>c r. add_credits c (language_credits r)) c rs) l =
     counter_get c l + credited_bytes rs l"
  by (induction rs arbitrary: c) (simp_all add: counter_get_add_credits credited_bytes_def)

lemma distinct_add_credits:
  "distinct (map fst c) \<Longrightarrow> distinct (map fst (add_credits c ls))"
  unfolding add_credits_def by (induction ls arbitrary: c) auto

lemma distinct_count_languages: "distinct (map fst (count_languages repos))"
proof -
  have "distinct (map fst c) \<Longrightarrow>
        distinct (map fst (foldl (\<lambda>c r. add_credits c (language_credits r)) c rs))" for c rs
    by (induction rs arbitrary: c) (simp_all add: distinct_add_credits)
  then show ?thesis by (simp add: count_languages_def)
qed

lemma lang_percentage_bounds:
  "b \<le> tot \<Longrightarrow> 0 \<le> lang_percentage b tot \<and> lang_percentage b tot \<le> 100"
proof (cases "0 < tot")
  case True
  assume "b \<le> tot"
  then have "real b * 100 \<le> 100 * real tot" by simp
  then show ?thesis using True by (simp add: lang_percentage_def divide_le_eq)
qed (simp add: lang_percentage_def)

lemma map_of_member: "distinct (map fst c) \<Longrightarrow> (k, m) \<in> set c \<Longrightarrow> counter_get c k = m"
  by (simp add: counter_get_def)

lemma credited_bytes_append:
  "credited_bytes (xs @ ys) l = credited_bytes xs l + credited_bytes ys l"
  by (simp add: credited_bytes_def)

lemma names_top_languages:
  "map ls_name (get_top_languages repos) = map fst (most_common top_languages_n (count_languages repos))"
  by (simp add: get_top_languages_def Let_def)

lemmas language_eval = count_languages_def add_credits_def language_credits_def blank_repo_def
  most_common_def fallback_bytes_def top_languages_n_def

lemma counter_get_count_languages:
  "counter_get (count_languages repos) l = credited_bytes repos l"
  using counter_get_count_languages_foldl [of "[]" repos l] by (simp add: count_languages_def)

lemma top_languages_entries:
  "(\<forall>st \<in> set (get_top_languages repos). P st) \<longleftrightarrow>
   (\<forall>lb \<in> set (most_common top_languages_n (count_languages repos)).
      P \<lparr>ls_name = fst lb, ls_bytes = snd lb,
         ls_percentage = py_round (lang_percentage (snd lb) (counter_total (count_languages repos))) 2\<rparr>)"
  by (simp add: get_top_languages_def Let_def)

section \<open>Properties of the language distribution\<close>

text \<open>C16 (spec section 8): at most five languages are emitted, and each percentage lies
  in [0, 100].\<close>

theorem top_languages_bounds:
  "length (get_top_languages repos) \<le> 5 \<and>
   (\<forall>st \<in> set (get_top_languages repos). 0 \<le> ls_percentage st \<and> ls_percentage st \<le> 100)"
proof -
  let ?c = "count_languages repos"
  have "0 \<le> py_round (lang_percentage (snd lb) (counter_total ?c)) 2
        \<and> py_round (lang_percentage (snd lb) (counter_total ?c)) 2 \<le> 100"
    if "lb \<in> set (most_common top_languages_n ?c)" for lb
  proof -
    have "lb \<in> set ?c" using that set_most_common by blast
    then have "snd lb \<le> counter_total ?c"
      using counter_total_member [of "fst lb" "snd lb"] by simp
    then have "0 \<le> lang_percentage (snd lb) (counter_total ?c)
        \<and> lang_percentage (snd lb) (counter_total ?c) \<le> 100"
      by (rule lang_percentage_bounds)
    then show ?thesis using py_round_le_int [of _ 100 2] py_round_nonneg by force
  qed
  then show ?thesis
    by (simp add: get_top_languages_def Let_def length_most_common top_languages_n_def)
qed

theorem top_languages_bounds_witness:
  "map ls_name (get_top_languages [blank_repo\<lparr>r_language := Some ''Python'', r_get_languages := Inr [(''Python'', 300), (''Shell'', 100)]\<rparr>,
       blank_repo\<lparr>r_language := Some ''Go'', r_get_languages := Inl Rate_Limited\<rparr>]) = [''Go'', ''Python'', ''Shell'']
   \<and> 0 \<le> ls_percentage (get_top_languages [blank_repo\<lparr>r_language := Some ''Python'', r_get_languages := Inr [(''Python'', 300), (''Shell'', 100)]\<rparr>,
       blank_repo\<lparr>r_language := Some ''Go'', r_get_languages := Inl Rate_Limited\<rparr>] ! 2) \<and> ls_percentage (get_top_languages [blank_repo\<lparr>r_language := Some ''Python'', r_get_languages := Inr [(''Python'', 300), (''Shell'', 100)]\<rparr>,
       blank_repo\<lparr>r_language := Some ''Go'', r_get_languages := Inl Rate_Limited\<rparr>] ! 2) \<le> 100"
proof -
  let ?R = "[blank_repo\<lparr>r_language := Some ''Python'', r_get_languages := Inr [(''Python'', 300), (''Shell'', 100)]\<rparr>,
       blank_repo\<lparr>r_language := Some ''Go'', r_get_languages := Inl Rate_Limited\<rparr>]"
  have n: "map ls_name (get_top_languages ?R) = [''Go'', ''Python'', ''Shell'']"
    by (simp add: names_top_languages language_eval)
  have "length (get_top_languages ?R) = 3" using arg_cong [OF n, of length] by simp
  then have "get_top_languages ?R ! 2 \<in> set (get_top_languages ?R)" by (intro nth_mem) simp
  with n top_languages_bounds [of ?R] show ?thesis by blast
qed

text \<open>C17: every emitted language carries exactly the bytes credited to it across all
  repositories (its breakdown bytes, or 1000 per repository whose breakdown request
  failed and whose primary language it is), from one shared counter.\<close>

theorem top_languages_bytes_credited:
  "\<forall>st \<in> set (get_top_languages repos). ls_bytes st = credited_bytes repos (ls_name st)"
  unfolding top_languages_entries
proof
  fix lb assume "lb \<in> set (most_common top_languages_n (count_languages repos))"
  then have "lb \<in> set (count_languages repos)" using set_most_common by blast
  then have "counter_get (count_languages repos) (fst lb) = snd lb"
    using map_of_member [OF distinct_count_languages, of "fst lb" "snd lb"] by simp
  then show "ls_bytes \<lparr>ls_name = fst lb, ls_bytes = snd lb,
      ls_percentage = py_round (lang_percentage (snd lb) (counter_total (count_languages repos))) 2\<rparr>
    = credited_bytes repos (ls_name \<lparr>ls_name = fst lb, ls_bytes = snd lb,
      ls_percentage = py_round (lang_percentage (snd lb) (counter_total (count_languages repos))) 2\<rparr>)"
    by (simp add: counter_get_count_languages)
qed

theorem top_languages_bytes_credited_witness:
  "map ls_name (get_top_languages [blank_repo\<lparr>r_language := Some ''Rust'', r_get_languages := Inr [(''Rust'', 50)]\<rparr>,
       blank_repo\<lparr>r_language := Some ''Rust'', r_get_languages := Inl Server_Error\<rparr>]) = [''Rust'']
   \<and> ls_bytes (get_top_languages [blank_repo\<lparr>r_language := Some ''Rust'', r_get_languages := Inr [(''Rust'', 50)]\<rparr>,
       blank_repo\<lparr>r_language := Some ''Rust'', r_get_languages := Inl Server_Error\<rparr>] ! 0) = credited_bytes [blank_repo\<lparr>r_language := Some ''Rust'', r_get_languages := Inr [(''Rust'', 50)]\<rparr>,
       blank_repo\<lparr>r_language := Some ''Rust'', r_get_languages := Inl Server_Error\<rparr>] ''Rust''"
proof -
  let ?R = "[blank_repo\<lparr>r_language := Some ''Rust'', r_get_languages := Inr [(''Rust'', 50)]\<rparr>,
       blank_repo\<lparr>r_language := Some ''Rust'', r_get_languages := Inl Server_Error\<rparr>]"
  have n: "map ls_name (get_top_languages ?R) = [''Rust'']"
    by (simp add: names_top_languages language_eval)
  have "length (get_top_languages ?R) = 1" using arg_cong [OF n, of length] by simp
  then have m: "get_top_languages ?R ! 0 \<in> set (get_top_languages ?R)" by (intro nth_mem) simp
  have "ls_name (get_top_languages ?R ! 0) = ''Rust''"
    using arg_cong [OF n, of "\<lambda>xs. xs ! 0"] \<open>length (get_top_languages ?R) = 1\<close> by simp
  with n m top_languages_bytes_credited [of ?R] show ?thesis by simp
qed

text \<open>C18: the emitted languages are the heaviest: a language of the counter that is not
  emitted has no more bytes than any emitted one.\<close>

theorem top_languages_dominate:
  "\<forall>st \<in> set (get_top_languages repos). \<forall>lb \<in> set (count_languages repos).
     fst lb \<notin> set (map ls_name (get_top_languages repos)) \<longrightarrow> snd lb \<le> ls_bytes st"
proof -
  let ?c = "count_languages repos"
  let ?t = "most_common top_languages_n ?c"
  have "snd lb \<le> snd x" if "x \<in> set ?t" "lb \<in> set ?c" "fst lb \<notin> fst ` set ?t" for x lb
  proof (rule most_common_dominates [OF that(1,2)])
    show "lb \<notin> set ?t" using that(3) by force
  qed
  then show ?thesis
    unfolding top_languages_entries by (simp add: names_top_languages)
qed

theorem top_languages_dominate_witness:
  "map ls_name (get_top_languages [blank_repo\<lparr>r_language := Some ''C'', r_get_languages := Inr
         [(''C'', 9), (''Go'', 8), (''Lua'', 7), (''Nim'', 6), (''Zig'', 5), (''Awk'', 4)]\<rparr>]) = [''C'', ''Go'', ''Lua'', ''Nim'', ''Zig'']
   \<and> 4 \<le> ls_bytes (hd (get_top_languages [blank_repo\<lparr>r_language := Some ''C'', r_get_languages := Inr
         [(''C'', 9), (''Go'', 8), (''Lua'', 7), (''Nim'', 6), (''Zig'', 5), (''Awk'', 4)]\<rparr>]))"
proof -
  let ?R = "[blank_repo\<lparr>r_language := Some ''C'', r_get_languages := Inr
         [(''C'', 9), (''Go'', 8), (''Lua'', 7), (''Nim'', 6), (''Zig'', 5), (''Awk'', 4)]\<rparr>]"
  have n: "map ls_name (get_top_languages ?R) = [''C'', ''Go'', ''Lua'', ''Nim'', ''Zig'']"
    by (simp add: names_top_languages language_eval)
  have c: "(''Awk'', 4) \<in> set (count_languages ?R)"
    by (simp add: language_eval)
  have "get_top_languages ?R \<noteq> []" using n by auto
  then have h: "hd (get_top_languages ?R) \<in> set (get_top_languages ?R)" by (rule hd_in_set)
  have a: "''Awk'' \<notin> set (map ls_name (get_top_languages ?R))" using n by simp
  have "\<forall>lb \<in> set (count_languages ?R). fst lb \<notin> set (map ls_name (get_top_languages ?R))
          \<longrightarrow> snd lb \<le> ls_bytes (hd (get_top_languages ?R))"
    using top_languages_dominate [of ?R] h by blast
  with c a n show ?thesis by fastforce
qed

text \<open>C19: a failing language-breakdown request credits exactly 1000 bytes to that
  repository's primary language and nothing else, whatever the other repositories
  contribute.\<close>

theorem language_fallback_credit:
  assumes "r_language r = Some l" "l \<noteq> []"
  shows "credited_bytes (xs @ r\<lparr>r_get_languages := Inl e\<rparr> # ys) l' =
           credited_bytes (xs @ ys) l' + (if l' = l then 1000 else 0)"
  using assms by (simp add: credited_bytes_def language_credits_def fallback_bytes_def)

theorem language_fallback_credit_witness:
  "credited_bytes ([] @ blank_repo\<lparr>r_language := Some ''Go'', r_get_languages := Inl Rate_Limited\<rparr>
      # [blank_repo\<lparr>r_language := Some ''Go'', r_get_languages := Inr [(''Go'', 7)]\<rparr>]) ''Go'' = 1007"
proof -
  have "credited_bytes ([] @ (blank_repo\<lparr>r_language := Some ''Go''\<rparr>)\<lparr>r_get_languages := Inl Rate_Limited\<rparr>
      # [blank_repo\<lparr>r_language := Some ''Go'', r_get_languages := Inr [(''Go'', 7)]\<rparr>]) ''Go'' =
      credited_bytes ([] @ [blank_repo\<lparr>r_language := Some ''Go'', r_get_languages := Inr [(''Go'', 7)]\<rparr>]) ''Go''
      + (if ''Go'' = ''Go'' then 1000 else 0)"
    by (rule language_fallback_credit) simp_all
  then show ?thesis by (simp add: credited_bytes_def language_eval)
qed

end
