(* ===== verification/TopRepos.thy ===== *)
theory TopRepos
  imports GitHubSource
begin

text \<open>
  The repository ranker (\<open>_get_top_repositories\<close>, github_analyzer.py 149-172): the
  repositories sorted by star count with \<open>reverse=True\<close> (a stable sort, ties in fetch
  order), the first five, each projected into a summary dictionary.  The projection
  calls \<open>repo.get_topics()\<close> outside any \<open>try\<close> (\<open>hasattr\<close> is always true for a
  PyGithub repository), so a failing topics request ends the loop with that error; the
  model returns it as \<open>Inl\<close>.  The results: the summaries are the five best-starred
  repositories in descending order, ties keep fetch order, the selection is the
  stable sort of the specification, and the ranker fails exactly when a selected
  repository's topics request fails, with the first such error.
\<close>

record repo_summary =
  rs_name :: string
  rs_full_name :: string
  rs_description :: string
  rs_url :: string
  rs_homepage :: string
  rs_language :: string
  rs_stars :: nat
  rs_forks :: nat
  rs_watchers :: nat
  rs_open_issues :: nat
  rs_created_at :: string
  rs_updated_at :: string
  rs_topics :: "string list"

definition top_repos_n :: nat where
  "top_repos_n = 5"

text \<open>\<open>d.isoformat() if d else ""\<close>.\<close>

definition iso_or_empty :: "py_datetime option \<Rightarrow> string" where
  "iso_or_empty d = (case d of None \<Rightarrow> [] | Some x \<Rightarrow> dt_isoformat x)"

definition repo_summary_of :: "gh_repo \<Rightarrow> string list \<Rightarrow> repo_summary" where
  "repo_summary_of r topics =
     \<lparr>rs_name = r_name r, rs_full_name = r_full_name r,
      rs_description = str_or (r_description r) [], rs_url = r_html_url r,
      rs_homepage = str_or (r_homepage r) [], rs_language = str_or (r_language r) ''Unknown'',
      rs_stars = r_stargazers_count r, rs_forks = r_forks_count r,
      rs_watchers = r_watchers_count r, rs_open_issues = r_open_issues_count r,
      rs_created_at = iso_or_empty (r_created_at r), rs_updated_at = iso_or_empty (r_updated_at r),
      rs_topics = topics\<rparr>"

text \<open>The loop \<open>for repo in sorted_repos: top_repos.append({...})\<close>; the first failing
  \<open>get_topics()\<close> raises out of it.\<close>

fun summarize_repos :: "gh_repo list \<Rightarrow> repo_summary list fetch" where
  "summarize_repos [] = Inr []"
| "summarize_repos (r # rs) =
     (case r_get_topics r of
        Inl e \<Rightarrow> Inl e
      | Inr ts \<Rightarrow> (case summarize_repos rs of
                    Inl e \<Rightarrow> Inl e
                  | Inr out \<Rightarrow> Inr (repo_summary_of r ts # out)))"

definition get_top_repositories :: "gh_repo list \<Rightarrow> repo_summary list fetch" where
  "get_top_repositories repos = summarize_repos (top_by r_stargazers_count top_repos_n repos)"

section \<open>The projection loop\<close>

lemma summarize_repos_ok:
  "\<forall>r \<in> set rs. \<not> isl (r_get_topics r) \<Longrightarrow>
   summarize_repos rs = Inr (map (\<lambda>r. repo_summary_of r (projr (r_get_topics r))) rs)"
  by (induction rs) (auto split: sum.splits)

lemma summarize_repos_Inr_topics:
  "summarize_repos rs = Inr out \<Longrightarrow> \<forall>r \<in> set rs. \<not> isl (r_get_topics r)"
  by (induction rs arbitrary: out) (auto split: sum.splits)

lemma summarize_repos_Inr:
  "summarize_repos rs = Inr out \<longleftrightarrow>
     (\<forall>r \<in> set rs. \<not> isl (r_get_topics r)) \<and>
     out = map (\<lambda>r. repo_summary_of r (projr (r_get_topics r))) rs"
  using summarize_repos_ok [of rs] summarize_repos_Inr_topics [of rs out] by auto

lemma summarize_repos_Inl:
  "summarize_repos rs = Inl e \<longleftrightarrow>
     (\<exists>xs r ys. rs = xs @ r # ys \<and> (\<forall>x \<in> set xs. \<not> isl (r_get_topics x)) \<and>
                r_get_topics r = Inl e)"
proof (induction rs)
  case Nil
  then show ?case by simp
next
  case (Cons r rs)
  show ?case
  proof (cases "r_get_topics r")
    case (Inl e')
    have "(\<exists>xs r' ys. r # rs = xs @ r' # ys \<and> (\<forall>x \<in> set xs. \<not> isl (r_get_topics x)) \<and>
             r_get_topics r' = Inl e) \<longleftrightarrow> e' = e"
    proof
      assume "\<exists>xs r' ys. r # rs = xs @ r' # ys \<and> (\<forall>x \<in> set xs. \<not> isl (r_get_topics x)) \<and>
                r_get_topics r' = Inl e"
      then obtain xs r' ys where h: "r # rs = xs @ r' # ys"
          "\<forall>x \<in> set xs. \<not> isl (r_get_topics x)" "r_get_topics r' = Inl e"
        by blast
      then have "xs = []" using Inl by (cases xs) auto
      with h Inl show "e' = e" by simp
    next
      assume "e' = e"
      then show "\<exists>xs r' ys. r # rs = xs @ r' # ys \<and> (\<forall>x \<in> set xs. \<not> isl (r_get_topics x)) \<and>
                  r_get_topics r' = Inl e"
        using Inl by (intro exI [of _ "[]"] exI [of _ r] exI [of _ rs]) simp
    qed
    then show ?thesis using Inl by simp
  next
    case (Inr ts)
    have "summarize_repos (r # rs) = Inl e \<longleftrightarrow> summarize_repos rs = Inl e"
      using Inr by (simp split: sum.splits)
    moreover have
      "(\<exists>xs r' ys. r # rs = xs @ r' # ys \<and> (\<forall>x \<in> set xs. \<not> isl (r_get_topics x)) \<and>
          r_get_topics r' = Inl e) \<longleftrightarrow>
       (\<exists>xs r' ys. rs = xs @ r' # ys \<and> (\<forall>x \<in> set xs. \<not> isl (r_get_topics x)) \<and>
          r_get_topics r' = Inl e)"
    proof
      assume "\<exists>xs r' ys. r # rs = xs @ r' # ys \<and> (\<forall>x \<in> set xs. \<not> isl (r_get_topics x)) \<and>
                r_get_topics r' = Inl e"
      then obtain xs r' ys where h: "r # rs = xs @ r' # ys"
          "\<forall>x \<in> set xs. \<not> isl (r_get_topics x)" "r_get_topics r' = Inl e"
        by blast
      then obtain xs' where "xs = r # xs'" using Inr by (cases xs) auto
      with h show "\<exists>xs r' ys. rs = xs @ r' # ys \<and> (\<forall>x \<in> set xs. \<not> isl (r_get_topics x)) \<and>
                   r_get_topics r' = Inl e"
        by auto
    next
      assume "\<exists>xs r' ys. rs = xs @ r' # ys \<and> (\<forall>x \<in> set xs. \<not> isl (r_get_topics x)) \<and>
                r_get_topics r' = Inl e"
      then obtain xs r' ys where h: "rs = xs @ r' # ys"
          "\<forall>x \<in> set xs. \<not> isl (r_get_topics x)" "r_get_topics r' = Inl e"
        by blast
      then show "\<exists>xs r' ys. r # rs = xs @ r' # ys \<and> (\<forall>x \<in> set xs. \<not> isl (r_get_topics x)) \<and>
                   r_get_topics r' = Inl e"
        using Inr by (intro exI [of _ "r # xs"] exI [of _ r'] exI [of _ ys]) simp
    qed
    ultimately show ?thesis using Cons.IH by simp
  qed
qed

lemma summarize_repos_stars:
  "summarize_repos rs = Inr out \<Longrightarrow> map rs_stars out = map r_stargazers_count rs"
  and summarize_repos_names:
  "summarize_repos rs = Inr out \<Longrightarrow> map rs_name out = map r_name rs"
  by (auto simp: summarize_repos_Inr repo_summary_of_def)

lemma top_repositories_Inr:
  "get_top_repositories repos = Inr out \<Longrightarrow>
   out = map (\<lambda>r. repo_summary_of r (projr (r_get_topics r))) (top_by r_stargazers_count top_repos_n repos)"
  by (simp add: get_top_repositories_def summarize_repos_Inr)

section \<open>Properties of the ranker\<close>

text \<open>C20 (spec 4.3): when the ranker succeeds it emits min(5, number of repositories)
  summaries, in descending order of stars, and every repository left out has no more
  stars than any emitted one.\<close>

theorem top_repositories_ranked:
  assumes "get_top_repositories repos = Inr out"
  shows "length out = min 5 (length repos) \<and>
         sorted_wrt (\<lambda>a b. rs_stars b \<le> rs_stars a) out \<and>
         (\<forall>r \<in># mset repos - mset (top_by r_stargazers_count top_repos_n repos).
            \<forall>s \<in> set out. r_stargazers_count r \<le> rs_stars s)"
proof -
  let ?t = "top_by r_stargazers_count top_repos_n repos"
  have s: "summarize_repos ?t = Inr out" using assms by (simp add: get_top_repositories_def)
  have st: "map rs_stars out = map r_stargazers_count ?t" by (rule summarize_repos_stars [OF s])
  have "length out = length ?t" using arg_cong [OF st, of length] by simp
  then have l: "length out = min 5 (length repos)" by (simp add: length_top_by top_repos_n_def)
  have "sorted_wrt (\<lambda>a b. b \<le> a) (map r_stargazers_count ?t)"
    using top_by_sorted [of r_stargazers_count top_repos_n repos] by (simp add: sorted_wrt_map)
  then have "sorted_wrt (\<lambda>a b. b \<le> a) (map rs_stars out)" by (simp only: st)
  then have so: "sorted_wrt (\<lambda>a b. rs_stars b \<le> rs_stars a) out" by (simp add: sorted_wrt_map)
  have "r_stargazers_count r \<le> rs_stars s"
    if r: "r \<in># mset repos - mset ?t" and "s \<in> set out" for r s
  proof -
    have "rs_stars s \<in> set (map r_stargazers_count ?t)"
      using \<open>s \<in> set out\<close> st by (metis image_eqI list.set_map)
    then obtain x where "x \<in> set ?t" "rs_stars s = r_stargazers_count x" by auto
    with top_by_dominates [OF _ r] show ?thesis by simp
  qed
  with l so show ?thesis by blast
qed

theorem top_repositories_ranked_witness:
  "\<exists>out. get_top_repositories
     [blank_repo\<lparr>r_name := ''a'', r_stargazers_count := 3\<rparr>, blank_repo\<lparr>r_name := ''b'', r_stargazers_count := 9\<rparr>,
      blank_repo\<lparr>r_name := ''c'', r_stargazers_count := 1\<rparr>, blank_repo\<lparr>r_name := ''d'', r_stargazers_count := 7\<rparr>,
      blank_repo\<lparr>r_name := ''e'', r_stargazers_count := 7\<rparr>, blank_repo\<lparr>r_name := ''f'', r_stargazers_count := 5\<rparr>] = Inr out
     \<and> map rs_name out = [''b'', ''d'', ''e'', ''f'', ''a'']
     \<and> length out = 5 \<and> sorted_wrt (\<lambda>a b. rs_stars b \<le> rs_stars a) out"
proof -
  let ?R = "[blank_repo\<lparr>r_name := ''a'', r_stargazers_count := 3\<rparr>, blank_repo\<lparr>r_name := ''b'', r_stargazers_count := 9\<rparr>,
      blank_repo\<lparr>r_name := ''c'', r_stargazers_count := 1\<rparr>, blank_repo\<lparr>r_name := ''d'', r_stargazers_count := 7\<rparr>,
      blank_repo\<lparr>r_name := ''e'', r_stargazers_count := 7\<rparr>, blank_repo\<lparr>r_name := ''f'', r_stargazers_count := 5\<rparr>]"
  have i: "\<not> isl (get_top_repositories ?R)"
    by (simp add: get_top_repositories_def top_by_def py_sorted_desc_def top_repos_n_def blank_repo_def)
  then have e: "get_top_repositories ?R = Inr (projr (get_top_repositories ?R))"
    by (cases "get_top_repositories ?R") simp_all
  have n: "map rs_name (projr (get_top_repositories ?R)) = [''b'', ''d'', ''e'', ''f'', ''a'']"
    by (simp add: get_top_repositories_def top_by_def py_sorted_desc_def top_repos_n_def
                  blank_repo_def repo_summary_of_def)
  from e n top_repositories_ranked [OF e] show ?thesis by auto
qed

text \<open>C21 (spec 3, RepositorySummary): ties are broken by fetch order: the emitted
  repositories with a given star count are the first ones in fetch order with that
  count, in fetch order.\<close>

theorem top_repositories_tie_order:
  assumes "get_top_repositories repos = Inr out"
  shows "map rs_name (filter (\<lambda>s. rs_stars s = k) out) =
         take (length (filter (\<lambda>s. rs_stars s = k) out))
              (map r_name (filter (\<lambda>r. r_stargazers_count r = k) repos))"
proof -
  let ?t = "top_by r_stargazers_count top_repos_n repos"
  let ?p = "\<lambda>r. repo_summary_of r (projr (r_get_topics r))"
  have o: "out = map ?p ?t" by (rule top_repositories_Inr [OF assms])
  have f: "filter (\<lambda>s. rs_stars s = k) out = map ?p (filter (\<lambda>r. r_stargazers_count r = k) ?t)"
    by (simp add: o filter_map comp_def repo_summary_of_def)
  have n: "map rs_name (map ?p (filter (\<lambda>r. r_stargazers_count r = k) ?t)) =
            map r_name (filter (\<lambda>r. r_stargazers_count r = k) ?t)"
    by (simp add: repo_summary_of_def)
  have "map r_name (filter (\<lambda>r. r_stargazers_count r = k) ?t) =
        take (length (filter (\<lambda>r. r_stargazers_count r = k) ?t))
             (map r_name (filter (\<lambda>r. r_stargazers_count r = k) repos))"
    by (subst top_by_stable) (simp add: take_map)
  with n show ?thesis unfolding f by simp
qed

theorem top_repositories_tie_order_witness:
  "map rs_name (filter (\<lambda>s. rs_stars s = 7) (projr (get_top_repositories
     [blank_repo\<lparr>r_name := ''p'', r_stargazers_count := 7\<rparr>, blank_repo\<lparr>r_name := ''q'', r_stargazers_count := 8\<rparr>,
      blank_repo\<lparr>r_name := ''r'', r_stargazers_count := 7\<rparr>]))) = [''p'', ''r'']"
proof -
  let ?R = "[blank_repo\<lparr>r_name := ''p'', r_stargazers_count := 7\<rparr>, blank_repo\<lparr>r_name := ''q'', r_stargazers_count := 8\<rparr>,
      blank_repo\<lparr>r_name := ''r'', r_stargazers_count := 7\<rparr>]"
  have i: "\<not> isl (get_top_repositories ?R)"
    by (simp add: get_top_repositories_def top_by_def py_sorted_desc_def top_repos_n_def blank_repo_def)
  then have e: "get_top_repositories ?R = Inr (projr (get_top_repositories ?R))"
    by (cases "get_top_repositories ?R") simp_all
  have "length (filter (\<lambda>s. rs_stars s = 7) (projr (get_top_repositories ?R))) = 2"
    by (simp add: get_top_repositories_def top_by_def py_sorted_desc_def top_repos_n_def
                  blank_repo_def repo_summary_of_def)
  with top_repositories_tie_order [OF e, of 7] show ?thesis by (simp add: blank_repo_def)
qed

text \<open>C22 (spec 5 and 7): the ranker fails exactly when the topics request of one of
  the five selected repositories fails, and then with the error of the first such
  repository in ranked order; a failing topics request of a repository outside the
  top five is never issued and has no effect.  The specification asks that every
  per-repository request degrade to a default instead.\<close>

theorem top_repositories_topics_error:
  "get_top_repositories repos = Inl e \<longleftrightarrow>
   (\<exists>xs r ys. top_by r_stargazers_count top_repos_n repos = xs @ r # ys \<and>
              (\<forall>x \<in> set xs. \<not> isl (r_get_topics x)) \<and> r_get_topics r = Inl e)"
  by (simp add: get_top_repositories_def summarize_repos_Inl)

theorem top_repositories_topics_error_witness:
  "get_top_repositories
     [blank_repo\<lparr>r_name := ''x'', r_stargazers_count := 2, r_get_topics := Inl Server_Error\<rparr>,
      blank_repo\<lparr>r_name := ''y'', r_stargazers_count := 4, r_get_topics := Inl Rate_Limited\<rparr>] = Inl Rate_Limited"
proof -
  let ?R = "[blank_repo\<lparr>r_name := ''x'', r_stargazers_count := 2, r_get_topics := Inl Server_Error\<rparr>,
      blank_repo\<lparr>r_name := ''y'', r_stargazers_count := 4, r_get_topics := Inl Rate_Limited\<rparr>]"
  have "top_by r_stargazers_count top_repos_n ?R =
        [] @ blank_repo\<lparr>r_name := ''y'', r_stargazers_count := 4, r_get_topics := Inl Rate_Limited\<rparr>
        # [blank_repo\<lparr>r_name := ''x'', r_stargazers_count := 2, r_get_topics := Inl Server_Error\<rparr>]"
    by (simp add: top_by_def py_sorted_desc_def top_repos_n_def blank_repo_def)
  then have "\<exists>xs r ys. top_by r_stargazers_count top_repos_n ?R = xs @ r # ys \<and>
              (\<forall>x \<in> set xs. \<not> isl (r_get_topics x)) \<and> r_get_topics r = Inl Rate_Limited"
    by (intro exI [of _ "[]"]) auto
  then show ?thesis
    using top_repositories_topics_error [of ?R Rate_Limited] by blast
qed

text \<open>Spec 4.3: the selection \<open>sorted(repos, key=stars, reverse=True)[:5]\<close>,
  which CPython computes by reversing, sorting stably and reversing again, is the first
  five of the stable ascending sort on the negated star count, the stable descending
  sort the specification describes.\<close>

theorem top_repositories_stable_sort:
  "top_by r_stargazers_count top_repos_n repos =
   take 5 (sort_key (\<lambda>r. - int (r_stargazers_count r)) repos)"
  by (simp add: top_by_def top_repos_n_def py_sorted_desc_nat)

end
