(* ===== verification/Timeline.thy ===== *)
theory Timeline
  imports GitHubSource "HOL-Library.AList"
begin

text \<open>
  The star timeline synthesizer (\<open>_get_star_timeline\<close>, github_analyzer.py 194-232).
  The repositories with a creation date and a positive star count become items
  (date, stars), sorted stably by date; a walk over them keeps the running total and
  stores it under the item's month key in the dictionary \<open>month_stars\<close> (here an
  association list updated with \<open>AList.update\<close>); the keys are sorted as strings and
  the last twelve are emitted with their stored totals.

  The central lemma is an invariant of the walk: after a prefix of the date-sorted
  items, the dictionary maps exactly the month keys seen so far, each to the total
  stars of the items of that month or earlier.  It gives the entry values in closed
  form, from which the monotonicity of the series, the value of the last entry and
  the read-back of the month keys follow.
\<close>

record timeline_entry =
  te_month :: string
  te_stars :: nat

definition timeline_months :: nat where
  "timeline_months = 12"

text \<open>\<open>if repo.created_at and repo.stargazers_count > 0: repo_data.append(...)\<close>\<close>

definition repo_star_item :: "gh_repo \<Rightarrow> (py_datetime \<times> nat) list" where
  "repo_star_item r =
     (case r_created_at r of
        None \<Rightarrow> []
      | Some d \<Rightarrow> if 0 < r_stargazers_count r then [(d, r_stargazers_count r)] else [])"

definition star_items :: "gh_repo list \<Rightarrow> (py_datetime \<times> nat) list" where
  "star_items repos = concat (map repo_star_item repos)"

text \<open>\<open>for item in repo_data: cumulative += stars; month_stars[key] = cumulative\<close>\<close>

fun month_walk :: "(py_datetime \<times> nat) list \<Rightarrow> nat \<Rightarrow> (string \<times> nat) list \<Rightarrow> (string \<times> nat) list" where
  "month_walk [] cum ms = ms"
| "month_walk ((d, s) # xs) cum ms = month_walk xs (cum + s) (AList.update (month_key d) (cum + s) ms)"

definition get_star_timeline :: "gh_repo list \<Rightarrow> timeline_entry list" where
  "get_star_timeline repos =
     (let items = star_items repos
      in if items = [] then []
         else
           let ms = month_walk (sort_key (\<lambda>x. dt_key (fst x)) items) 0 [];
               months = sort (map fst ms);
               recent = (if timeline_months < length months
                         then drop (length months - timeline_months) months else months)
           in map (\<lambda>k. \<lparr>te_month = k, te_stars = the (map_of ms k)\<rparr>) recent)"

text \<open>The closed form of an entry: the stars of the items of that month or earlier.\<close>

definition stars_upto :: "(py_datetime \<times> nat) list \<Rightarrow> string \<Rightarrow> nat" where
  "stars_upto xs k = sum_list (map snd (filter (\<lambda>x. month_key (fst x) \<le> k) xs))"

definition dates_valid :: "gh_repo list \<Rightarrow> bool" where
  "dates_valid repos \<longleftrightarrow> (\<forall>r \<in> set repos. case r_created_at r of None \<Rightarrow> True | Some d \<Rightarrow> dt_valid d)"

section \<open>The month walk\<close>

lemma stars_upto_snoc:
  "stars_upto (ps @ [(d, s)]) k = stars_upto ps k + (if month_key d \<le> k then s else 0)"
  by (simp add: stars_upto_def)

lemma stars_upto_all:
  "\<forall>x \<in> set ps. month_key (fst x) \<le> k \<Longrightarrow> stars_upto ps k = sum_list (map snd ps)"
  by (simp add: stars_upto_def)

lemma map_of_month_walk:
  assumes "sorted (map (\<lambda>x. month_key (fst x)) (ps @ xs))"
    and "\<And>k. map_of ms k = (if k \<in> set (map (\<lambda>x. month_key (fst x)) ps) then Some (stars_upto ps k) else None)"
    and "cum = sum_list (map snd ps)"
  shows "map_of (month_walk xs cum ms) k =
         (if k \<in> set (map (\<lambda>x. month_key (fst x)) (ps @ xs)) then Some (stars_upto (ps @ xs) k) else None)"
  using assms
proof (induction xs arbitrary: ps cum ms)
  case Nil
  then show ?case by simp
next
  case (Cons x xs)
  obtain d s where x: "x = (d, s)" by (cases x)
  let ?ms' = "AList.update (month_key d) (cum + s) ms"
  have le: "month_key (fst p) \<le> month_key d" if "p \<in> set ps" for p
    using Cons.prems(1) that x by (auto simp: sorted_append)
  have "map_of ?ms' k =
        (if k \<in> set (map (\<lambda>x. month_key (fst x)) (ps @ [x])) then Some (stars_upto (ps @ [x]) k) else None)"
    for k
  proof (cases "k = month_key d")
    case True
    then have "stars_upto (ps @ [x]) k = cum + s"
      using le Cons.prems(3) x by (simp add: stars_upto_snoc stars_upto_all)
    then show ?thesis using True x by (simp add: update_conv')
  next
    case False
    have "month_key d \<le> k \<Longrightarrow> k \<notin> set (map (\<lambda>x. month_key (fst x)) ps)"
      using le False by (auto dest: antisym)
    then show ?thesis
      using False x Cons.prems(2) [of k] by (auto simp: update_conv' stars_upto_snoc)
  qed
  moreover have "cum + s = sum_list (map snd (ps @ [x]))" using Cons.prems(3) x by simp
  moreover have "sorted (map (\<lambda>x. month_key (fst x)) ((ps @ [x]) @ xs))" using Cons.prems(1) by simp
  ultimately have "map_of (month_walk xs (cum + s) ?ms') k =
      (if k \<in> set (map (\<lambda>x. month_key (fst x)) ((ps @ [x]) @ xs))
       then Some (stars_upto ((ps @ [x]) @ xs) k) else None)"
    by (intro Cons.IH) blast+
  then show ?case using x by simp
qed

lemma keys_month_walk:
  "set (map fst (month_walk xs cum ms)) = set (map fst ms) \<union> set (map (\<lambda>x. month_key (fst x)) xs)"
  by (induction xs cum ms rule: month_walk.induct) (auto simp: dom_update)

lemma distinct_month_walk:
  "distinct (map fst ms) \<Longrightarrow> distinct (map fst (month_walk xs cum ms))"
  by (induction xs cum ms rule: month_walk.induct) (simp_all add: distinct_update)

section \<open>The timeline in closed form\<close>

lemma star_items_valid:
  "dates_valid repos \<Longrightarrow> x \<in> set (star_items repos) \<Longrightarrow> dt_valid (fst x)"
  by (auto simp: dates_valid_def star_items_def repo_star_item_def split: option.splits if_splits)

lemma sorted_items_months:
  assumes "dates_valid repos"
  shows "sorted (map (\<lambda>x. month_key (fst x)) (sort_key (\<lambda>x. dt_key (fst x)) (star_items repos)))"
proof -
  let ?s = "sort_key (\<lambda>x. dt_key (fst x)) (star_items repos)"
  have "sorted_wrt (\<lambda>a b. dt_key (fst a) \<le> dt_key (fst b)) ?s"
    using sorted_sort_key [of "\<lambda>x. dt_key (fst x)" "star_items repos"] by (simp add: sorted_wrt_map)
  then have "sorted_wrt (\<lambda>a b. month_key (fst a) \<le> month_key (fst b)) ?s"
    by (rule sorted_wrt_mono_rel [rotated])
       (auto intro: month_key_mono star_items_valid [OF assms])
  then show ?thesis by (simp add: sorted_wrt_map)
qed

lemma stars_upto_perm: "mset xs = mset ys \<Longrightarrow> stars_upto xs k = stars_upto ys k"
  by (simp add: stars_upto_def flip: sum_mset_sum_list)

lemma map_of_timeline_walk:
  assumes "dates_valid repos"
  shows "map_of (month_walk (sort_key (\<lambda>x. dt_key (fst x)) (star_items repos)) 0 []) k =
         (if k \<in> set (map (\<lambda>x. month_key (fst x)) (star_items repos))
          then Some (stars_upto (star_items repos) k) else None)"
proof -
  let ?S = "sort_key (\<lambda>x. dt_key (fst x)) (star_items repos)"
  have "sorted (map (\<lambda>x. month_key (fst x)) ([] @ ?S))"
    using sorted_items_months [OF assms] by simp
  then have "map_of (month_walk ?S 0 []) k =
      (if k \<in> set (map (\<lambda>x. month_key (fst x)) ([] @ ?S)) then Some (stars_upto ([] @ ?S) k) else None)"
    by (rule map_of_month_walk) simp_all
  moreover have "stars_upto ?S k = stars_upto (star_items repos) k"
    by (rule stars_upto_perm) simp
  ultimately show ?thesis by simp
qed

lemma timeline_months_sorted:
  "sort (map fst (month_walk (sort_key (\<lambda>x. dt_key (fst x)) (star_items repos)) 0 [])) =
   sort (remdups (map (\<lambda>x. month_key (fst x)) (star_items repos)))"
proof -
  let ?ms = "month_walk (sort_key (\<lambda>x. dt_key (fst x)) (star_items repos)) 0 []"
  have "distinct (map fst ?ms)" by (rule distinct_month_walk) simp
  moreover have "set (map fst ?ms) = set (remdups (map (\<lambda>x. month_key (fst x)) (star_items repos)))"
    using keys_month_walk [of "sort_key (\<lambda>x. dt_key (fst x)) (star_items repos)" 0 "[]"] by simp
  ultimately have "mset (map fst ?ms) = mset (remdups (map (\<lambda>x. month_key (fst x)) (star_items repos)))"
    by (metis distinct_remdups set_eq_iff_mset_eq_distinct)
  then show ?thesis by (intro properties_for_sort) simp_all
qed

lemma get_star_timeline_closed:
  assumes "dates_valid repos"
  shows "get_star_timeline repos =
    (let months = sort (remdups (map (\<lambda>x. month_key (fst x)) (star_items repos)))
     in map (\<lambda>k. \<lparr>te_month = k, te_stars = stars_upto (star_items repos) k\<rparr>)
            (drop (length months - timeline_months) months))"
proof (cases "star_items repos = []")
  case True
  then show ?thesis by (simp add: get_star_timeline_def)
next
  case False
  let ?M = "sort (remdups (map (\<lambda>x. month_key (fst x)) (star_items repos)))"
  let ?ms = "month_walk (sort_key (\<lambda>x. dt_key (fst x)) (star_items repos)) 0 []"
  let ?n = "length ?M - timeline_months"
  have eq: "the (map_of ?ms k) = stars_upto (star_items repos) k" if "k \<in> set ?M" for k
    using that map_of_timeline_walk [OF assms, of k] by simp
  have d: "(if timeline_months < length ?M then drop ?n ?M else ?M) = drop ?n ?M" by simp
  have "map (\<lambda>k. \<lparr>te_month = k, te_stars = the (map_of ?ms k)\<rparr>) (drop ?n ?M) =
        map (\<lambda>k. \<lparr>te_month = k, te_stars = stars_upto (star_items repos) k\<rparr>) (drop ?n ?M)"
    by (rule map_cong [OF refl]) (simp add: eq [OF in_set_dropD])
  then show ?thesis
    using False unfolding get_star_timeline_def Let_def timeline_months_sorted d by simp
qed

lemma stars_upto_mono: "k \<le> k' \<Longrightarrow> stars_upto xs k \<le> stars_upto xs k'"
  unfolding stars_upto_def by (induction xs) auto

lemma stars_upto_repos:
  "stars_upto (star_items repos) k =
   sum_list (map r_stargazers_count
     (filter (\<lambda>r. case r_created_at r of None \<Rightarrow> False | Some d \<Rightarrow> month_key d \<le> k) repos))"
  by (induction repos)
     (auto simp: stars_upto_def star_items_def repo_star_item_def split: option.splits)

lemma sum_star_items:
  "sum_list (map snd (star_items repos)) =
   sum_list (map r_stargazers_count (filter (\<lambda>r. r_created_at r \<noteq> None) repos))"
  by (induction repos) (auto simp: star_items_def repo_star_item_def split: option.splits)

lemma timeline_months_shape:
  assumes "dates_valid repos"
  shows "map te_month (get_star_timeline repos) =
         drop (length (remdups (map (\<lambda>x. month_key (fst x)) (star_items repos))) - timeline_months)
              (sort (remdups (map (\<lambda>x. month_key (fst x)) (star_items repos))))"
    and "map te_stars (get_star_timeline repos) =
         map (stars_upto (star_items repos))
           (drop (length (remdups (map (\<lambda>x. month_key (fst x)) (star_items repos))) - timeline_months)
                 (sort (remdups (map (\<lambda>x. month_key (fst x)) (star_items repos)))))"
  by (simp_all add: get_star_timeline_closed [OF assms] Let_def comp_def)

lemma star_items_source:
  "x \<in> set (star_items repos) \<Longrightarrow>
   \<exists>r \<in> set repos. r_created_at r = Some (fst x) \<and> 0 < r_stargazers_count r"
  by (induction repos) (auto simp: star_items_def repo_star_item_def split: option.splits if_splits)

lemma star_items_pos: "x \<in> set (star_items repos) \<Longrightarrow> 0 < snd x"
  by (induction repos) (auto simp: star_items_def repo_star_item_def split: option.splits if_splits)

lemma sorted_le_last: "sorted xs \<Longrightarrow> x \<in> set xs \<Longrightarrow> x \<le> last xs"
  by (induction xs) (auto simp: last_in_set)

lemma star_items_Nil_iff:
  "star_items repos = [] \<longleftrightarrow>
   sum_list (map r_stargazers_count (filter (\<lambda>r. r_created_at r \<noteq> None) repos)) = 0"
proof -
  have "star_items repos = [] \<longleftrightarrow> sum_list (map snd (star_items repos)) = 0"
    using star_items_pos [of _ repos] by (cases "star_items repos") fastforce+
  then show ?thesis by (simp add: sum_star_items)
qed

lemma get_star_timeline_Nil_iff:
  assumes "dates_valid repos"
  shows "get_star_timeline repos = [] \<longleftrightarrow> star_items repos = []"
proof -
  have "n \<le> n - 12 \<longleftrightarrow> n = 0" for n :: nat by arith
  then show ?thesis by (simp add: get_star_timeline_closed [OF assms] Let_def timeline_months_def)
qed

lemma timeline_example_eval:
  "dates_valid [blank_repo\<lparr>r_stargazers_count := 5, r_created_at := Some (ymd 2024 3 10)\<rparr>,
       blank_repo\<lparr>r_stargazers_count := 3, r_created_at := Some (ymd 2024 2 5)\<rparr>] \<and>
   get_star_timeline [blank_repo\<lparr>r_stargazers_count := 5, r_created_at := Some (ymd 2024 3 10)\<rparr>,
       blank_repo\<lparr>r_stargazers_count := 3, r_created_at := Some (ymd 2024 2 5)\<rparr>] = [\<lparr>te_month = ''2024-02'', te_stars = 3\<rparr>, \<lparr>te_month = ''2024-03'', te_stars = 8\<rparr>]"
proof -
  have v: "dates_valid [blank_repo\<lparr>r_stargazers_count := 5, r_created_at := Some (ymd 2024 3 10)\<rparr>,
       blank_repo\<lparr>r_stargazers_count := 3, r_created_at := Some (ymd 2024 2 5)\<rparr>]"
    by (simp add: dates_valid_def dt_valid_def ymd_def days_in_month_def is_leap_def blank_repo_def)
  have k: "map (\<lambda>x. month_key (fst x)) (star_items [blank_repo\<lparr>r_stargazers_count := 5, r_created_at := Some (ymd 2024 3 10)\<rparr>,
       blank_repo\<lparr>r_stargazers_count := 3, r_created_at := Some (ymd 2024 2 5)\<rparr>]) = [''2024-03'', ''2024-02'']"
    by (simp add: star_items_def repo_star_item_def blank_repo_def month_key_def ymd_def
                  dec_digits_numeral digit_char_simps)
  have d: "drop (length (sort (remdups [''2024-03'', ''2024-02''])) - timeline_months)
                (sort (remdups [''2024-03'', ''2024-02''])) = [''2024-02'', ''2024-03'']"
    by (simp add: less_char_def timeline_months_def)
  have u: "stars_upto (star_items [blank_repo\<lparr>r_stargazers_count := 5, r_created_at := Some (ymd 2024 3 10)\<rparr>,
       blank_repo\<lparr>r_stargazers_count := 3, r_created_at := Some (ymd 2024 2 5)\<rparr>]) ''2024-02'' = 3" "stars_upto (star_items [blank_repo\<lparr>r_stargazers_count := 5, r_created_at := Some (ymd 2024 3 10)\<rparr>,
       blank_repo\<lparr>r_stargazers_count := 3, r_created_at := Some (ymd 2024 2 5)\<rparr>]) ''2024-03'' = 8"
    by (simp_all add: stars_upto_def star_items_def repo_star_item_def blank_repo_def month_key_def
                      ymd_def dec_digits_numeral digit_char_simps less_eq_char_def less_char_def)
  have "get_star_timeline [blank_repo\<lparr>r_stargazers_count := 5, r_created_at := Some (ymd 2024 3 10)\<rparr>,
       blank_repo\<lparr>r_stargazers_count := 3, r_created_at := Some (ymd 2024 2 5)\<rparr>] =
        [\<lparr>te_month = ''2024-02'', te_stars = 3\<rparr>, \<lparr>te_month = ''2024-03'', te_stars = 8\<rparr>]"
    unfolding get_star_timeline_closed [OF v] Let_def k d list.map u by (rule refl)
  with v show ?thesis by blast
qed

section \<open>Properties of the star timeline\<close>

text \<open>C24 (spec 4.4 and 9): every entry of the timeline carries exactly the total stars
  of the repositories created in its month or earlier (those with a creation date; a
  repository without stars adds nothing).  The overwrite of \<open>month_stars[key]\<close> loses
  nothing, because the items are walked in date order: the open question of the
  specification's design notes does not arise.\<close>

theorem star_timeline_cumulative:
  assumes "dates_valid repos" "te \<in> set (get_star_timeline repos)"
  shows "te_stars te = sum_list (map r_stargazers_count
           (filter (\<lambda>r. case r_created_at r of None \<Rightarrow> False | Some d \<Rightarrow> month_key d \<le> te_month te) repos))"
proof -
  from assms(2) obtain k where "te = \<lparr>te_month = k, te_stars = stars_upto (star_items repos) k\<rparr>"
    by (auto simp: get_star_timeline_closed [OF assms(1)] Let_def)
  then have "te_month te = k" "te_stars te = stars_upto (star_items repos) k" by simp_all
  then show ?thesis by (simp add: stars_upto_repos cong: option.case_cong)
qed

theorem star_timeline_cumulative_witness:
  "\<lparr>te_month = ''2024-03'', te_stars = 8\<rparr> \<in> set (get_star_timeline [blank_repo\<lparr>r_stargazers_count := 5, r_created_at := Some (ymd 2024 3 10)\<rparr>,
       blank_repo\<lparr>r_stargazers_count := 3, r_created_at := Some (ymd 2024 2 5)\<rparr>]) \<and>
   8 = sum_list (map r_stargazers_count (filter
         (\<lambda>r. case r_created_at r of None \<Rightarrow> False | Some d \<Rightarrow> month_key d \<le> ''2024-03'') [blank_repo\<lparr>r_stargazers_count := 5, r_created_at := Some (ymd 2024 3 10)\<rparr>,
       blank_repo\<lparr>r_stargazers_count := 3, r_created_at := Some (ymd 2024 2 5)\<rparr>]))"
proof -
  have e: "dates_valid [blank_repo\<lparr>r_stargazers_count := 5, r_created_at := Some (ymd 2024 3 10)\<rparr>,
       blank_repo\<lparr>r_stargazers_count := 3, r_created_at := Some (ymd 2024 2 5)\<rparr>] \<and>
     get_star_timeline [blank_repo\<lparr>r_stargazers_count := 5, r_created_at := Some (ymd 2024 3 10)\<rparr>,
       blank_repo\<lparr>r_stargazers_count := 3, r_created_at := Some (ymd 2024 2 5)\<rparr>] = [\<lparr>te_month = ''2024-02'', te_stars = 3\<rparr>, \<lparr>te_month = ''2024-03'', te_stars = 8\<rparr>]"
    by (rule timeline_example_eval)
  then have m: "\<lparr>te_month = ''2024-03'', te_stars = 8\<rparr> \<in> set (get_star_timeline [blank_repo\<lparr>r_stargazers_count := 5, r_created_at := Some (ymd 2024 3 10)\<rparr>,
       blank_repo\<lparr>r_stargazers_count := 3, r_created_at := Some (ymd 2024 2 5)\<rparr>])" by simp
  have "te_stars \<lparr>te_month = ''2024-03'', te_stars = 8\<rparr> = sum_list (map r_stargazers_count (filter
         (\<lambda>r. case r_created_at r of None \<Rightarrow> False
              | Some d \<Rightarrow> month_key d \<le> te_month \<lparr>te_month = ''2024-03'', te_stars = 8\<rparr>) [blank_repo\<lparr>r_stargazers_count := 5, r_created_at := Some (ymd 2024 3 10)\<rparr>,
       blank_repo\<lparr>r_stargazers_count := 3, r_created_at := Some (ymd 2024 2 5)\<rparr>]))"
    by (rule star_timeline_cumulative [OF conjunct1 [OF e] m])
  then have "8 = sum_list (map r_stargazers_count (filter
         (\<lambda>r. case r_created_at r of None \<Rightarrow> False | Some d \<Rightarrow> month_key d \<le> ''2024-03'') [blank_repo\<lparr>r_stargazers_count := 5, r_created_at := Some (ymd 2024 3 10)\<rparr>,
       blank_repo\<lparr>r_stargazers_count := 3, r_created_at := Some (ymd 2024 2 5)\<rparr>]))"
    unfolding timeline_entry.select_convs .
  with m show ?thesis ..
qed

text \<open>C25 (spec 3 and 8): the timeline has at most twelve entries, its months are
  strictly ascending, and its cumulative star counts are non-decreasing.\<close>

theorem star_timeline_monotone:
  assumes "dates_valid repos"
  shows "length (get_star_timeline repos) \<le> 12 \<and>
         sorted_wrt (<) (map te_month (get_star_timeline repos)) \<and>
         sorted (map te_stars (get_star_timeline repos))"
proof -
  let ?M = "sort (remdups (map (\<lambda>x. month_key (fst x)) (star_items repos)))"
  let ?n = "length (remdups (map (\<lambda>x. month_key (fst x)) (star_items repos))) - timeline_months"
  have sM: "sorted_wrt (<) ?M" by (simp add: strict_sorted_iff)
  have "length (get_star_timeline repos) = length (drop ?n ?M)"
    using arg_cong [OF timeline_months_shape(1) [OF assms], of length] by simp
  then have l: "length (get_star_timeline repos) \<le> 12" by (simp add: timeline_months_def)
  have m: "sorted_wrt (<) (map te_month (get_star_timeline repos))"
    unfolding timeline_months_shape(1) [OF assms] by (rule sorted_wrt_drop [OF sM])
  have "sorted_wrt (\<lambda>a b. stars_upto (star_items repos) a \<le> stars_upto (star_items repos) b) (drop ?n ?M)"
    by (rule sorted_wrt_mono_rel [OF _ sorted_wrt_drop [OF sM]]) (simp add: stars_upto_mono)
  then have "sorted (map te_stars (get_star_timeline repos))"
    unfolding timeline_months_shape(2) [OF assms] by (simp add: sorted_wrt_map)
  with l m show ?thesis by blast
qed

theorem star_timeline_monotone_witness:
  "dates_valid [blank_repo\<lparr>r_stargazers_count := 5, r_created_at := Some (ymd 2024 3 10)\<rparr>,
       blank_repo\<lparr>r_stargazers_count := 3, r_created_at := Some (ymd 2024 2 5)\<rparr>] \<and> length (get_star_timeline [blank_repo\<lparr>r_stargazers_count := 5, r_created_at := Some (ymd 2024 3 10)\<rparr>,
       blank_repo\<lparr>r_stargazers_count := 3, r_created_at := Some (ymd 2024 2 5)\<rparr>]) \<le> 12 \<and>
   sorted (map te_stars (get_star_timeline [blank_repo\<lparr>r_stargazers_count := 5, r_created_at := Some (ymd 2024 3 10)\<rparr>,
       blank_repo\<lparr>r_stargazers_count := 3, r_created_at := Some (ymd 2024 2 5)\<rparr>]))"
proof -
  have v: "dates_valid [blank_repo\<lparr>r_stargazers_count := 5, r_created_at := Some (ymd 2024 3 10)\<rparr>,
       blank_repo\<lparr>r_stargazers_count := 3, r_created_at := Some (ymd 2024 2 5)\<rparr>]" using timeline_example_eval by blast
  with star_timeline_monotone [OF v] show ?thesis by blast
qed

text \<open>C26 (spec 4.4): the timeline is empty exactly when no repository with a creation
  date has a star, and otherwise its last entry is the total stars of the repositories
  with a creation date.\<close>

theorem star_timeline_last_total:
  assumes "dates_valid repos"
  shows "(get_star_timeline repos = [] \<longleftrightarrow>
            sum_list (map r_stargazers_count (filter (\<lambda>r. r_created_at r \<noteq> None) repos)) = 0) \<and>
         (get_star_timeline repos \<noteq> [] \<longrightarrow> te_stars (last (get_star_timeline repos)) =
            sum_list (map r_stargazers_count (filter (\<lambda>r. r_created_at r \<noteq> None) repos)))"
proof -
  let ?K = "map (\<lambda>x. month_key (fst x)) (star_items repos)"
  let ?M = "sort (remdups ?K)"
  have "te_stars (last (get_star_timeline repos)) = sum_list (map snd (star_items repos))"
    if ne: "star_items repos \<noteq> []"
  proof -
    obtain x where "x \<in> set (star_items repos)" using ne by (cases "star_items repos") auto
    then have "month_key (fst x) \<in> set ?M" by simp
    then have "?M \<noteq> []" by (metis empty_iff empty_set)
    then have "0 < length ?M" by (rule length_greater_0_conv [THEN iffD2])
    then have lt: "length (remdups ?K) - timeline_months < length ?M" by (simp add: timeline_months_def)
    then have "drop (length (remdups ?K) - timeline_months) ?M \<noteq> []" by simp
    then have "te_stars (last (get_star_timeline repos)) =
        stars_upto (star_items repos) (last (drop (length (remdups ?K) - timeline_months) ?M))"
      by (simp add: get_star_timeline_closed [OF assms] Let_def last_map)
    also have "\<dots> = stars_upto (star_items repos) (last ?M)" using lt by simp
    finally have "te_stars (last (get_star_timeline repos)) = stars_upto (star_items repos) (last ?M)" .
    moreover have "month_key (fst x) \<le> last ?M" if "x \<in> set (star_items repos)" for x
      using that by (intro sorted_le_last) auto
    ultimately show ?thesis by (simp add: stars_upto_all)
  qed
  then have l: "get_star_timeline repos \<noteq> [] \<longrightarrow> te_stars (last (get_star_timeline repos)) =
      sum_list (map r_stargazers_count (filter (\<lambda>r. r_created_at r \<noteq> None) repos))"
    by (simp only: get_star_timeline_Nil_iff [OF assms] sum_star_items) blast
  have "get_star_timeline repos = [] \<longleftrightarrow>
      sum_list (map r_stargazers_count (filter (\<lambda>r. r_created_at r \<noteq> None) repos)) = 0"
    by (simp only: get_star_timeline_Nil_iff [OF assms] star_items_Nil_iff)
  with l show ?thesis by blast
qed

theorem star_timeline_last_total_witness:
  "get_star_timeline [blank_repo\<lparr>r_stargazers_count := 5, r_created_at := Some (ymd 2024 3 10)\<rparr>,
       blank_repo\<lparr>r_stargazers_count := 3, r_created_at := Some (ymd 2024 2 5)\<rparr>] \<noteq> [] \<and>
   te_stars (last (get_star_timeline [blank_repo\<lparr>r_stargazers_count := 5, r_created_at := Some (ymd 2024 3 10)\<rparr>,
       blank_repo\<lparr>r_stargazers_count := 3, r_created_at := Some (ymd 2024 2 5)\<rparr>])) =
     sum_list (map r_stargazers_count (filter (\<lambda>r. r_created_at r \<noteq> None) [blank_repo\<lparr>r_stargazers_count := 5, r_created_at := Some (ymd 2024 3 10)\<rparr>,
       blank_repo\<lparr>r_stargazers_count := 3, r_created_at := Some (ymd 2024 2 5)\<rparr>]))"
proof -
  have e: "dates_valid [blank_repo\<lparr>r_stargazers_count := 5, r_created_at := Some (ymd 2024 3 10)\<rparr>,
       blank_repo\<lparr>r_stargazers_count := 3, r_created_at := Some (ymd 2024 2 5)\<rparr>] \<and>
     get_star_timeline [blank_repo\<lparr>r_stargazers_count := 5, r_created_at := Some (ymd 2024 3 10)\<rparr>,
       blank_repo\<lparr>r_stargazers_count := 3, r_created_at := Some (ymd 2024 2 5)\<rparr>] = [\<lparr>te_month = ''2024-02'', te_stars = 3\<rparr>, \<lparr>te_month = ''2024-03'', te_stars = 8\<rparr>]"
    by (rule timeline_example_eval)
  then have ne: "get_star_timeline [blank_repo\<lparr>r_stargazers_count := 5, r_created_at := Some (ymd 2024 3 10)\<rparr>,
       blank_repo\<lparr>r_stargazers_count := 3, r_created_at := Some (ymd 2024 2 5)\<rparr>] \<noteq> []" by simp
  with star_timeline_last_total [OF conjunct1 [OF e]] show ?thesis by blast
qed

text \<open>C27 (round trip): every month key of the timeline reads back, as (year, month), to
  the creation date of a repository with stars.\<close>

theorem star_timeline_month_roundtrip:
  assumes "dates_valid repos" "te \<in> set (get_star_timeline repos)"
  shows "\<exists>r d. r \<in> set repos \<and> r_created_at r = Some d \<and> 0 < r_stargazers_count r \<and>
               parse_month_key (te_month te) = (dt_year d, dt_month d)"
proof -
  obtain x where x: "x \<in> set (star_items repos)" "te_month te = month_key (fst x)"
    using assms(2) by (auto simp: get_star_timeline_closed [OF assms(1)] Let_def dest!: in_set_dropD)
  obtain r where "r \<in> set repos" "r_created_at r = Some (fst x)" "0 < r_stargazers_count r"
    using star_items_source [OF x(1)] by blast
  moreover have "parse_month_key (te_month te) = (dt_year (fst x), dt_month (fst x))"
    using x parse_month_key_roundtrip star_items_valid [OF assms(1)] by simp
  ultimately show ?thesis by blast
qed

theorem star_timeline_month_roundtrip_witness:
  "\<exists>r d. r \<in> set [blank_repo\<lparr>r_stargazers_count := 5, r_created_at := Some (ymd 2024 3 10)\<rparr>,
       blank_repo\<lparr>r_stargazers_count := 3, r_created_at := Some (ymd 2024 2 5)\<rparr>] \<and> r_created_at r = Some d \<and> 0 < r_stargazers_count r \<and>
         parse_month_key ''2024-03'' = (dt_year d, dt_month d)"
proof -
  have e: "dates_valid [blank_repo\<lparr>r_stargazers_count := 5, r_created_at := Some (ymd 2024 3 10)\<rparr>,
       blank_repo\<lparr>r_stargazers_count := 3, r_created_at := Some (ymd 2024 2 5)\<rparr>] \<and>
     get_star_timeline [blank_repo\<lparr>r_stargazers_count := 5, r_created_at := Some (ymd 2024 3 10)\<rparr>,
       blank_repo\<lparr>r_stargazers_count := 3, r_created_at := Some (ymd 2024 2 5)\<rparr>] = [\<lparr>te_month = ''2024-02'', te_stars = 3\<rparr>, \<lparr>te_month = ''2024-03'', te_stars = 8\<rparr>]"
    by (rule timeline_example_eval)
  then have m: "\<lparr>te_month = ''2024-03'', te_stars = 8\<rparr> \<in> set (get_star_timeline [blank_repo\<lparr>r_stargazers_count := 5, r_created_at := Some (ymd 2024 3 10)\<rparr>,
       blank_repo\<lparr>r_stargazers_count := 3, r_created_at := Some (ymd 2024 2 5)\<rparr>])" by simp
  from star_timeline_month_roundtrip [OF conjunct1 [OF e] m] show ?thesis by simp
qed

text \<open>Spec 8, worked example: repositories with 100 and 50 stars created in
  January 2023 and one with 10 stars created in March 2023 give the timeline
  [("2023-01", 150), ("2023-03", 160)].\<close>

theorem star_timeline_spec_example:
  "get_star_timeline
     [blank_repo\<lparr>r_stargazers_count := 100, r_created_at := Some (ymd 2023 1 5)\<rparr>,
      blank_repo\<lparr>r_stargazers_count := 50, r_created_at := Some (ymd 2023 1 20)\<rparr>,
      blank_repo\<lparr>r_stargazers_count := 10, r_created_at := Some (ymd 2023 3 2)\<rparr>] =
   [\<lparr>te_month = ''2023-01'', te_stars = 150\<rparr>, \<lparr>te_month = ''2023-03'', te_stars = 160\<rparr>]"
proof -
  let ?R = "[blank_repo\<lparr>r_stargazers_count := 100, r_created_at := Some (ymd 2023 1 5)\<rparr>,
      blank_repo\<lparr>r_stargazers_count := 50, r_created_at := Some (ymd 2023 1 20)\<rparr>,
      blank_repo\<lparr>r_stargazers_count := 10, r_created_at := Some (ymd 2023 3 2)\<rparr>]"
  have v: "dates_valid ?R"
    by (simp add: dates_valid_def dt_valid_def ymd_def days_in_month_def is_leap_def blank_repo_def)
  have k: "map (\<lambda>x. month_key (fst x)) (star_items ?R) = [''2023-01'', ''2023-01'', ''2023-03'']"
    by (simp add: star_items_def repo_star_item_def blank_repo_def month_key_def ymd_def
                  dec_digits_numeral digit_char_simps)
  have d: "drop (length (sort (remdups [''2023-01'', ''2023-01'', ''2023-03''])) - timeline_months)
                (sort (remdups [''2023-01'', ''2023-01'', ''2023-03''])) = [''2023-01'', ''2023-03'']"
    by (simp add: less_char_def timeline_months_def)
  have u: "stars_upto (star_items ?R) ''2023-01'' = 150" "stars_upto (star_items ?R) ''2023-03'' = 160"
    by (simp_all add: stars_upto_def star_items_def repo_star_item_def blank_repo_def month_key_def
                      ymd_def dec_digits_numeral digit_char_simps less_eq_char_def less_char_def)
  show ?thesis
    unfolding get_star_timeline_closed [OF v] Let_def k d list.map u by (rule refl)
qed

end
