(* ===== verification/Activity.thy ===== *)
theory Activity
  imports Timeline
begin

text \<open>
  The activity and streak estimator (\<open>_get_contribution_summary\<close>,
  \<open>_get_most_active_day\<close>, \<open>_estimate_streak\<close>, github_analyzer.py 174-272).

  \<^item> The weekday tally is a \<open>Counter\<close> filled over the first 50 repositories and the
    first 100 commits of each.  A failing commits request skips the repository.  A
    commit whose author is missing raises \<open>AttributeError\<close> inside the \<open>try\<close>, which
    abandons the rest of that repository but keeps what was already counted
    (\<open>tally_commits\<close> returns the counter reached so far).  The answer is
    \<open>most_common(1)[0][0]\<close>, i.e. CPython's \<open>max\<close> over the counter's items.
  \<^item> The streak sorts the repositories by update time, newest first (a missing time
    sorts as \<open>datetime.min\<close>), and walks the first 30 from "now": a repository counts
    when \<open>(current - updated).days <= 1\<close>, and then becomes the reference point; the
    first repository further away stops the walk; one without an update time is
    passed over.
  \<^item> Comparing an aware datetime with \<open>now - timedelta(days=k)\<close> compares their
    distances from the epoch (\<open>dt_total_us\<close>).
  \<^item> The code reads \<open>datetime.now()\<close> twice, once for the last-month and
    last-year counts (line 176) and once for the streak (line 261); the model passes
    a single \<open>now\<close> to both, so it takes the two readings to be the same instant.
\<close>

definition activity_repos_limit :: nat where
  "activity_repos_limit = 50"

definition activity_commits_limit :: nat where
  "activity_commits_limit = 100"

definition streak_repos_limit :: nat where
  "streak_repos_limit = 30"

text \<open>\<open>for commit in commits: if commit.commit.author.date: day_counter[day] += 1\<close>;
  \<open>cm_author_date\<close> is \<open>None\<close> when the author is missing (the loop raises).\<close>

fun tally_commits :: "gh_commit list \<Rightarrow> string counter \<Rightarrow> string counter" where
  "tally_commits [] c = c"
| "tally_commits (cm # cms) c =
     (case cm_author_date cm of
        None \<Rightarrow> c
      | Some None \<Rightarrow> tally_commits cms c
      | Some (Some d) \<Rightarrow> tally_commits cms (counter_add (weekday_name d) 1 c))"

definition tally_repo :: "string counter \<Rightarrow> gh_repo \<Rightarrow> string counter" where
  "tally_repo c r =
     (case r_get_commits r of
        Inl _ \<Rightarrow> c
      | Inr cms \<Rightarrow> tally_commits (take activity_commits_limit cms) c)"

definition day_tally :: "gh_repo list \<Rightarrow> string counter" where
  "day_tally repos = foldl tally_repo [] (take activity_repos_limit repos)"

definition get_most_active_day :: "gh_repo list \<Rightarrow> string" where
  "get_most_active_day repos =
     (let c = day_tally repos in if c \<noteq> [] then fst (hd (most_common 1 c)) else ''Unknown'')"

text \<open>\<open>r.updated_at or datetime.min.replace(tzinfo=timezone.utc)\<close>\<close>

definition updated_or_min :: "gh_repo \<Rightarrow> py_datetime" where
  "updated_or_min r = (case r_updated_at r of None \<Rightarrow> dt_min | Some u \<Rightarrow> u)"

fun streak_walk :: "py_datetime \<Rightarrow> gh_repo list \<Rightarrow> nat \<Rightarrow> nat" where
  "streak_walk cur [] n = n"
| "streak_walk cur (r # rs) n =
     (case r_updated_at r of
        None \<Rightarrow> streak_walk cur rs n
      | Some u \<Rightarrow> if td_days cur u \<le> 1 then streak_walk u rs (Suc n) else n)"

definition estimate_streak :: "py_datetime \<Rightarrow> gh_repo list \<Rightarrow> nat" where
  "estimate_streak now repos =
     (if repos = [] then 0
      else streak_walk now
             (take streak_repos_limit (py_sorted_desc (\<lambda>r. dt_key (updated_or_min r)) repos)) 0)"

text \<open>\<open>r.updated_at and r.updated_at > now - timedelta(days=k)\<close>\<close>

definition updated_within :: "py_datetime \<Rightarrow> nat \<Rightarrow> gh_repo \<Rightarrow> bool" where
  "updated_within now k r =
     (case r_updated_at r of
        None \<Rightarrow> False
      | Some u \<Rightarrow> dt_total_us now - int k * 86400 * 1000000 < dt_total_us u)"

record contribution_summary =
  cb_repos_updated_last_month :: nat
  cb_repos_updated_last_year :: nat
  cb_star_timeline :: "timeline_entry list"
  cb_most_active_day :: string
  cb_contribution_streak :: nat

definition get_contribution_summary :: "py_datetime \<Rightarrow> gh_repo list \<Rightarrow> contribution_summary" where
  "get_contribution_summary now repos =
     \<lparr>cb_repos_updated_last_month = length (filter (updated_within now 30) repos),
      cb_repos_updated_last_year = length (filter (updated_within now 365) repos),
      cb_star_timeline = get_star_timeline repos,
      cb_most_active_day = get_most_active_day repos,
      cb_contribution_streak = estimate_streak now repos\<rparr>"

section \<open>The weekday tally\<close>

lemma insert_weekday: "insert (weekday_name d) (A \<union> set day_names) = A \<union> set day_names"
  using weekday_name_in_day_names [of d] by blast

lemma keys_tally_commits:
  "fst ` set (tally_commits cms c) \<subseteq> fst ` set c \<union> set day_names"
  by (induction cms c rule: tally_commits.induct)
     (auto simp: keys_counter_add insert_weekday split: option.splits)

lemma distinct_tally_commits:
  "distinct (map fst c) \<Longrightarrow> distinct (map fst (tally_commits cms c))"
  by (induction cms c rule: tally_commits.induct) (auto split: option.splits)

lemma keys_day_tally: "fst ` set (day_tally repos) \<subseteq> set day_names"
proof -
  have "fst ` set (foldl tally_repo c rs) \<subseteq> fst ` set c \<union> set day_names" for c rs
  proof (induction rs arbitrary: c)
    case (Cons r rs)
    have "fst ` set (tally_repo c r) \<subseteq> fst ` set c \<union> set day_names"
      using keys_tally_commits by (auto simp: tally_repo_def split: sum.splits)
    with Cons.IH [of "tally_repo c r"] show ?case by auto
  qed simp
  from this [of "[]"] show ?thesis by (simp add: day_tally_def)
qed

lemma distinct_day_tally: "distinct (map fst (day_tally repos))"
proof -
  have "distinct (map fst c) \<Longrightarrow> distinct (map fst (foldl tally_repo c rs))" for c rs
    by (induction rs arbitrary: c)
       (simp_all add: tally_repo_def distinct_tally_commits split: sum.splits)
  then show ?thesis by (simp add: day_tally_def)
qed

lemma tally_commits_prefix_stop:
  assumes "\<forall>x \<in> set xs. cm_author_date x \<noteq> None" "cm_author_date cm = None"
  shows "tally_commits (xs @ cm # ys) c = tally_commits xs c"
  using assms by (induction xs c rule: tally_commits.induct) (auto split: option.splits)

lemma most_active_day_hd:
  assumes "day_tally repos \<noteq> []"
  obtains x where "most_common 1 (day_tally repos) = [x]" "get_most_active_day repos = fst x"
proof -
  have "length (most_common 1 (day_tally repos)) = 1"
    using assms by (cases "day_tally repos") (simp_all add: length_most_common)
  then obtain x where "most_common 1 (day_tally repos) = [x]"
    by (cases "most_common 1 (day_tally repos)") auto
  with assms that show ?thesis by (simp add: get_most_active_day_def)
qed

lemma length_filter_mono:
  "(\<And>x. P x \<Longrightarrow> Q x) \<Longrightarrow> length (filter P xs) \<le> length (filter Q xs)"
  by (induction xs) auto

section \<open>The streak walk\<close>

lemma streak_walk_le: "streak_walk cur rs n \<le> n + length rs"
proof (induction cur rs n rule: streak_walk.induct)
  case (2 cur r rs n)
  show ?case
  proof (cases "r_updated_at r")
    case None
    with 2(1) show ?thesis by simp
  next
    case (Some u)
    with 2(2) [OF Some] show ?thesis by simp
  qed
qed simp

lemma td_days_le_1:
  "td_days a b \<le> 1 \<longleftrightarrow> dt_total_us a - dt_total_us b < 2 * 86400 * 1000000"
proof -
  define x where "x = dt_total_us a - dt_total_us b"
  have "x = x div 86400000000 * 86400000000 + x mod 86400000000" by simp
  moreover have "0 \<le> x mod 86400000000" "x mod 86400000000 < 86400000000" by simp_all
  ultimately have "x div 86400000000 \<le> 1 \<longleftrightarrow> x < 2 * 86400000000" by linarith
  then show ?thesis by (simp add: td_days_def x_def)
qed

section \<open>Properties of the activity estimator\<close>

text \<open>C29 (spec 4.5): the most active day is "Unknown" exactly when nothing was tallied;
  otherwise it is a weekday name whose tally is the largest.\<close>

theorem most_active_day_is_mode:
  "get_most_active_day repos = ''Unknown'' \<and> day_tally repos = [] \<or>
   get_most_active_day repos \<in> set day_names \<and>
   (\<forall>kv \<in> set (day_tally repos). snd kv \<le> counter_get (day_tally repos) (get_most_active_day repos))"
proof (cases "day_tally repos = []")
  case True
  then show ?thesis by (simp add: get_most_active_day_def)
next
  case False
  let ?c = "day_tally repos"
  obtain x where x: "most_common 1 ?c = [x]" "get_most_active_day repos = fst x"
    using most_active_day_hd [OF False] by blast
  have xc: "x \<in> set ?c" using x(1) set_most_common [of 1 ?c] by auto
  then have "fst x \<in> set day_names" using keys_day_tally [of repos] by auto
  moreover obtain k n where kn: "x = (k, n)" by (cases x)
  then have "map_of ?c k = Some n" using xc distinct_day_tally [of repos] by (simp add: map_of_is_SomeI)
  then have "counter_get ?c (fst x) = snd x" using kn by (simp add: counter_get_def)
  moreover have "snd kv \<le> snd x" if "kv \<in> set ?c" for kv
  proof (cases "kv = x")
    case False
    then have "kv \<notin> set (most_common 1 ?c)" using x(1) by simp
    with most_common_dominates [of x 1 ?c kv] x(1) that show ?thesis by simp
  qed simp
  ultimately show ?thesis using x(2) by simp
qed

theorem most_active_day_is_mode_witness:
  "day_tally [blank_repo\<lparr>r_get_commits := Inr [\<lparr>cm_author_date = Some (Some (ymd 2024 3 4))\<rparr>]\<rparr>] \<noteq> []
   \<and> get_most_active_day [blank_repo\<lparr>r_get_commits := Inr [\<lparr>cm_author_date = Some (Some (ymd 2024 3 4))\<rparr>]\<rparr>]
     \<in> set day_names"
proof -
  let ?R = "[blank_repo\<lparr>r_get_commits := Inr [\<lparr>cm_author_date = Some (Some (ymd 2024 3 4))\<rparr>]\<rparr>]"
  have ne: "day_tally ?R \<noteq> []"
    by (simp add: day_tally_def tally_repo_def activity_repos_limit_def activity_commits_limit_def)
  with most_active_day_is_mode [of ?R] show ?thesis by auto
qed

text \<open>\<open>most_common(1)[0][0]\<close> is the first weekday, in tally order,
  of maximal count, which is what CPython's \<open>max\<close> loop (used by
  \<open>heapq.nlargest(1)\<close>) returns.\<close>

theorem most_active_day_first_max:
  assumes "day_tally repos \<noteq> []"
  shows "get_most_active_day repos = fst (max_by_loop snd (hd (day_tally repos)) (tl (day_tally repos)))"
  using assms most_common_one [OF assms] by (simp add: get_most_active_day_def Let_def)

theorem most_active_day_first_max_witness:
  "get_most_active_day [blank_repo\<lparr>r_get_commits := Inr [\<lparr>cm_author_date = Some (Some (ymd 2024 3 4))\<rparr>]\<rparr>] =
   fst (max_by_loop snd (hd (day_tally [blank_repo\<lparr>r_get_commits := Inr [\<lparr>cm_author_date = Some (Some (ymd 2024 3 4))\<rparr>]\<rparr>]))
                       (tl (day_tally [blank_repo\<lparr>r_get_commits := Inr [\<lparr>cm_author_date = Some (Some (ymd 2024 3 4))\<rparr>]\<rparr>])))"
proof -
  let ?R = "[blank_repo\<lparr>r_get_commits := Inr [\<lparr>cm_author_date = Some (Some (ymd 2024 3 4))\<rparr>]\<rparr>]"
  have "day_tally ?R \<noteq> []"
    by (simp add: day_tally_def tally_repo_def activity_repos_limit_def activity_commits_limit_def)
  then show ?thesis by (rule most_active_day_first_max)
qed

text \<open>C31 (spec 4.5): the streak counts at most 30 repositories and at most as many as
  there are.\<close>

theorem streak_bounds: "estimate_streak now repos \<le> min 30 (length repos)"
  using streak_walk_le [of now "take streak_repos_limit (py_sorted_desc (\<lambda>r. dt_key (updated_or_min r)) repos)" 0]
  by (simp add: estimate_streak_def streak_repos_limit_def)

text \<open>C32 (spec 4.5): a single repository counts towards the streak exactly when its
  update time is less than two days before "now" (or after it): \<open>.days <= 1\<close> is the
  floor of the gap in days, so a gap of 47 hours still counts, where the
  specification speaks of "within 1 day".\<close>

theorem streak_single_gap:
  "estimate_streak now [r] =
     (case r_updated_at r of
        None \<Rightarrow> 0
      | Some u \<Rightarrow> if dt_total_us now - dt_total_us u < 2 * 86400 * 1000000 then 1 else 0)"
  by (simp add: estimate_streak_def py_sorted_desc_def streak_repos_limit_def td_days_le_1
           split: option.splits)

text \<open>C33 (spec 4.5 and 7): a commit without an author abandons the rest of that
  repository's sample, but the weekdays already tallied from it are kept; the
  specification only speaks of skipping a repository whose fetch fails.\<close>

theorem tally_keeps_partial_repo:
  assumes "\<forall>x \<in> set xs. cm_author_date x \<noteq> None" "cm_author_date cm = None"
    and "length xs < activity_commits_limit" "r_get_commits r = Inr (xs @ cm # ys)"
  shows "tally_repo c r = tally_commits xs c"
proof -
  have "take activity_commits_limit (xs @ cm # ys) = xs @ cm # take (activity_commits_limit - Suc (length xs)) ys"
    using assms(3) by (simp add: take_Cons')
  then show ?thesis
    using assms tally_commits_prefix_stop [OF assms(1,2)] by (simp add: tally_repo_def)
qed

theorem tally_keeps_partial_repo_witness:
  "tally_repo [] (blank_repo\<lparr>r_get_commits := Inr [\<lparr>cm_author_date = Some (Some (ymd 2024 3 4))\<rparr>,
      \<lparr>cm_author_date = None\<rparr>, \<lparr>cm_author_date = Some (Some (ymd 2024 3 5))\<rparr>]\<rparr>) =
   tally_commits [\<lparr>cm_author_date = Some (Some (ymd 2024 3 4))\<rparr>] []"
  by (rule tally_keeps_partial_repo [where cm = "\<lparr>cm_author_date = None\<rparr>"
        and ys = "[\<lparr>cm_author_date = Some (Some (ymd 2024 3 5))\<rparr>]"])
     (simp_all add: activity_commits_limit_def)

text \<open>No more repositories were updated in the last 30 days than in the last 365.\<close>

theorem updated_month_le_year:
  "cb_repos_updated_last_month (get_contribution_summary now repos) \<le>
   cb_repos_updated_last_year (get_contribution_summary now repos)"
proof -
  have "updated_within now 30 r \<Longrightarrow> updated_within now 365 r" for r
    by (auto simp: updated_within_def split: option.splits)
  then show ?thesis by (simp add: get_contribution_summary_def length_filter_mono)
qed

end
