(* ===== verification/Summary.thy ===== *)
theory Summary
  imports Languages
begin

text \<open>
  The narrative summary generator (\<open>_generate_ai_summary\<close>, github_analyzer.py
  274-312): a developer type chosen from the first three language names by a chain
  of membership tests, and a paragraph assembled from the display name, the counts
  (rendered by \<open>str\<close>, here \<open>nat_str\<close>), the joined language names and the
  optional bio, company and location clauses.  The results: the chain is
  equivalent to a three-way test in which the "Python developer" branch and the
  JavaScript/TypeScript keywords of the frontend test never fire, and the rendered
  counts read back to the numbers.
\<close>

definition fullstack_keywords :: "string list" where
  "fullstack_keywords = [''Python'', ''JavaScript'', ''TypeScript'']"

definition frontend_keywords :: "string list" where
  "frontend_keywords = [''JavaScript'', ''TypeScript'', ''React'']"

definition dev_type :: "string list \<Rightarrow> string" where
  "dev_type langs =
     (if list_ex (\<lambda>l. l \<in> set fullstack_keywords) langs then ''full-stack developer''
      else if ''Python'' \<in> set langs then ''Python developer''
      else if list_ex (\<lambda>l. l \<in> set frontend_keywords) langs then ''frontend developer''
      else ''software developer'')"

definition generate_ai_summary :: "gh_user \<Rightarrow> gh_repo list \<Rightarrow> lang_stat list \<Rightarrow> string" where
  "generate_ai_summary u repos top_languages =
     (let name = str_or (u_name u) (u_login u);
          total_repos = length repos;
          total_stars = sum_list (map r_stargazers_count repos);
          primary = map ls_name (take 3 top_languages);
          lang_str = (if primary \<noteq> [] then py_join '', '' primary else ''various technologies'');
          s = name @ '' is a passionate '' @ dev_type primary @ '' with '' @ nat_str total_repos
              @ '' public repositories '' @ ''and '' @ nat_str total_stars
              @ '' total stars across their projects. '' @ ''They specialize in '' @ lang_str @ '', ''
              @ ''demonstrating expertise through diverse open-source contributions. '';
          s = (if str_truthy (u_bio u) then s @ str_or (u_bio u) [] @ '' '' else s);
          s = (if str_truthy (u_company u)
               then s @ ''Currently working at '' @ str_or (u_company u) [] @ ''. '' else s);
          s = (if str_truthy (u_location u)
               then s @ ''Based in '' @ str_or (u_location u) [] @ ''. '' else s)
      in s @ ''Actively contributing to the developer community.'')"

section \<open>Lemmas\<close>

lemma digits_val_snoc: "digits_val (xs @ [c]) = digits_val xs * 10 + (of_char c - 48)"
  by (simp add: digits_val_def)

lemma dev_type_full_stack:
  "list_ex (\<lambda>l. l \<in> set fullstack_keywords) langs \<longleftrightarrow>
   ''Python'' \<in> set langs \<or> ''JavaScript'' \<in> set langs \<or> ''TypeScript'' \<in> set langs"
  by (auto simp: list_ex_iff fullstack_keywords_def)

section \<open>Properties of the summary generator\<close>

text \<open>C35 (spec 4.8): the developer-type chain is equivalent to a three-way test:
  full-stack when Python, JavaScript or TypeScript is among the first three languages,
  else frontend when React is, else generic.  The "Python developer" branch is
  unreachable and the JavaScript/TypeScript keywords of the frontend test never
  decide anything.\<close>

theorem dev_type_three_way:
  "dev_type langs =
     (if ''Python'' \<in> set langs \<or> ''JavaScript'' \<in> set langs \<or> ''TypeScript'' \<in> set langs
      then ''full-stack developer''
      else if ''React'' \<in> set langs then ''frontend developer''
      else ''software developer'')"
  by (auto simp: dev_type_def dev_type_full_stack list_ex_iff frontend_keywords_def)

text \<open>Round trip: the counts written into the summary by \<open>str\<close> read back, with
  \<open>int\<close>, to the numbers themselves.\<close>

theorem nat_str_roundtrip: "digits_val (nat_str n) = n"
proof (induction n rule: nat_str.induct)
  case (1 n)
  show ?case
  proof (cases "n < 10")
    case True
    then show ?thesis by (simp add: nat_str.simps digits_val_def)
  next
    case False
    then have "digits_val (nat_str n) = digits_val (nat_str (n div 10)) * 10 + n mod 10"
      by (simp add: nat_str.simps [of n] digits_val_snoc)
    with 1 False show ?thesis by simp
  qed
qed

end
