(* ===== verification/Profile.thy ===== *)
theory Profile
  imports Stats Scoring Collaborators TopRepos Activity Summary
begin

text \<open>
  The profile assembler (\<open>GitHubAnalyzer.analyze_profile\<close>, github_analyzer.py 20-86).
  The user lookup and the repository listing are requests whose failure raises
  \<open>GithubException\<close>; every component is then evaluated on the fetched data, and
  the only component that can raise is the ranker (a failing topics request).  The
  \<open>except GithubException\<close> clause turns any of these into
  \<open>Exception("GitHub API error: ...")\<close>, here \<open>Inl (GitHub_API_Error e)\<close>.  The
  second clause (\<open>Analysis error\<close>) catches exceptions of other kinds, which none
  of the modelled computations raises.  The clock is an input: \<open>now\<close> is read once
  for the contribution summary and once for \<open>analyzed_at\<close>; the model passes both.
\<close>

datatype analysis_error = GitHub_API_Error api_error

record profile =
  pf_username :: string
  pf_name :: string
  pf_bio :: string
  pf_avatar_url :: string
  pf_blog :: string
  pf_location :: string
  pf_email :: string
  pf_twitter_username :: string
  pf_company :: string
  pf_hireable :: bool
  pf_created_at :: string
  pf_updated_at :: string
  pf_stats :: stats
  pf_top_languages :: "lang_stat list"
  pf_top_repositories :: "repo_summary list"
  pf_contribution_summary :: contribution_summary
  pf_collaboration_score :: collab_score
  pf_collaborators :: collaborators_data
  pf_ai_summary :: string
  pf_analyzed_at :: string

definition analyze_profile ::
  "string \<Rightarrow> py_datetime \<Rightarrow> py_datetime \<Rightarrow> gh_user fetch \<Rightarrow> gh_repo list fetch \<Rightarrow>
   analysis_error + profile" where
  "analyze_profile username now analyzed user_res repos_res =
     (case user_res of
        Inl e \<Rightarrow> Inl (GitHub_API_Error e)
      | Inr u \<Rightarrow>
          (case repos_res of
             Inl e \<Rightarrow> Inl (GitHub_API_Error e)
           | Inr repos \<Rightarrow>
               (let stats = calculate_stats u repos;
                    top_languages = get_top_languages repos
                in case get_top_repositories repos of
                     Inl e \<Rightarrow> Inl (GitHub_API_Error e)
                   | Inr top_repos \<Rightarrow>
                       Inr \<lparr>pf_username = username,
                            pf_name = str_or (u_name u) username,
                            pf_bio = str_or (u_bio u) [],
                            pf_avatar_url = u_avatar_url u,
                            pf_blog = str_or (u_blog u) [],
                            pf_location = str_or (u_location u) [],
                            pf_email = str_or (u_email u) [],
                            pf_twitter_username = str_or (u_twitter_username u) [],
                            pf_company = str_or (u_company u) [],
                            pf_hireable = (case u_hireable u of None \<Rightarrow> False | Some b \<Rightarrow> b),
                            pf_created_at = iso_or_empty (u_created_at u),
                            pf_updated_at = iso_or_empty (u_updated_at u),
                            pf_stats = stats,
                            pf_top_languages = top_languages,
                            pf_top_repositories = top_repos,
                            pf_contribution_summary = get_contribution_summary now repos,
                            pf_collaboration_score = calculate_collaboration_score u repos,
                            pf_collaborators = get_collaborators u repos,
                            pf_ai_summary = generate_ai_summary u repos top_languages,
                            pf_analyzed_at = dt_isoformat analyzed\<rparr>)))"

section \<open>Properties of the assembly\<close>

lemma get_top_repositories_Nil: "get_top_repositories [] = Inr []"
  by (simp add: get_top_repositories_def top_by_def py_sorted_desc_def)

text \<open>C37 (spec 7): the analysis fails exactly in three ways, each a GitHub API error
  carrying the error of the failing request: the user lookup fails; or it succeeds
  and the repository listing fails; or both succeed and the ranker fails (a topics
  request of a selected repository).  Every other per-repository failure
  (languages, commits, collaborators, contributors, pulls, issues, reviews) leaves
  the analysis successful.\<close>

theorem analyze_profile_errors:
  "analyze_profile username now analyzed user_res repos_res = Inl (GitHub_API_Error e) \<longleftrightarrow>
   user_res = Inl e \<or>
   (\<exists>u. user_res = Inr u \<and> repos_res = Inl e) \<or>
   (\<exists>u repos. user_res = Inr u \<and> repos_res = Inr repos \<and> get_top_repositories repos = Inl e)"
  by (auto simp: analyze_profile_def Let_def split: sum.splits)

text \<open>C39 (spec 8): two successful analyses of the same fetched data at different times
  (any clock readings) agree on every field except the contribution summary and the
  analysis timestamp: no other component reads the clock.\<close>

theorem analyze_profile_time_independent:
  assumes "analyze_profile username now1 analyzed1 user_res repos_res = Inr p1"
    and "analyze_profile username now2 analyzed2 user_res repos_res = Inr p2"
  shows "p1\<lparr>pf_contribution_summary := cs, pf_analyzed_at := t\<rparr> =
         p2\<lparr>pf_contribution_summary := cs, pf_analyzed_at := t\<rparr>"
  using assms by (auto simp: analyze_profile_def Let_def split: sum.splits)

theorem analyze_profile_time_independent_witness:
  "analyze_profile ''octocat'' (ymd 2024 3 5) (ymd 2024 3 5) (Inr blank_user) (Inr []) =
     Inr (projr (analyze_profile ''octocat'' (ymd 2024 3 5) (ymd 2024 3 5) (Inr blank_user) (Inr [])))
   \<and> analyze_profile ''octocat'' (ymd 2025 1 2) (ymd 2025 1 2) (Inr blank_user) (Inr []) =
     Inr (projr (analyze_profile ''octocat'' (ymd 2025 1 2) (ymd 2025 1 2) (Inr blank_user) (Inr [])))
   \<and> (projr (analyze_profile ''octocat'' (ymd 2024 3 5) (ymd 2024 3 5) (Inr blank_user) (Inr [])))
       \<lparr>pf_contribution_summary := get_contribution_summary (ymd 2024 3 5) [], pf_analyzed_at := []\<rparr> =
     (projr (analyze_profile ''octocat'' (ymd 2025 1 2) (ymd 2025 1 2) (Inr blank_user) (Inr [])))
       \<lparr>pf_contribution_summary := get_contribution_summary (ymd 2024 3 5) [], pf_analyzed_at := []\<rparr>"
proof -
  have e1: "analyze_profile ''octocat'' (ymd 2024 3 5) (ymd 2024 3 5) (Inr blank_user) (Inr []) =
     Inr (projr (analyze_profile ''octocat'' (ymd 2024 3 5) (ymd 2024 3 5) (Inr blank_user) (Inr [])))"
    by (simp add: analyze_profile_def Let_def get_top_repositories_Nil)
  have e2: "analyze_profile ''octocat'' (ymd 2025 1 2) (ymd 2025 1 2) (Inr blank_user) (Inr []) =
     Inr (projr (analyze_profile ''octocat'' (ymd 2025 1 2) (ymd 2025 1 2) (Inr blank_user) (Inr [])))"
    by (simp add: analyze_profile_def Let_def get_top_repositories_Nil)
  from e1 e2 analyze_profile_time_independent [OF e1 e2] show ?thesis by blast
qed

text \<open>Spec 8: the re-run property of the specification does not hold beyond the
  timestamp: the same frozen data analysed on 5 and on 20 March 2024, with the same
  recorded timestamp, gives different profiles, because the contribution summary
  (streak, repositories updated last month) reads the clock.\<close>

theorem analyze_profile_depends_on_clock:
  "analyze_profile ''octocat'' (ymd 2024 3 5) (ymd 2024 3 5) (Inr blank_user)
      (Inr [blank_repo\<lparr>r_updated_at := Some (ymd 2024 3 4)\<rparr>]) \<noteq>
   analyze_profile ''octocat'' (ymd 2024 3 20) (ymd 2024 3 5) (Inr blank_user)
      (Inr [blank_repo\<lparr>r_updated_at := Some (ymd 2024 3 4)\<rparr>])"
proof -
  let ?R = "[blank_repo\<lparr>r_updated_at := Some (ymd 2024 3 4)\<rparr>]"
  have s1: "estimate_streak (ymd 2024 3 5) ?R = 1"
    by (simp add: estimate_streak_def py_sorted_desc_def streak_repos_limit_def td_days_def
                  dt_total_us_def dt_toordinal_def days_before_year_def days_before_month_def
                  is_leap_def ymd_def blank_repo_def)
  have s2: "estimate_streak (ymd 2024 3 20) ?R = 0"
    by (simp add: estimate_streak_def py_sorted_desc_def streak_repos_limit_def td_days_def
                  dt_total_us_def dt_toordinal_def days_before_year_def days_before_month_def
                  is_leap_def ymd_def blank_repo_def)
  have t: "get_top_repositories ?R = Inr [repo_summary_of (blank_repo\<lparr>r_updated_at := Some (ymd 2024 3 4)\<rparr>) []]"
    by (simp add: get_top_repositories_def top_by_def py_sorted_desc_def top_repos_n_def blank_repo_def)
  show ?thesis
    using s1 s2 by (simp add: analyze_profile_def Let_def t get_contribution_summary_def)
qed

end
