(* ===== verification/Charts.thy ===== *)
theory Charts
  imports Profile
begin

text \<open>
  The chart generator (charts.py, class \<open>ChartGenerator\<close>).  Its state is the
  output directory: \<open>__init__\<close> starts at the base directory \<open>charts\<close>, and
  \<open>set_username\<close> moves it to \<open>os.path.join(base_dir, username)\<close>.  Each
  \<open>generate_*\<close> method returns \<open>None\<close> on empty input and otherwise the path of
  the PNG file it saves; \<open>generate_all_charts\<close> collects the non-\<open>None\<close> paths
  under the keys \<open>languages\<close>, \<open>stars\<close> and \<open>contributions\<close>.  The drawing
  (matplotlib calls) is not modelled; the data the heatmap plots is: the
  \<open>7 \<times> 24\<close> grid of (weekday, hour) cells, each top repository adding
  \<open>1 + (stars + forks) * 0.1\<close> (as an exact real) to the cell of its parsed
  \<open>updated_at\<close>, a parse failure being skipped by the bare \<open>except: pass\<close>.
  \<open>generate_repo_stats_chart\<close> is never called by \<open>generate_all_charts\<close>; its
  guard alone is modelled.
\<close>

section \<open>Paths\<close>

text \<open>\<open>posixpath.join(a, b)\<close> for two components, and \<open>posixpath.basename\<close>.\<close>

definition py_path_join :: "string \<Rightarrow> string \<Rightarrow> string" where
  "py_path_join a b =
     (if b \<noteq> [] \<and> hd b = CHR ''/'' then b
      else if a = [] \<or> last a = CHR ''/'' then a @ b
      else a @ ''/'' @ b)"

definition py_basename :: "string \<Rightarrow> string" where
  "py_basename p = rev (takeWhile (\<lambda>c. c \<noteq> CHR ''/'') (rev p))"

section \<open>The generator\<close>

record chart_generator =
  cg_base_dir :: string
  cg_username :: "string option"
  cg_output_dir :: string

text \<open>\<open>ChartGenerator()\<close> as main.py constructs it: no username.\<close>

definition chart_generator_init :: chart_generator where
  "chart_generator_init = \<lparr>cg_base_dir = ''charts'', cg_username = None, cg_output_dir = ''charts''\<rparr>"

definition set_username :: "chart_generator \<Rightarrow> string \<Rightarrow> chart_generator" where
  "set_username cg u = cg\<lparr>cg_username := Some u, cg_output_dir := py_path_join (cg_base_dir cg) u\<rparr>"

definition generate_language_chart :: "chart_generator \<Rightarrow> lang_stat list \<Rightarrow> string option" where
  "generate_language_chart cg langs =
     (if langs = [] then None else Some (py_path_join (cg_output_dir cg) ''languages.png''))"

definition generate_star_timeline :: "chart_generator \<Rightarrow> timeline_entry list \<Rightarrow> string option" where
  "generate_star_timeline cg timeline =
     (if timeline = [] then None else Some (py_path_join (cg_output_dir cg) ''stars.png''))"

definition generate_repo_stats_chart :: "chart_generator \<Rightarrow> repo_summary list \<Rightarrow> string option" where
  "generate_repo_stats_chart cg repos =
     (if repos = [] \<or> length repos < 2 then None
      else Some (py_path_join (cg_output_dir cg) ''repo_stats.png''))"

text \<open>The bars \<open>generate_repo_stats_chart\<close> draws: the first five repositories,
  names cut to 20 characters, with their stars and forks.\<close>

definition repo_stats_bars :: "repo_summary list \<Rightarrow> (string \<times> nat \<times> nat) list" where
  "repo_stats_bars repos = map (\<lambda>r. (take 20 (rs_name r), rs_stars r, rs_forks r)) (take 5 repos)"

section \<open>The heatmap data\<close>

type_synonym heat_grid = "nat \<times> nat \<Rightarrow> real"

text \<open>\<open>repo["updated_at"].replace('Z', '+00:00')\<close>.\<close>

definition replace_z :: "string \<Rightarrow> string" where
  "replace_z s = concat (map (\<lambda>c. if c = CHR ''Z'' then ''+00:00'' else [c]) s)"

definition heat_weight :: "repo_summary \<Rightarrow> real" where
  "heat_weight r = 1 + real (rs_stars r + rs_forks r) * (1 / 10)"

text \<open>The cell a repository lands in: none when \<open>updated_at\<close> is empty or fails
  to parse.\<close>

definition heat_cell :: "repo_summary \<Rightarrow> (nat \<times> nat) option" where
  "heat_cell r =
     (if rs_updated_at r = [] then None
      else map_option (\<lambda>t. (dt_weekday t, dt_hour t)) (iso_parse (replace_z (rs_updated_at r))))"

definition heat_add :: "heat_grid \<Rightarrow> repo_summary \<Rightarrow> heat_grid" where
  "heat_add h r = (case heat_cell r of None \<Rightarrow> h | Some c \<Rightarrow> h(c := h c + heat_weight r))"

definition heat_counts :: "repo_summary list \<Rightarrow> heat_grid" where
  "heat_counts repos = foldl heat_add (\<lambda>_. 0) repos"

definition heat_cells :: "(nat \<times> nat) list" where
  "heat_cells = List.product [0..<7] [0..<24]"

text \<open>What is drawn: the smoothed grid when \<open>data.max() > 0\<close>, the constant
  placeholder \<open>np.ones((7, 24)) * 0.5\<close> otherwise.\<close>

datatype heatmap = Smoothed heat_grid | Placeholder

definition heatmap_data :: "repo_summary list \<Rightarrow> heatmap" where
  "heatmap_data repos =
     (let h = heat_counts repos in
      if (\<exists>c \<in> set heat_cells. 0 < h c) then Smoothed h else Placeholder)"

definition generate_contribution_heatmap :: "chart_generator \<Rightarrow> profile \<Rightarrow> string option" where
  "generate_contribution_heatmap cg p =
     (if pf_top_repositories p = [] then None
      else Some (py_path_join (cg_output_dir cg) ''contributions.png''))"

definition generate_all_charts :: "chart_generator \<Rightarrow> profile \<Rightarrow> (string \<times> string) list" where
  "generate_all_charts cg p =
     (case (if pf_top_languages p \<noteq> [] then generate_language_chart cg (pf_top_languages p) else None)
        of None \<Rightarrow> [] | Some path \<Rightarrow> [(''languages'', path)])
     @ (case (let timeline = cb_star_timeline (pf_contribution_summary p) in
              if timeline \<noteq> [] then generate_star_timeline cg timeline else None)
        of None \<Rightarrow> [] | Some path \<Rightarrow> [(''stars'', path)])
     @ (case generate_contribution_heatmap cg p of None \<Rightarrow> [] | Some path \<Rightarrow> [(''contributions'', path)])"

section \<open>Lemmas\<close>

lemma replace_z_id: "CHR ''Z'' \<notin> set s \<Longrightarrow> replace_z s = s"
  by (induction s) (auto simp: replace_z_def)

lemma z_notin_dec_digits: "CHR ''Z'' \<notin> set (dec_digits w n)"
  using iso_digits_dec_digits [of w n] by (auto simp: iso_digits_def list_all_iff less_eq_char_def)

lemma z_notin_isoformat: "CHR ''Z'' \<notin> set (dt_isoformat d)"
  by (simp add: dt_isoformat_def z_notin_dec_digits)

lemma dt_isoformat_nonempty: "dt_isoformat d \<noteq> []"
  by (simp add: dt_isoformat_def)

text \<open>The loop of \<open>generate_contribution_heatmap\<close> as a sum: a cell holds the
  weights of the repositories that land in it.\<close>

lemma foldl_heat_add:
  "foldl heat_add h rs c = h c + sum_list (map heat_weight (filter (\<lambda>r. heat_cell r = Some c) rs))"
  by (induction rs arbitrary: h) (auto simp: heat_add_def split: option.splits)

lemma heat_counts_sum:
  "heat_counts rs c = sum_list (map heat_weight (filter (\<lambda>r. heat_cell r = Some c) rs))"
  by (simp add: heat_counts_def foldl_heat_add)

text \<open>A summary built from a repository whose update time is valid lands in the
  cell of that time: \<open>isoformat\<close> followed by \<open>fromisoformat\<close> is the identity.\<close>

lemma heat_cell_repo_summary_of:
  assumes "\<forall>u. r_updated_at r = Some u \<longrightarrow> dt_valid u"
  shows "heat_cell (repo_summary_of r ts) = map_option (\<lambda>t. (dt_weekday t, dt_hour t)) (r_updated_at r)"
  using assms
  by (cases "r_updated_at r")
     (simp_all add: heat_cell_def repo_summary_of_def iso_or_empty_def dt_isoformat_nonempty
                    replace_z_id z_notin_isoformat iso_parse_isoformat)

lemma heat_weight_repo_summary_of:
  "heat_weight (repo_summary_of r ts) = 1 + real (r_stargazers_count r + r_forks_count r) * (1 / 10)"
  by (simp add: heat_weight_def repo_summary_of_def)

lemma heat_weight_pos: "0 < heat_weight r"
  by (simp add: heat_weight_def add_pos_nonneg)

text \<open>Which charts a successful analysis yields: each of the three guards of
  \<open>generate_all_charts\<close> read back on the analyzer's data.\<close>

lemma keys_add_credits: "fst ` set (add_credits c ls) = fst ` set c \<union> fst ` set ls"
  unfolding add_credits_def by (induction ls arbitrary: c) (auto simp: keys_counter_add)

lemma keys_count_languages:
  "fst ` set (count_languages repos) = (\<Union>r \<in> set repos. fst ` set (language_credits r))"
proof -
  have "fst ` set (foldl (\<lambda>c r. add_credits c (language_credits r)) c rs) =
        fst ` set c \<union> (\<Union>r \<in> set rs. fst ` set (language_credits r))" for c rs
    by (induction rs arbitrary: c) (auto simp: keys_add_credits)
  then show ?thesis by (simp add: count_languages_def)
qed

lemma get_top_languages_Nil_iff:
  "get_top_languages repos = [] \<longleftrightarrow> (\<forall>r \<in> set repos. language_credits r = [])"
proof -
  have c: "count_languages repos = [] \<longleftrightarrow> fst ` set (count_languages repos) = {}" by simp
  have sk: "sort_key (\<lambda>kv. - int (snd kv)) (count_languages repos) = [] \<longleftrightarrow> count_languages repos = []"
    by (metis length_0_conv length_sort)
  show ?thesis
    by (simp add: get_top_languages_def Let_def most_common_def top_languages_n_def sk c
                  keys_count_languages)
qed

lemma star_items_Nil_iff_exists:
  "star_items repos = [] \<longleftrightarrow> \<not> (\<exists>r \<in> set repos. r_created_at r \<noteq> None \<and> 0 < r_stargazers_count r)"
  by (auto simp: star_items_def repo_star_item_def split: option.splits)

lemma analyze_profile_Inr_charts_fields:
  assumes "analyze_profile u now an ur (Inr repos) = Inr p"
  shows "pf_top_languages p = get_top_languages repos
         \<and> cb_star_timeline (pf_contribution_summary p) = get_star_timeline repos
         \<and> (pf_top_repositories p = [] \<longleftrightarrow> repos = [])"
proof -
  obtain top where top: "get_top_repositories repos = Inr top" "pf_top_repositories p = top"
    using assms by (auto simp: analyze_profile_def Let_def split: sum.splits)
  have "length top = min 5 (length repos)"
    using top_repositories_Inr [OF top(1)] length_top_by [of r_stargazers_count top_repos_n repos]
    by (simp add: top_repos_n_def)
  then have "top = [] \<longleftrightarrow> repos = []" by (cases repos) auto
  moreover have "pf_top_languages p = get_top_languages repos"
    using assms by (auto simp: analyze_profile_def Let_def split: sum.splits)
  moreover have "cb_star_timeline (pf_contribution_summary p) = get_star_timeline repos"
    using assms by (auto simp: analyze_profile_def Let_def get_contribution_summary_def split: sum.splits)
  ultimately show ?thesis using top(2) by simp
qed

lemma generate_all_charts_keys:
  "map fst (generate_all_charts g p) =
     (if pf_top_languages p \<noteq> [] then [''languages''] else [])
     @ (if cb_star_timeline (pf_contribution_summary p) \<noteq> [] then [''stars''] else [])
     @ (if pf_top_repositories p \<noteq> [] then [''contributions''] else [])"
  by (simp add: generate_all_charts_def generate_language_chart_def generate_star_timeline_def
                generate_contribution_heatmap_def Let_def)

text \<open>C3: the heatmap grid of a profile counts, in each (weekday, hour) cell, the
  weight \<open>1 + (stars + forks) / 10\<close> of exactly those top repositories (the five
  most-starred) whose last update falls in that weekday and hour: the
  \<open>isoformat()\<close> string written by the analyzer is parsed back by
  \<open>fromisoformat\<close> to the same time, so no repository is lost or misplaced.\<close>

theorem heatmap_cells:
  assumes "get_top_repositories repos = Inr out"
    and "\<forall>r \<in> set repos. \<forall>u. r_updated_at r = Some u \<longrightarrow> dt_valid u"
  shows "heat_counts out c =
         sum_list (map (\<lambda>r. 1 + real (r_stargazers_count r + r_forks_count r) * (1 / 10))
           (filter (\<lambda>r. map_option (\<lambda>t. (dt_weekday t, dt_hour t)) (r_updated_at r) = Some c)
             (top_by r_stargazers_count top_repos_n repos)))"
proof -
  let ?top = "top_by r_stargazers_count top_repos_n repos"
  let ?f = "\<lambda>r. repo_summary_of r (projr (r_get_topics r))"
  have out: "out = map ?f ?top"
    using assms(1) by (simp add: get_top_repositories_def summarize_repos_Inr)
  have "filter (\<lambda>r. heat_cell (?f r) = Some c) ?top =
        filter (\<lambda>r. map_option (\<lambda>t. (dt_weekday t, dt_hour t)) (r_updated_at r) = Some c) ?top"
  proof (rule filter_cong)
    fix r assume "r \<in> set ?top"
    then have "r \<in> set repos" using set_top_by [of r_stargazers_count top_repos_n repos] by blast
    then show "(heat_cell (?f r) = Some c) =
               (map_option (\<lambda>t. (dt_weekday t, dt_hour t)) (r_updated_at r) = Some c)"
      using assms(2) by (simp add: heat_cell_repo_summary_of)
  qed simp
  then show ?thesis
    by (simp add: out heat_counts_sum filter_map comp_def heat_weight_repo_summary_of)
qed

theorem heatmap_cells_witness:
  "get_top_repositories [blank_repo\<lparr>r_stargazers_count := 3, r_forks_count := 2,
                                      r_updated_at := Some (ymd 2024 1 15)\<rparr>] =
     Inr [repo_summary_of (blank_repo\<lparr>r_stargazers_count := 3, r_forks_count := 2,
                                      r_updated_at := Some (ymd 2024 1 15)\<rparr>) []]
   \<and> heat_counts [repo_summary_of (blank_repo\<lparr>r_stargazers_count := 3, r_forks_count := 2,
                                      r_updated_at := Some (ymd 2024 1 15)\<rparr>) []] (0, 0) = 3 / 2"
proof -
  let ?r = "blank_repo\<lparr>r_stargazers_count := 3, r_forks_count := 2, r_updated_at := Some (ymd 2024 1 15)\<rparr>"
  have top: "top_by r_stargazers_count top_repos_n [?r] = [?r]"
    by (simp add: top_by_def py_sorted_desc_def top_repos_n_def)
  have g: "get_top_repositories [?r] = Inr [repo_summary_of ?r []]"
    unfolding get_top_repositories_def top by (simp add: blank_repo_def)
  have v: "\<forall>r \<in> set [?r]. \<forall>u. r_updated_at r = Some u \<longrightarrow> dt_valid u"
    by (simp add: dt_valid_def ymd_def days_in_month_def is_leap_def)
  have wd: "dt_weekday (ymd 2024 (Suc 0) 15) = 0" "dt_hour (ymd 2024 (Suc 0) 15) = 0"
    by (simp_all add: dt_weekday_def dt_toordinal_def ymd_def days_before_year_def
                      days_before_month_def is_leap_def)
  show ?thesis
    using heatmap_cells [OF g v, of "(0, 0)"] unfolding g top by (simp add: wd)
qed

text \<open>C28: the charts of a successful analysis: the language pie exactly when
  some repository is credited a language, the star timeline exactly when some dated
  repository has a star, and the heatmap exactly when the user has a repository;
  in that order.  The guards of \<open>generate_all_charts\<close> and of each
  \<open>generate_*\<close> method agree with what the analyzer computed.\<close>

theorem profile_charts:
  assumes "analyze_profile u now an ur (Inr repos) = Inr p" and "dates_valid repos"
  shows "map fst (generate_all_charts g p) =
           (if \<exists>r \<in> set repos. language_credits r \<noteq> [] then [''languages''] else [])
           @ (if \<exists>r \<in> set repos. r_created_at r \<noteq> None \<and> 0 < r_stargazers_count r
              then [''stars''] else [])
           @ (if repos \<noteq> [] then [''contributions''] else [])"
  using analyze_profile_Inr_charts_fields [OF assms(1)]
  by (simp add: generate_all_charts_keys get_top_languages_Nil_iff
                get_star_timeline_Nil_iff [OF assms(2)] star_items_Nil_iff_exists)

theorem profile_charts_witness:
  "analyze_profile ''octocat'' (ymd 2024 3 5) (ymd 2024 3 5) (Inr blank_user)
      (Inr [blank_repo\<lparr>r_language := Some ''Python'', r_get_languages := Inr [(''Python'', 10)]\<rparr>]) =
     Inr (projr (analyze_profile ''octocat'' (ymd 2024 3 5) (ymd 2024 3 5) (Inr blank_user)
      (Inr [blank_repo\<lparr>r_language := Some ''Python'', r_get_languages := Inr [(''Python'', 10)]\<rparr>])))
   \<and> dates_valid [blank_repo\<lparr>r_language := Some ''Python'', r_get_languages := Inr [(''Python'', 10)]\<rparr>]
   \<and> map fst (generate_all_charts chart_generator_init
       (projr (analyze_profile ''octocat'' (ymd 2024 3 5) (ymd 2024 3 5) (Inr blank_user)
         (Inr [blank_repo\<lparr>r_language := Some ''Python'', r_get_languages := Inr [(''Python'', 10)]\<rparr>]))))
     = [''languages'', ''contributions'']"
proof -
  let ?r = "blank_repo\<lparr>r_language := Some ''Python'', r_get_languages := Inr [(''Python'', 10)]\<rparr>"
  let ?res = "analyze_profile ''octocat'' (ymd 2024 3 5) (ymd 2024 3 5) (Inr blank_user) (Inr [?r])"
  have top: "top_by r_stargazers_count top_repos_n [?r] = [?r]"
    by (simp add: top_by_def py_sorted_desc_def top_repos_n_def)
  have g: "get_top_repositories [?r] = Inr [repo_summary_of ?r []]"
    unfolding get_top_repositories_def top by (simp add: blank_repo_def)
  have res: "?res = Inr (projr ?res)"
    by (simp only: analyze_profile_def Let_def sum.case g sum.sel)
  have dv: "dates_valid [?r]" by (simp add: dates_valid_def blank_repo_def)
  show ?thesis
    using res dv profile_charts [OF res dv, of chart_generator_init]
    by (simp add: language_credits_def blank_repo_def)
qed

end
