(* ===== verification/Server.thy ===== *)
theory Server
  imports Charts
begin

text \<open>
  The HTTP service (main.py): a FastAPI application whose state is the
  \<open>data/\<close> directory of JSON profile files, the \<open>charts/\<close> directory of PNG
  files, and the module-level \<open>ChartGenerator\<close>.  The model's state is the record
  \<open>server\<close>: the stored JSON documents keyed by file path (\<open>json.dump\<close> then
  \<open>json.load\<close> is taken to be the identity on the profile dictionary), the set of
  chart file paths, the generator, whether \<open>GITHUB_TOKEN\<close> is set, and the number
  of 0.1-second sleeps the chart-wait loop has performed.  Each endpoint is a
  function of the state and the request's inputs; \<open>serve\<close> dispatches a request
  and returns the new state and the response, and \<open>run\<close> serves a sequence of
  requests one after the other, as the single-worker server does.  The outcome of
  \<open>analyzer.analyze_profile(username)\<close> (the GitHub data and the clock) is part
  of the analysis request; Profile.analyze_profile computes it.  The clock read by
  \<open>GET /data/{username}\<close> is part of that request.  An \<open>HTTPException\<close> is the
  response \<open>Http_Error status detail\<close>.
\<close>

record stored_doc =
  doc_profile :: profile
  doc_charts :: "(string \<times> string) list"

record server =
  srv_token_configured :: bool
  srv_generator :: chart_generator
  srv_data :: "string \<Rightarrow> stored_doc option"
  srv_charts :: "string set"
  srv_polls :: nat

datatype detail = No_Profile_Data | Cache_Expired string | No_User_Data string
  | Chart_Not_Found | Analysis_Failed analysis_error | Bad_Timestamp

datatype response = Analyzed string stored_doc | Data stored_doc | Chart_File string
  | Cleared | Api_Info | Health_Info bool | Http_Error nat detail

datatype request = Analyze_Get string "analysis_error + profile"
  | Analyze_Post string "analysis_error + profile"
  | Get_Data | Get_User_Data string bool py_datetime | Get_Chart string string
  | Clear_Data | Root | Health

definition server_init :: "bool \<Rightarrow> server" where
  "server_init tok = \<lparr>srv_token_configured = tok, srv_generator = chart_generator_init,
     srv_data = Map.empty, srv_charts = {}, srv_polls = 0\<rparr>"

definition data_file :: "string \<Rightarrow> string" where
  "data_file u = ''data/'' @ u @ ''.json''"

definition default_file :: string where
  "default_file = ''data/profile.json''"

definition chart_path :: "string \<Rightarrow> string \<Rightarrow> string" where
  "chart_path u name = py_path_join (py_path_join ''charts'' u) name"

section \<open>The chart-wait loop\<close>

text \<open>\<open>while not os.path.exists(chart_path) and waited < max_wait\<close>, with
  \<open>waited\<close> counting the sleeps.  The file system's answer to \<open>os.path.exists\<close> may
  change while the loop sleeps (another process may write the file), so it is an
  input: \<open>exists k\<close> is the answer at the \<open>k\<close>-th poll.  In floating point,
  \<open>waited\<close> after k additions of 0.1 is below 5 exactly for k \<le> 50 (fifty
  additions give 4.999999999999998, checked with CPython), so the condition
  \<open>waited < max_wait\<close> reads \<open>k < 51\<close>: this constant is the one number of the
  model computed outside the logic.\<close>

definition max_wait_polls :: nat where
  "max_wait_polls = 51"

function wait_chart :: "(nat \<Rightarrow> bool) \<Rightarrow> nat \<Rightarrow> nat" where
  "wait_chart exists waited =
     (if \<not> exists waited \<and> waited < max_wait_polls then wait_chart exists (Suc waited) else waited)"
  by pat_completeness auto
termination
  by (relation "measure (\<lambda>(_, waited). max_wait_polls - waited)") (auto simp: max_wait_polls_def)

declare wait_chart.simps [simp del]

section \<open>Endpoints\<close>

text \<open>\<open>profile_data["charts"]\<close>: the URL of each chart under the user's folder.\<close>

definition chart_links :: "string \<Rightarrow> (string \<times> string) list \<Rightarrow> (string \<times> string) list" where
  "chart_links u charts = map (\<lambda>(name, path). (name, ''/charts/'' @ u @ ''/'' @ py_basename path)) charts"

text \<open>\<open>analyze_and_save\<close>: an analysis failure is the \<open>HTTPException(500)\<close> it
  raises, and nothing is written; otherwise the charts are generated in the user's
  folder, each is waited for, and the document is written to \<open>data/{username}.json\<close>.\<close>

definition analyze_and_save ::
  "server \<Rightarrow> string \<Rightarrow> analysis_error + profile \<Rightarrow> server \<times> (analysis_error + stored_doc)" where
  "analyze_and_save s u res =
     (case res of
        Inl e \<Rightarrow> (s, Inl e)
      | Inr p \<Rightarrow>
          (let g = set_username (srv_generator s) u;
               charts = generate_all_charts g p;
               files = srv_charts s \<union> set (map snd charts);
               polls = sum_list (map (\<lambda>(_, path). wait_chart (\<lambda>_. path \<in> files) 0) charts);
               doc = \<lparr>doc_profile = p, doc_charts = chart_links u charts\<rparr>
           in (s\<lparr>srv_generator := g, srv_charts := files, srv_polls := srv_polls s + polls,
                 srv_data := (srv_data s)(data_file u \<mapsto> doc)\<rparr>, Inr doc)))"

text \<open>\<open>GET /analyze/{username}\<close> and \<open>POST /analyze\<close>: both re-raise any
  exception as \<open>HTTPException(500)\<close>.\<close>

definition analyze_endpoint :: "server \<Rightarrow> string \<Rightarrow> analysis_error + profile \<Rightarrow> server \<times> response" where
  "analyze_endpoint s u res =
     (case analyze_and_save s u res of
        (s', Inl e) \<Rightarrow> (s', Http_Error 500 (Analysis_Failed e))
      | (s', Inr doc) \<Rightarrow> (s', Analyzed u doc))"

definition get_data :: "server \<Rightarrow> response" where
  "get_data s = (case srv_data s default_file of
                   None \<Rightarrow> Http_Error 404 No_Profile_Data
                 | Some d \<Rightarrow> Data d)"

text \<open>\<open>age < timedelta(hours=24)\<close>, compared in microseconds.\<close>

definition day_us :: int where
  "day_us = 24 * 3600 * 1000000"

definition is_fresh :: "py_datetime \<Rightarrow> py_datetime \<Rightarrow> bool" where
  "is_fresh now t \<longleftrightarrow> dt_total_us now - dt_total_us t < day_us"

text \<open>The age check on a loaded document: \<open>fromisoformat\<close> raising is the
  \<open>except Exception\<close> clause's 500; a stale document gives \<open>stale\<close>.  Every
  stored document has an \<open>analyzed_at\<close> key (\<open>analyze_profile\<close> always writes
  one), so the code's branch for a document without it (line 250, returned
  unchecked) is not modelled; nor is a \<open>json.load\<close> failure.\<close>

definition cached_lookup :: "stored_doc \<Rightarrow> py_datetime \<Rightarrow> response \<Rightarrow> response" where
  "cached_lookup d now stale =
     (case iso_parse (pf_analyzed_at (doc_profile d)) of
        None \<Rightarrow> Http_Error 500 Bad_Timestamp
      | Some t \<Rightarrow> if is_fresh now t then Data d else stale)"

definition get_user_data :: "server \<Rightarrow> string \<Rightarrow> bool \<Rightarrow> py_datetime \<Rightarrow> response" where
  "get_user_data s u force now =
     (case (if force then None else srv_data s (data_file u)) of
        Some d \<Rightarrow> cached_lookup d now (Http_Error 404 (Cache_Expired u))
      | None \<Rightarrow>
          (case (if force then None else srv_data s default_file) of
             Some d \<Rightarrow>
               if pf_username (doc_profile d) = u
               then cached_lookup d now (Http_Error 404 (No_User_Data u))
               else Http_Error 404 (No_User_Data u)
           | None \<Rightarrow> Http_Error 404 (No_User_Data u)))"

text \<open>\<open>GET /charts/{username}/{chart_name}\<close>.  The \<open>StaticFiles\<close> mount at
  \<open>/charts\<close> is registered first and answers the same paths from the same
  directory, with the same outcome: the file, or 404.\<close>

definition get_chart :: "server \<Rightarrow> string \<Rightarrow> string \<Rightarrow> response" where
  "get_chart s u name =
     (if chart_path u name \<in> srv_charts s then Chart_File (chart_path u name)
      else Http_Error 404 Chart_Not_Found)"

text \<open>\<open>os.listdir("charts")\<close> filtered by \<open>os.path.isfile\<close>: the files directly
  in \<open>charts/\<close>, not those in a user's folder.\<close>

definition top_level_chart :: "string \<Rightarrow> bool" where
  "top_level_chart p \<longleftrightarrow> take 7 p = ''charts/'' \<and> drop 7 p \<noteq> [] \<and> CHR ''/'' \<notin> set (drop 7 p)"

definition clear_data :: "server \<Rightarrow> server" where
  "clear_data s = s\<lparr>srv_data := (srv_data s)(default_file := None),
                     srv_charts := Set.filter (\<lambda>p. \<not> top_level_chart p) (srv_charts s)\<rparr>"

definition serve :: "server \<Rightarrow> request \<Rightarrow> server \<times> response" where
  "serve s req =
     (case req of
        Analyze_Get u res \<Rightarrow> analyze_endpoint s u res
      | Analyze_Post u res \<Rightarrow> analyze_endpoint s u res
      | Get_Data \<Rightarrow> (s, get_data s)
      | Get_User_Data u force now \<Rightarrow> (s, get_user_data s u force now)
      | Get_Chart u name \<Rightarrow> (s, get_chart s u name)
      | Clear_Data \<Rightarrow> (clear_data s, Cleared)
      | Root \<Rightarrow> (s, Api_Info)
      | Health \<Rightarrow> (s, Health_Info (srv_token_configured s)))"

fun run :: "server \<Rightarrow> request list \<Rightarrow> server" where
  "run s [] = s"
| "run s (r # rs) = run (fst (serve s r)) rs"

inductive reachable :: "server \<Rightarrow> bool" where
  init: "reachable (server_init tok)"
| step: "reachable s \<Longrightarrow> reachable (fst (serve s req))"

text \<open>The successful analysis a request carries, and whether a request can
  replace or delete the cached file of a user.\<close>

fun analysis_of :: "request \<Rightarrow> (string \<times> profile) option" where
  "analysis_of (Analyze_Get u (Inr p)) = Some (u, p)"
| "analysis_of (Analyze_Post u (Inr p)) = Some (u, p)"
| "analysis_of _ = None"

definition touches_cache :: "string \<Rightarrow> request \<Rightarrow> bool" where
  "touches_cache u r \<longleftrightarrow>
     (case analysis_of r of Some (v, _) \<Rightarrow> v = u | None \<Rightarrow> r = Clear_Data \<and> data_file u = default_file)"

text \<open>The files \<open>generate_all_charts\<close> can write, and the usernames that are GitHub
  logins (non-empty, no slash), whose chart folder is a subdirectory of \<open>charts/\<close>.\<close>

definition chart_names :: "string list" where
  "chart_names = [''languages.png'', ''stars.png'', ''contributions.png'']"

text \<open>A request whose analysis, if it carries one, has an \<open>analyzed_at\<close>
  timestamp that \<open>fromisoformat\<close> reads.\<close>

definition stamp_ok :: "request \<Rightarrow> bool" where
  "stamp_ok r \<longleftrightarrow> (case analysis_of r of None \<Rightarrow> True | Some (_, p) \<Rightarrow> iso_parse (pf_analyzed_at p) \<noteq> None)"

definition safe_user :: "string \<Rightarrow> bool" where
  "safe_user u \<longleftrightarrow> u \<noteq> [] \<and> CHR ''/'' \<notin> set u"

section \<open>Lemmas\<close>


lemma wait_chart_closed:
  "wait_chart (\<lambda>_. p \<in> files) w = (if p \<in> files then w else max w max_wait_polls)"
proof (induction "\<lambda>_::nat. p \<in> files" w rule: wait_chart.induct)
  case (1 waited)
  then show ?case by (subst wait_chart.simps) (auto simp: max_wait_polls_def)
qed

lemma data_file_inj: "data_file u = data_file v \<longleftrightarrow> u = v"
  by (simp add: data_file_def)

lemma data_file_default: "data_file u = default_file \<longleftrightarrow> u = ''profile''"
  by (auto simp: data_file_def default_file_def)

lemma analyze_and_save_Inl: "analyze_and_save s u (Inl e) = (s, Inl e)"
  by (simp add: analyze_and_save_def)

lemma analyze_and_save_Inr:
  "analyze_and_save s u (Inr p) =
     (let charts = generate_all_charts (set_username (srv_generator s) u) p;
          doc = \<lparr>doc_profile = p, doc_charts = chart_links u charts\<rparr>
      in (s\<lparr>srv_generator := set_username (srv_generator s) u,
            srv_charts := srv_charts s \<union> set (map snd charts),
            srv_data := (srv_data s)(data_file u \<mapsto> doc)\<rparr>, Inr doc))"
proof -
  have z: "set (map snd cs) \<subseteq> G \<Longrightarrow> (\<Sum>(_, path)\<leftarrow>cs. wait_chart (\<lambda>_. path \<in> G) 0) = 0"
    for cs :: "(string \<times> string) list" and G
    by (induction cs) (auto simp: wait_chart_closed)
  have "s\<lparr>srv_polls := srv_polls s + 0\<rparr> = s" by simp
  then show ?thesis unfolding analyze_and_save_def Let_def sum.case z [OF Un_upper2] by simp
qed

text \<open>The document an analysis of \<open>u\<close> stores.\<close>

lemma serve_analysis:
  assumes "analysis_of r = Some (u, p)"
  shows "serve s r =
     (let charts = generate_all_charts (set_username (srv_generator s) u) p;
          doc = \<lparr>doc_profile = p, doc_charts = chart_links u charts\<rparr>
      in (s\<lparr>srv_generator := set_username (srv_generator s) u,
            srv_charts := srv_charts s \<union> set (map snd charts),
            srv_data := (srv_data s)(data_file u \<mapsto> doc)\<rparr>, Analyzed u doc))"
  using assms
  by (cases r rule: analysis_of.cases)
     (simp_all add: serve_def analyze_endpoint_def analyze_and_save_Inr Let_def)

lemma serve_no_analysis:
  assumes "analysis_of r = None"
  shows "fst (serve s r) = (if r = Clear_Data then clear_data s else s)"
  using assms
  by (cases r rule: analysis_of.cases)
     (simp_all add: serve_def analyze_endpoint_def analyze_and_save_Inl)

lemma serve_polls: "srv_polls (fst (serve s r)) = srv_polls s"
  by (cases "analysis_of r")
     (auto simp: serve_analysis serve_no_analysis clear_data_def Let_def)

lemma serve_data_untouched:
  "\<not> touches_cache u r \<Longrightarrow> srv_data (fst (serve s r)) (data_file u) = srv_data s (data_file u)"
  by (cases "analysis_of r")
     (auto simp: touches_cache_def serve_analysis serve_no_analysis clear_data_def Let_def data_file_inj)

lemma run_data_untouched:
  "\<forall>r \<in> set rs. \<not> touches_cache u r \<Longrightarrow> srv_data (run s rs) (data_file u) = srv_data s (data_file u)"
  by (induction rs arbitrary: s) (simp_all add: serve_data_untouched)

lemma serve_data_origin:
  assumes "srv_data (fst (serve s r)) f = Some d"
  shows "srv_data s f = Some d \<or> (\<exists>u. analysis_of r = Some (u, doc_profile d) \<and> data_file u = f)"
  using assms
  by (cases "analysis_of r")
     (auto simp: serve_analysis serve_no_analysis clear_data_def Let_def split: if_splits)

lemma run_data_origin:
  assumes "srv_data (run s rs) f = Some d"
  shows "srv_data s f = Some d \<or>
         (\<exists>xs r ys u. rs = xs @ r # ys \<and> analysis_of r = Some (u, doc_profile d) \<and> data_file u = f)"
  using assms
proof (induction rs arbitrary: s)
  case Nil
  then show ?case by simp
next
  case (Cons r rs)
  from Cons.IH [of "fst (serve s r)"] Cons.prems
  consider "srv_data (fst (serve s r)) f = Some d"
    | "\<exists>xs r' ys u. rs = xs @ r' # ys \<and> analysis_of r' = Some (u, doc_profile d) \<and> data_file u = f"
    by auto
  then show ?case
  proof cases
    case 1
    then show ?thesis using serve_data_origin [OF 1] by (metis append_Nil)
  next
    case 2
    then show ?thesis by (metis append_Cons)
  qed
qed



lemma generate_all_charts_paths:
  "(n, path) \<in> set (generate_all_charts g p) \<Longrightarrow>
   \<exists>f \<in> set chart_names. path = py_path_join (cg_output_dir g) f"
  by (auto simp: generate_all_charts_def generate_language_chart_def generate_star_timeline_def
                 generate_contribution_heatmap_def chart_names_def Let_def split: if_splits)

lemma py_path_join_charts_safe: "safe_user u \<Longrightarrow> py_path_join ''charts'' u = ''charts/'' @ u"
  by (cases u) (auto simp: safe_user_def py_path_join_def)

lemma chart_path_safe:
  assumes "safe_user u" "f \<in> set chart_names"
  shows "chart_path u f = ''charts/'' @ u @ ''/'' @ f"
proof -
  have "u \<noteq> []" "CHR ''/'' \<notin> set u" using assms(1) by (auto simp: safe_user_def)
  have "last u \<in> set u" using \<open>u \<noteq> []\<close> by (rule last_in_set)
  then have "last u \<noteq> CHR ''/''" using \<open>CHR ''/'' \<notin> set u\<close> by (cases "last u = CHR ''/''") simp_all
  then have "last (''charts/'' @ u) \<noteq> CHR ''/''" using \<open>u \<noteq> []\<close> by simp
  then show ?thesis using assms(2)
    unfolding chart_path_def py_path_join_charts_safe [OF assms(1)]
    by (auto simp: py_path_join_def chart_names_def)
qed

lemma py_basename_slash:
  assumes "CHR ''/'' \<notin> set f"
  shows "py_basename (a @ ''/'' @ f) = f"
proof -
  have "takeWhile (\<lambda>c. c \<noteq> CHR ''/'') (rev f @ CHR ''/'' # rev a) = rev f"
    using assms by (subst takeWhile_append2) auto
  then show ?thesis by (simp add: py_basename_def)
qed

lemma chart_names_no_slash: "f \<in> set chart_names \<Longrightarrow> CHR ''/'' \<notin> set f"
  by (auto simp: chart_names_def)

lemma user_chart_not_top_level: "u \<noteq> [] \<Longrightarrow> \<not> top_level_chart (''charts/'' @ u @ ''/'' @ f)"
  by (simp add: top_level_chart_def)

lemma reachable_base_dir: "reachable s \<Longrightarrow> cg_base_dir (srv_generator s) = ''charts''"
proof (induction rule: reachable.induct)
  case (init tok)
  then show ?case by (simp add: server_init_def chart_generator_init_def)
next
  case (step s req)
  then show ?case
    by (cases "analysis_of req")
       (auto simp: serve_analysis serve_no_analysis clear_data_def set_username_def Let_def)
qed

text \<open>The invariant behind the chart links: every link of the document cached for a
  user names one of the three chart files in that user's folder, and the file exists.\<close>

lemma reachable_links:
  assumes "reachable s"
  shows "safe_user u \<Longrightarrow> srv_data s (data_file u) = Some d \<Longrightarrow> (n, l) \<in> set (doc_charts d) \<Longrightarrow>
         \<exists>f \<in> set chart_names. l = ''/charts/'' @ u @ ''/'' @ f \<and> chart_path u f \<in> srv_charts s"
  using assms
proof (induction arbitrary: d n l rule: reachable.induct)
  case (init tok)
  then show ?case by (simp add: server_init_def)
next
  case (step s req)
  show ?case
  proof (cases "analysis_of req")
    case None
    then have s': "fst (serve s req) = (if req = Clear_Data then clear_data s else s)"
      by (rule serve_no_analysis)
    have "srv_data s (data_file u) = Some d"
      using step.prems(2) by (simp add: s' clear_data_def split: if_splits)
    from step.IH [OF step.prems(1) this step.prems(3)] obtain f where
      f: "f \<in> set chart_names" "l = ''/charts/'' @ u @ ''/'' @ f" "chart_path u f \<in> srv_charts s"
      by blast
    have cp: "chart_path u f = ''charts/'' @ u @ ''/'' @ f"
      using step.prems(1) f(1) by (rule chart_path_safe)
    have "u \<noteq> []" using step.prems(1) by (simp add: safe_user_def)
    then have "\<not> top_level_chart (chart_path u f)"
      unfolding cp by (rule user_chart_not_top_level)
    with f show ?thesis by (auto simp: s' clear_data_def)
  next
    case (Some a)
    then obtain v p where a: "analysis_of req = Some (v, p)" by (cases a) auto
    let ?g = "set_username (srv_generator s) v"
    show ?thesis
    proof (cases "v = u")
      case True
      have base: "cg_output_dir ?g = py_path_join ''charts'' u"
        using reachable_base_dir [OF step.hyps] True by (simp add: set_username_def)
      from step.prems(2,3) obtain path where
        path: "(n, path) \<in> set (generate_all_charts ?g p)" "l = ''/charts/'' @ u @ ''/'' @ py_basename path"
        by (auto simp: serve_analysis [OF a] Let_def True chart_links_def)
      from generate_all_charts_paths [OF path(1)] obtain f where
        f: "f \<in> set chart_names" "path = chart_path u f"
        by (auto simp: base chart_path_def)
      have "path = (''charts/'' @ u) @ ''/'' @ f"
        using f chart_path_safe [OF step.prems(1) f(1)] by simp
      then have "py_basename path = f"
        by (simp only: py_basename_slash [OF chart_names_no_slash [OF f(1)]])
      with f path show ?thesis
        by (force simp: serve_analysis [OF a] Let_def True)
    next
      case False
      then have "srv_data s (data_file u) = Some d"
        using step.prems(2) by (simp add: serve_analysis [OF a] Let_def data_file_inj)
      from step.IH [OF step.prems(1) this step.prems(3)] show ?thesis
        by (auto simp: serve_analysis [OF a] Let_def)
    qed
  qed
qed


lemma analyze_profile_analyzed_at:
  "analyze_profile u now analyzed ur rr = Inr p \<Longrightarrow> pf_analyzed_at p = dt_isoformat analyzed"
  by (auto simp: analyze_profile_def Let_def split: sum.splits)

lemma serve_analyze_get_ok:
  assumes "serve s (Analyze_Get u res) = (s1, Analyzed v doc)"
  shows "res = Inr (doc_profile doc) \<and> srv_data s1 (data_file u) = Some doc"
  using assms
  by (cases res) (auto simp: serve_def analyze_endpoint_def analyze_and_save_Inl analyze_and_save_Inr Let_def)

lemma get_data_Data: "get_data s = Data d \<longleftrightarrow> srv_data s default_file = Some d"
  by (simp add: get_data_def split: option.splits)

text \<open>The error paths of \<open>GET /data/{username}\<close>: with \<open>force_refresh\<close> the
  endpoint never re-analyses, it answers 404; a stale cached document is 404
  \<open>Cache expired\<close>, and is not replaced by the default file.\<close>

lemma get_user_data_force: "snd (serve s (Get_User_Data u True now)) = Http_Error 404 (No_User_Data u)"
  by (simp add: serve_def get_user_data_def)

lemma get_user_data_stale:
  assumes "srv_data s (data_file u) = Some d" "iso_parse (pf_analyzed_at (doc_profile d)) = Some t"
    and "\<not> is_fresh now t"
  shows "snd (serve s (Get_User_Data u False now)) = Http_Error 404 (Cache_Expired u)"
  using assms by (simp add: serve_def get_user_data_def cached_lookup_def)

text \<open>C23: \<open>GET /data\<close> answers with a document only if, among the requests served
  since the start, there was a successful analysis of the user named
  \<open>profile\<close>, and the document is that analysis: the endpoint reads
  \<open>data/profile.json\<close>, which no other request writes.\<close>

theorem get_data_only_user_profile:
  assumes "snd (serve (run (server_init tok) rs) Get_Data) = Data d"
  shows "\<exists>xs r ys. rs = xs @ r # ys \<and> analysis_of r = Some (''profile'', doc_profile d)"
proof -
  have "srv_data (run (server_init tok) rs) default_file = Some d"
    using assms by (simp add: serve_def get_data_Data)
  from run_data_origin [OF this] show ?thesis
    by (auto simp: server_init_def data_file_default)
qed

theorem get_data_only_user_profile_witness:
  "snd (serve (run (server_init True)
     [Analyze_Post ''profile'' (Inr (projr (analyze_profile ''profile'' (ymd 2024 3 5) (ymd 2024 3 5)
        (Inr blank_user) (Inr []))))]) Get_Data) =
   Data \<lparr>doc_profile = projr (analyze_profile ''profile'' (ymd 2024 3 5) (ymd 2024 3 5) (Inr blank_user) (Inr [])),
         doc_charts = chart_links ''profile'' (generate_all_charts (set_username chart_generator_init ''profile'')
           (projr (analyze_profile ''profile'' (ymd 2024 3 5) (ymd 2024 3 5) (Inr blank_user) (Inr []))))\<rparr>
   \<and> (\<exists>xs r ys. [Analyze_Post ''profile'' (Inr (projr (analyze_profile ''profile'' (ymd 2024 3 5) (ymd 2024 3 5)
        (Inr blank_user) (Inr []))))] = xs @ r # ys \<and>
        analysis_of r = Some (''profile'', projr (analyze_profile ''profile'' (ymd 2024 3 5) (ymd 2024 3 5)
          (Inr blank_user) (Inr []))))"
proof -
  let ?P = "projr (analyze_profile ''profile'' (ymd 2024 3 5) (ymd 2024 3 5) (Inr blank_user) (Inr []))"
  let ?D = "\<lparr>doc_profile = ?P, doc_charts = chart_links ''profile''
              (generate_all_charts (set_username chart_generator_init ''profile'') ?P)\<rparr>"
  have h: "snd (serve (run (server_init True) [Analyze_Post ''profile'' (Inr ?P)]) Get_Data) = Data ?D"
    by (simp add: serve_def analyze_endpoint_def analyze_and_save_Inr get_data_def data_file_def
                  default_file_def server_init_def Let_def)
  from h get_data_only_user_profile [OF h] show ?thesis by simp
qed

text \<open>C30: in every state the service can reach, each chart link of the document
  cached for a user (a GitHub login: non-empty, no slash) names a chart file of
  that user's folder, and \<open>GET /charts/{username}/{chart_name}\<close> serves the file:
  no sequence of requests, \<open>DELETE /data\<close> included, leaves a dangling link.\<close>

theorem chart_links_resolve:
  assumes "reachable s" "safe_user u" "srv_data s (data_file u) = Some d"
    and "(n, l) \<in> set (doc_charts d)"
  shows "\<exists>f. l = ''/charts/'' @ u @ ''/'' @ f \<and> snd (serve s (Get_Chart u f)) = Chart_File (chart_path u f)"
  using reachable_links [OF assms] by (auto simp: serve_def get_chart_def)


theorem chart_links_resolve_witness:
  "reachable (run (server_init True)
     [Analyze_Get ''octocat'' (analyze_profile ''octocat'' (ymd 2024 3 5) (ymd 2024 3 5) (Inr blank_user)
        (Inr [blank_repo])), Clear_Data])
   \<and> srv_data (run (server_init True)
       [Analyze_Get ''octocat'' (analyze_profile ''octocat'' (ymd 2024 3 5) (ymd 2024 3 5) (Inr blank_user)
          (Inr [blank_repo])), Clear_Data]) (data_file ''octocat'') \<noteq> None
   \<and> snd (serve (run (server_init True)
       [Analyze_Get ''octocat'' (analyze_profile ''octocat'' (ymd 2024 3 5) (ymd 2024 3 5) (Inr blank_user)
          (Inr [blank_repo])), Clear_Data]) (Get_Chart ''octocat'' ''contributions.png'')) =
     Chart_File ''charts/octocat/contributions.png''"
proof -
  let ?res = "analyze_profile ''octocat'' (ymd 2024 3 5) (ymd 2024 3 5) (Inr blank_user) (Inr [blank_repo])"
  let ?rs = "[Analyze_Get ''octocat'' ?res, Clear_Data]"
  let ?s = "run (server_init True) ?rs"
  have g: "get_top_repositories [blank_repo] = Inr [repo_summary_of blank_repo []]"
    by (simp add: get_top_repositories_def top_by_def py_sorted_desc_def top_repos_n_def blank_repo_def)
  define P where "P = projr ?res"
  have res: "?res = Inr P"
    unfolding P_def by (simp only: analyze_profile_def Let_def sum.case g sum.sel)
  have fields: "pf_top_languages P = []" "cb_star_timeline (pf_contribution_summary P) = []"
      "pf_top_repositories P = [repo_summary_of blank_repo []]"
    unfolding P_def
    by (simp_all only: analyze_profile_def Let_def sum.case g sum.sel profile.select_convs
          get_contribution_summary_def contribution_summary.select_convs)
       (simp_all add: get_top_languages_def count_languages_def language_credits_def blank_repo_def
          most_common_def add_credits_def Let_def get_star_timeline_def star_items_def repo_star_item_def)
  have charts: "generate_all_charts (set_username chart_generator_init ''octocat'') P =
                [(''contributions'', ''charts/octocat/contributions.png'')]"
    by (simp add: generate_all_charts_def fields generate_contribution_heatmap_def set_username_def
                  chart_generator_init_def py_path_join_def)
  have reach: "reachable ?s"
    by (simp add: reachable.init reachable.step)
  have doc: "srv_data ?s (data_file ''octocat'') =
             Some \<lparr>doc_profile = P, doc_charts = [(''contributions'', ''/charts/octocat/contributions.png'')]\<rparr>"
    by (simp add: res serve_analysis serve_def clear_data_def analyze_endpoint_def analyze_and_save_Inr
                  server_init_def charts chart_links_def py_basename_def data_file_def default_file_def Let_def)
  have safe: "safe_user ''octocat''" by (simp add: safe_user_def)
  obtain f where f: "''/charts/octocat/contributions.png'' = ''/charts/'' @ ''octocat'' @ ''/'' @ f"
      "snd (serve ?s (Get_Chart ''octocat'' f)) = Chart_File (chart_path ''octocat'' f)"
    using chart_links_resolve [OF reach safe doc, of "''contributions''" "''/charts/octocat/contributions.png''"]
    by auto
  have "f = ''contributions.png''" using f(1) by simp
  with f(2) reach doc show ?thesis by (simp add: chart_path_def py_path_join_def)
qed

text \<open>C34: after a successful analysis of a user (\<open>GET /analyze/{username}\<close>),
  \<open>GET /data/{username}\<close> keeps answering with the stored document for 24 hours,
  whatever other requests are served in between, as long as none re-analyses the
  user or deletes the user's file; \<open>DELETE /data\<close> deletes it only for the user
  named \<open>profile\<close>.\<close>

theorem cached_profile_served:
  assumes "serve s (Analyze_Get u (analyze_profile u now0 analyzed ur rr)) = (s1, Analyzed u doc)"
    and "dt_valid analyzed"
    and "\<forall>r \<in> set rs. \<not> touches_cache u r"
    and "is_fresh now analyzed"
  shows "snd (serve (run s1 rs) (Get_User_Data u False now)) = Data doc"
proof -
  from serve_analyze_get_ok [OF assms(1)] have
    ok: "analyze_profile u now0 analyzed ur rr = Inr (doc_profile doc)" "srv_data s1 (data_file u) = Some doc"
    by auto
  have stored: "srv_data (run s1 rs) (data_file u) = Some doc"
    using run_data_untouched [OF assms(3)] ok(2) by simp
  have "iso_parse (pf_analyzed_at (doc_profile doc)) = Some analyzed"
    using analyze_profile_analyzed_at [OF ok(1)] iso_parse_isoformat [OF assms(2)] by simp
  then show ?thesis
    using stored assms(4) by (simp add: serve_def get_user_data_def cached_lookup_def)
qed

theorem cached_profile_served_witness:
  "serve (server_init True) (Analyze_Get ''octocat''
       (analyze_profile ''octocat'' (ymd 2024 3 5) (ymd 2024 3 5) (Inr blank_user) (Inr []))) =
     (fst (serve (server_init True) (Analyze_Get ''octocat''
        (analyze_profile ''octocat'' (ymd 2024 3 5) (ymd 2024 3 5) (Inr blank_user) (Inr [])))),
      Analyzed ''octocat'' (the (srv_data (fst (serve (server_init True) (Analyze_Get ''octocat''
        (analyze_profile ''octocat'' (ymd 2024 3 5) (ymd 2024 3 5) (Inr blank_user) (Inr []))))) (data_file ''octocat''))))
   \<and> snd (serve (run (fst (serve (server_init True) (Analyze_Get ''octocat''
        (analyze_profile ''octocat'' (ymd 2024 3 5) (ymd 2024 3 5) (Inr blank_user) (Inr [])))))
        [Clear_Data, Get_Data, Analyze_Post ''torvalds'' (Inl (GitHub_API_Error Rate_Limited))])
        (Get_User_Data ''octocat'' False (ymd 2024 3 5))) =
     Data (the (srv_data (fst (serve (server_init True) (Analyze_Get ''octocat''
        (analyze_profile ''octocat'' (ymd 2024 3 5) (ymd 2024 3 5) (Inr blank_user) (Inr []))))) (data_file ''octocat'')))"
proof -
  let ?res = "analyze_profile ''octocat'' (ymd 2024 3 5) (ymd 2024 3 5) (Inr blank_user) (Inr [])"
  let ?s1 = "fst (serve (server_init True) (Analyze_Get ''octocat'' ?res))"
  let ?doc = "the (srv_data ?s1 (data_file ''octocat''))"
  define P where "P = projr ?res"
  have res: "?res = Inr P"
    unfolding P_def by (simp only: analyze_profile_def Let_def sum.case get_top_repositories_Nil sum.sel)
  have a: "serve (server_init True) (Analyze_Get ''octocat'' ?res) = (?s1, Analyzed ''octocat'' ?doc)"
    by (simp add: res serve_def analyze_endpoint_def analyze_and_save_Inr Let_def)
  have v: "dt_valid (ymd 2024 3 5)"
    by (simp add: dt_valid_def ymd_def days_in_month_def is_leap_def)
  have t: "\<forall>r \<in> set [Clear_Data, Get_Data, Analyze_Post ''torvalds'' (Inl (GitHub_API_Error Rate_Limited))].
             \<not> touches_cache ''octocat'' r"
    by (simp add: touches_cache_def data_file_def default_file_def)
  have f: "is_fresh (ymd 2024 3 5) (ymd 2024 3 5)"
    by (simp add: is_fresh_def day_us_def)
  from a cached_profile_served [OF a v t f] show ?thesis by simp
qed

text \<open>C38: the chart-wait loop terminates on every schedule of the file's
  appearance, and returns the first poll, from where it starts, at which the file
  exists; if the file does not appear before the poll limit, it gives up after
  \<open>max_wait_polls\<close> polls.  It never sleeps past the limit nor returns before
  the file is there.\<close>

theorem chart_wait_first_poll:
  assumes "w \<le> max_wait_polls"
  shows "wait_chart ex w =
           (if \<exists>k. w \<le> k \<and> k < max_wait_polls \<and> ex k then (LEAST k. w \<le> k \<and> ex k)
            else max_wait_polls)"
  using assms
proof (induction ex w rule: wait_chart.induct)
  case (1 ex w)
  show ?case
  proof (cases "ex w")
    case True
    then have "w < max_wait_polls \<Longrightarrow> (LEAST k. w \<le> k \<and> ex k) = w"
      by (intro Least_equality) auto
    with True "1.prems" show ?thesis
      by (subst wait_chart.simps) (auto simp: le_less)
  next
    case False
    show ?thesis
    proof (cases "w < max_wait_polls")
      case True
      have p: "(\<lambda>k. w \<le> k \<and> ex k) = (\<lambda>k. Suc w \<le> k \<and> ex k)"
        using False by (auto simp: le_less Suc_le_eq)
      have e: "(\<exists>k. w \<le> k \<and> k < max_wait_polls \<and> ex k) \<longleftrightarrow>
               (\<exists>k. Suc w \<le> k \<and> k < max_wait_polls \<and> ex k)"
      proof
        assume "\<exists>k. w \<le> k \<and> k < max_wait_polls \<and> ex k"
        then obtain k where "w \<le> k \<and> ex k" "k < max_wait_polls" by blast
        with p show "\<exists>k. Suc w \<le> k \<and> k < max_wait_polls \<and> ex k" by metis
      next
        assume "\<exists>k. Suc w \<le> k \<and> k < max_wait_polls \<and> ex k"
        then show "\<exists>k. w \<le> k \<and> k < max_wait_polls \<and> ex k" by (auto dest: Suc_leD)
      qed
      have step: "wait_chart ex w = wait_chart ex (Suc w)"
        using False True by (subst wait_chart.simps) simp
      have ih: "wait_chart ex (Suc w) =
                  (if \<exists>k. Suc w \<le> k \<and> k < max_wait_polls \<and> ex k
                   then (LEAST k. Suc w \<le> k \<and> ex k) else max_wait_polls)"
        by (rule "1.IH" [OF conjI [OF False True]]) (simp add: Suc_le_eq True)
      show ?thesis unfolding p e step ih by (rule refl)
    next
      case False
      with "1.prems" have "w = max_wait_polls" by simp
      then show ?thesis by (subst wait_chart.simps) auto
    qed
  qed
qed

theorem chart_wait_first_poll_witness:
  "0 \<le> max_wait_polls \<and> wait_chart (\<lambda>k. 3 \<le> k) 0 = 3"
proof -
  have l: "Least ((\<le>) (3::nat)) = 3" by (rule Least_equality) auto
  have "\<exists>k::nat. 0 \<le> k \<and> k < max_wait_polls \<and> 3 \<le> k"
    by (rule exI [of _ 3]) (simp add: max_wait_polls_def)
  then show ?thesis
    using chart_wait_first_poll [of 0 "\<lambda>k. 3 \<le> k"] by (simp add: l)
qed

text \<open>Every successful analysis stamps a timestamp that reads back.\<close>

lemma analyze_profile_stamp:
  "analyze_profile u now analyzed ur rr = Inr p \<Longrightarrow> dt_valid analyzed \<Longrightarrow>
   iso_parse (pf_analyzed_at p) = Some analyzed"
  by (simp add: analyze_profile_analyzed_at iso_parse_isoformat)

lemma run_stamps:
  assumes "\<forall>r \<in> set rs. stamp_ok r" "srv_data (run (server_init tok) rs) f = Some d"
  shows "iso_parse (pf_analyzed_at (doc_profile d)) \<noteq> None"
proof -
  from run_data_origin [OF assms(2)] obtain xs r ys v where
    "rs = xs @ r # ys" "analysis_of r = Some (v, doc_profile d)"
    by (auto simp: server_init_def)
  with assms(1) show ?thesis by (auto simp: stamp_ok_def)
qed

lemma cached_lookup_no_500:
  "iso_parse (pf_analyzed_at (doc_profile d)) \<noteq> None \<Longrightarrow>
   cached_lookup d now (Http_Error 404 det) \<in> range Data \<union> range (Http_Error 404)"
  by (auto simp: cached_lookup_def)

text \<open>C36: as long as every analysis stores a timestamp that \<open>fromisoformat\<close>
  reads (which every analysis with a valid clock does), \<open>GET /data/{username}\<close>
  never reaches its \<open>except Exception\<close> clause: whatever requests were served
  before, it answers with a stored document or with a 404, never with a 500.\<close>

theorem user_data_never_500:
  assumes "\<forall>r \<in> set rs. stamp_ok r"
  shows "snd (serve (run (server_init tok) rs) (Get_User_Data u force now))
           \<in> range Data \<union> range (Http_Error 404)"
  using run_stamps [OF assms] cached_lookup_no_500
  by (auto simp: serve_def get_user_data_def split: option.splits)

theorem user_data_never_500_witness:
  "stamp_ok (Analyze_Get ''octocat''
        (analyze_profile ''octocat'' (ymd 2024 3 5) (ymd 2024 3 5) (Inr blank_user) (Inr [])))
   \<and> snd (serve (run (server_init True) [Analyze_Get ''octocat''
        (analyze_profile ''octocat'' (ymd 2024 3 5) (ymd 2024 3 5) (Inr blank_user) (Inr []))])
        (Get_User_Data ''octocat'' False (ymd 2024 3 7))) \<in> range Data \<union> range (Http_Error 404)"
proof -
  let ?res = "analyze_profile ''octocat'' (ymd 2024 3 5) (ymd 2024 3 5) (Inr blank_user) (Inr [])"
  have res: "?res = Inr (projr ?res)"
    by (simp only: analyze_profile_def Let_def sum.case get_top_repositories_Nil sum.sel)
  have v: "dt_valid (ymd 2024 3 5)"
    by (simp add: dt_valid_def ymd_def days_in_month_def is_leap_def)
  have ok: "\<forall>r \<in> set [Analyze_Get ''octocat'' ?res]. stamp_ok r"
    using analyze_profile_stamp [OF res v] by (subst res) (simp add: stamp_ok_def)
  from ok user_data_never_500 [OF ok, of True "''octocat''" False "ymd 2024 3 7"]
  show ?thesis by simp
qed

end
