(* ===== verification/Spec2Isabelle.thy ===== *)
theory Spec2Isabelle
  imports Stats Scoring Levels Collaborators Languages TopRepos Timeline Activity Summary Profile Charts
    Server
begin

text \<open>
  \<^bold>\<open>A verification model of GitFolio AI.\<close>

  The program (src/backend) is a FastAPI service (main.py).  Its analysis
  endpoints call \<open>GitHubAnalyzer.analyze_profile\<close> (github_analyzer.py) and have
  \<open>ChartGenerator.generate_all_charts\<close> (charts.py) draw the profile's charts.  They
  then store the profile as JSON in \<open>data/{username}.json\<close>; the read endpoints serve
  the stored documents and chart files.  The analyzer fetches a user and the user's
  repositories through PyGithub and reduces them to one profile dictionary:
  \<^item> statistics;
  \<^item> a language distribution;
  \<^item> the five top repositories;
  \<^item> a contribution summary (star timeline, most active weekday, streak);
  \<^item> a collaboration score;
  \<^item> a deduplicated registry of collaborators and contributors;
  \<^item> a templated summary.

  \<^bold>\<open>Library layout\<close> (each theory imports the ones it calls).
  \<^item> \<open>Prelude\<close>: shared vocabulary.
    \<^item> API outcomes are \<open>api_error + 'a\<close> (\<open>'a fetch\<close>), with the
      swallow-and-default \<open>fetch_or\<close>.
    \<^item> \<open>Counter\<close> is an insertion-ordered association list.
    \<^item> CPython's \<open>sorted(..., reverse=True)\<close> is \<open>py_sorted_desc\<close>, with its
      stability and selection lemmas.
    \<^item> \<open>round(x, n)\<close> rounds half to even on exact reals.
    \<^item> Zero-padded decimals are rendered and read back.
  \<^item> \<open>PyDatetime\<close>: \<open>datetime\<close> as used by the program.
    \<^item> Ordinals, \<open>timedelta\<close>, \<open>strftime\<close> and \<open>isoformat\<close>.
    \<^item> The parser \<open>iso_parse\<close> for \<open>fromisoformat\<close>, with the round trip
      \<open>iso_parse (dt_isoformat d) = Some d\<close>.
  \<^item> \<open>GitHubSource\<close>: PyGithub objects as records.  Each request is a field holding
    its outcome in this analysis.
  \<^item> The analyzer's components, one theory each (github_analyzer.py):
    \<^item> \<open>Stats\<close>: \<open>_calculate_stats\<close> and \<open>_estimate_total_commits\<close>.
    \<^item> \<open>Scoring\<close>: \<open>_calculate_collaboration_score\<close>, a fold of four guarded
      blocks over the loop's locals.
    \<^item> \<open>Levels\<close>: the scale of collaboration levels as a \<open>linorder\<close> instance,
      and how the level relates to the team-fit label.
    \<^item> \<open>Collaborators\<close>: \<open>_get_collaborators\<close>.
    \<^item> \<open>Languages\<close>: \<open>_get_top_languages\<close>.
    \<^item> \<open>TopRepos\<close>: \<open>_get_top_repositories\<close>.
    \<^item> \<open>Timeline\<close>: \<open>_get_star_timeline\<close>.
    \<^item> \<open>Activity\<close>: \<open>_get_contribution_summary\<close>, with the weekday tally and
      the streak.
    \<^item> \<open>Summary\<close>: \<open>_generate_ai_summary\<close>.
    \<^item> \<open>Profile\<close>: \<open>analyze_profile\<close>, the assembly and its error kinds.
  \<^item> \<open>Charts\<close> (charts.py):
    \<^item> the generator's output directory (\<open>set_username\<close>);
    \<^item> which chart each method produces and at which path;
    \<^item> \<open>generate_all_charts\<close>;
    \<^item> the bars of the (uncalled) repo-stats chart;
    \<^item> the heatmap's data grid (\<open>heat_counts\<close>: weekday \<open>\<times>\<close> hour cells
      weighted by stars and forks).
  \<^item> \<open>Server\<close> (main.py):
    \<^item> the service state as a record: stored documents by path, chart files,
      the generator, and the count of sleeps;
    \<^item> every endpoint as a function;
    \<^item> \<open>serve\<close>, the step on one request;
    \<^item> \<open>run\<close> on a sequence of requests, and the \<open>reachable\<close> states as an
      inductive relation.
    The outcome of an analysis and the clock are inputs of the request.

  \<^bold>\<open>What is proved\<close>, by claim.
  \<^item> Scoring (C1, C2, C4-C6): every score is in range.  Review counts are
    bounded by the sampled PRs.  A failing collaborator request is isolated.
    The overall score is the reported combination.
  \<^item> Levels (C7): the level is decided on the unrounded score, so the reported
    level differs from the level of the reported score only at the thresholds 20,
    40, 60 and 75, reached by rounding up, where it is the level just below.
  \<^item> Levels (C11): a Collaborative team fit means a level of at least
    Moderate, and Strong or above is always Collaborative.  The level is monotone
    in the score.
  \<^item> Collaborators (C8-C10, C12-C15): the registry is a refinement of the set
    of distinct logins, with the first sighting's role, the sighting counts, and
    total contributions summed over contributor sightings.  The top 15 people
    dominate everyone left out, with ties in first-sighting order.
  \<^item> Languages (C16-C19): bounds and dominance of the top five, bytes
    credited, and the 1000-byte fallback.
  \<^item> Ranker (C20-C22): the ranking and its tie order; a failing topics request
    aborts the analysis.
  \<^item> Timeline (C24-C27): cumulative, monotone, last total, and month keys
    read back.  The spec's worked example is a lemma.
  \<^item> Activity (C29, C31-C33): the most active day is a mode; streak bounds and
    the gap rule; partial tallies are kept.
  \<^item> Summary (C35) and Profile (C37, C39): the developer type, the three
    error kinds, and that two analyses at different clock readings differ at most
    in the contribution summary and the timestamp.
  \<^item> Stats (C40): the commit estimate is capped and isolated.
  \<^item> Charts (C3): the heatmap grid is the sum, per cell, of the weights of the
    top repositories updated at that weekday and hour.  This composes the ranker,
    \<open>isoformat\<close> and \<open>fromisoformat\<close>.
  \<^item> Charts (C28): a successful analysis yields the language, star and heatmap
    charts exactly when its data allow each one.
  \<^item> Server:
    \<^item> C23: \<open>GET /data\<close> answers only after an analysis of the user literally
      named \<open>profile\<close>.
    \<^item> C30, an invariant by rule induction over \<open>reachable\<close>: every chart link
      of a cached document resolves to an existing file.
    \<^item> C34: a fresh cached profile keeps being served through any interleaving
      of requests that does not touch it; \<open>DELETE /data\<close> does not touch it.
    \<^item> C36: when every analysis stores a readable timestamp,
      \<open>GET /data/{username}\<close> never answers 500.
    \<^item> C38: for every schedule of a chart file's appearance, the wait loop
      terminates at the first poll that finds the file, or gives up after
      \<open>max_wait_polls\<close> polls.

  \<^bold>\<open>Bounds and fuel.\<close>  No loop needs fuel:
  \<^item> Every loop of the analyzer is structural recursion over a finite list.  The
    source's caps (20, 30, 50, 100, 15, 5 repositories; 12 months) are
    definitions that the bounds lemmas name.
  \<^item> The one unbounded-looking loop, the chart wait of \<open>analyze_and_save\<close>, is
    a \<open>function\<close> over the poll count, whose \<open>termination\<close> uses the
    measure \<open>max_wait_polls - waited\<close>.  The file's existence at each poll is
    an input, so the loop is characterised for every schedule of the file's
    appearance.  The limit \<open>max_wait_polls = 51\<close> is the number of float
    additions of 0.1 that stay below 5.  It is the one constant computed outside
    the logic, with CPython.
  \<^item> The clock is read twice by the contribution summary (github_analyzer.py 176
    and 261).  The model uses one reading for both.

  \<^bold>\<open>Not modelled.\<close>
  \<^item> The network behaviour of PyGithub (pagination, rate limits, retries): a
    request is its outcome.
  \<^item> Floating point: scores and heatmap weights are exact reals.
  \<^item> Matplotlib drawing, PNG encoding, and the gaussian smoothing of the heatmap.
  \<^item> JSON serialisation: \<open>json.dump\<close> then \<open>json.load\<close> is the identity.
  \<^item> ISO strings other than those \<open>isoformat\<close> writes for UTC times.
  \<^item> The FastAPI and uvicorn machinery (routing beyond the dispatch in \<open>serve\<close>,
    CORS, the static mount, which serves the same files as \<open>get_chart\<close>),
    logging, and filesystem errors.
  \<^item> The source lines the map leaves out, which have no behaviour to model:
    imports, the FastAPI app and CORS setup, \<open>plt.style.use\<close>, and the
    \<open>uvicorn.run\<close> entry point.
\<close>

end
